(* ===== verification/Celestia_Prelude.thy ===== *)
theory Celestia_Prelude
  imports Complex_Main "HOL-Library.Multiset"
begin

text \<open>
  Shared vocabulary of the Celestia development.

  The program is TypeScript; its values are JavaScript values. This theory fixes how
  they are read in HOL and proves the facts about them that every component uses:
  \<^item> a JavaScript \<open>number\<close> that holds a measurement (degrees, radians, an orb) is a
    \<^typ>\<open>real\<close>; one that holds an index, a count, a house or a percentage is an
    \<^typ>\<open>int\<close>. IEEE-754 rounding, \<open>NaN\<close>, the infinities and the sign of zero are
    not modelled;
  \<^item> the remainder operator \<open>%\<close> truncates towards zero (the result has the sign of
    the dividend): \<open>js_rem\<close> on numbers, \<open>js_rem_int\<close> on integers;
  \<^item> \<open>Math.round\<close> rounds halves up; \<open>Math.atan2\<close> is the angle of a point in
    \<open>(-\<pi>, \<pi>]\<close>;
  \<^item> an array read \<open>xs[i]\<close> is \<open>js_index\<close> (\<open>None\<close> is \<open>undefined\<close>),
    \<open>Array.prototype.findIndex\<close> is \<open>findIndex\<close> (\<open>-1\<close> when nothing matches),
    \<open>Array.prototype.find\<close> is \<^const>\<open>List.find\<close>, \<open>Array.prototype.sort\<close> with a
    comparator \<open>(a, b) => key(a) - key(b)\<close> is the stable \<^const>\<open>sort_key\<close>;
  \<^item> a thrown exception is a value \<open>Inl e\<close> of the type \<open>'a result\<close>; \<open>bind_result\<close>
    and \<open>mapM_result\<close> sequence calls the way statement order and \<open>Array.prototype.map\<close> do.
\<close>

section \<open>Collections of facts\<close>

named_theorems js_defs \<open>defining equations of the JavaScript primitives\<close>
named_theorems celestia_defs \<open>defining equations of the operations of the program\<close>
named_theorems result_simps \<open>rewrite rules for computations that may throw\<close>

section \<open>Numbers\<close>

type_synonym number = real

text \<open>UTF-16 code units of a string that is not ASCII (the astrological glyphs).\<close>
type_synonym code_units = "nat list"

definition js_trunc :: "number \<Rightarrow> int" where
  "js_trunc x = (if 0 \<le> x then \<lfloor>x\<rfloor> else \<lceil>x\<rceil>)"

definition js_rem :: "number \<Rightarrow> number \<Rightarrow> number" where
  "js_rem a b = a - b * of_int (js_trunc (a / b))"

definition js_rem_int :: "int \<Rightarrow> int \<Rightarrow> int" where
  "js_rem_int a b = sgn a * (\<bar>a\<bar> mod \<bar>b\<bar>)"

definition Math_round :: "number \<Rightarrow> int" where
  "Math_round x = \<lfloor>x + 1 / 2\<rfloor>"

definition Math_atan2 :: "number \<Rightarrow> number \<Rightarrow> number" where
  "Math_atan2 y x =
     (if 0 < x then arctan (y / x)
      else if x < 0 then (if 0 \<le> y then arctan (y / x) + pi else arctan (y / x) - pi)
      else if 0 < y then pi / 2
      else if y < 0 then - (pi / 2)
      else 0)"

lemmas [js_defs] = js_trunc_def js_rem_def js_rem_int_def Math_round_def Math_atan2_def

section \<open>Arrays\<close>

definition js_index :: "'a list \<Rightarrow> int \<Rightarrow> 'a option" where
  "js_index xs i = (if 0 \<le> i \<and> i < int (length xs) then Some (xs ! nat i) else None)"

fun findIndex_from :: "int \<Rightarrow> ('a \<Rightarrow> bool) \<Rightarrow> 'a list \<Rightarrow> int" where
  "findIndex_from i P [] = - 1"
| "findIndex_from i P (x # xs) = (if P x then i else findIndex_from (i + 1) P xs)"

definition findIndex :: "('a \<Rightarrow> bool) \<Rightarrow> 'a list \<Rightarrow> int" where
  "findIndex P xs = findIndex_from 0 P xs"

lemmas [js_defs] = js_index_def findIndex_def

section \<open>Exceptions\<close>

datatype error =
    TypeError string
  | SyntaxError
  | ZodError
  | Error string
  | ProviderError string

type_synonym 'a result = "error + 'a"

definition bind_result :: "'a result \<Rightarrow> ('a \<Rightarrow> 'b result) \<Rightarrow> 'b result" where
  "bind_result m f = (case m of Inl e \<Rightarrow> Inl e | Inr x \<Rightarrow> f x)"

fun mapM_result :: "('a \<Rightarrow> 'b result) \<Rightarrow> 'a list \<Rightarrow> 'b list result" where
  "mapM_result f [] = Inr []"
| "mapM_result f (x # xs) =
     bind_result (f x) (\<lambda>y. bind_result (mapM_result f xs) (\<lambda>ys. Inr (y # ys)))"

section \<open>Facts about the remainder\<close>

lemma js_trunc_of_int [simp]: "js_trunc (of_int k) = k"
  by (simp add: js_trunc_def)

lemma js_trunc_nonneg: "0 \<le> x \<Longrightarrow> js_trunc x = \<lfloor>x\<rfloor>"
  by (simp add: js_trunc_def)

lemma js_trunc_neg: "x < 0 \<Longrightarrow> js_trunc x = \<lceil>x\<rceil>"
  by (simp add: js_trunc_def)

lemma js_rem_nonneg_eq:
  assumes "0 \<le> a" and "0 < b"
  shows "js_rem a b = a - b * of_int \<lfloor>a / b\<rfloor>"
  using assms by (simp add: js_rem_def js_trunc_nonneg)

lemma floor_mult_bounds:
  fixes a b :: real
  assumes "0 < b"
  shows "b * of_int \<lfloor>a / b\<rfloor> \<le> a" and "a < b * of_int \<lfloor>a / b\<rfloor> + b"
proof -
  have "of_int \<lfloor>a / b\<rfloor> \<le> a / b" by (rule of_int_floor_le)
  with assms have "of_int \<lfloor>a / b\<rfloor> * b \<le> a"
    by (simp only: pos_le_divide_eq)
  then show "b * of_int \<lfloor>a / b\<rfloor> \<le> a"
    by (simp only: mult.commute)
  have "a / b < of_int \<lfloor>a / b\<rfloor> + 1" by linarith
  with assms have "a < (of_int \<lfloor>a / b\<rfloor> + 1) * b"
    by (simp only: pos_divide_less_eq)
  then show "a < b * of_int \<lfloor>a / b\<rfloor> + b"
    by (simp add: algebra_simps)
qed

lemma ceiling_mult_bounds:
  fixes a b :: real
  assumes "0 < b"
  shows "a \<le> b * of_int \<lceil>a / b\<rceil>" and "b * of_int \<lceil>a / b\<rceil> - b < a"
proof -
  have "a / b \<le> of_int \<lceil>a / b\<rceil>" by (rule le_of_int_ceiling)
  with assms have "a \<le> of_int \<lceil>a / b\<rceil> * b"
    by (simp only: pos_divide_le_eq)
  then show "a \<le> b * of_int \<lceil>a / b\<rceil>"
    by (simp only: mult.commute)
  have "of_int \<lceil>a / b\<rceil> - 1 < a / b" by linarith
  with assms have "(of_int \<lceil>a / b\<rceil> - 1) * b < a"
    by (simp only: pos_less_divide_eq)
  then show "b * of_int \<lceil>a / b\<rceil> - b < a"
    by (simp add: algebra_simps)
qed

lemma js_rem_nonneg_range:
  assumes "0 \<le> a" and "0 < b"
  shows "0 \<le> js_rem a b" and "js_rem a b < b"
  using assms floor_mult_bounds [of b a] by (simp_all add: js_rem_nonneg_eq)

lemma js_rem_neg_range:
  assumes "a < 0" and "0 < b"
  shows "- b < js_rem a b" and "js_rem a b \<le> 0"
proof -
  from assms have "a / b < 0" by (simp add: field_simps)
  then have "js_rem a b = a - b * of_int \<lceil>a / b\<rceil>"
    by (simp add: js_rem_def js_trunc_neg)
  with ceiling_mult_bounds [OF assms(2), of a]
  show "- b < js_rem a b" and "js_rem a b \<le> 0" by simp_all
qed

lemma js_rem_small:
  assumes "0 \<le> a" and "a < b"
  shows "js_rem a b = a"
proof -
  from assms have "\<lfloor>a / b\<rfloor> = 0" by (simp add: floor_eq_iff)
  with assms show ?thesis by (simp add: js_rem_nonneg_eq)
qed

lemma js_rem_small_neg:
  assumes "a < 0" and "- b < a"
  shows "js_rem a b = a"
proof -
  from assms have b: "0 < b" by simp
  with assms have "a / b < 0" and "- 1 < a / b" by (simp_all add: field_simps)
  then have "\<lceil>a / b\<rceil> = 0" by (simp add: ceiling_eq_iff)
  with \<open>a / b < 0\<close> show ?thesis by (simp add: js_rem_def js_trunc_neg)
qed

lemma js_rem_idem:
  assumes "0 < b"
  shows "js_rem (js_rem a b) b = js_rem a b"
proof (cases "0 \<le> a")
  case True
  with assms show ?thesis
    by (intro js_rem_small js_rem_nonneg_range)
next
  case False
  with assms have *: "- b < js_rem a b" "js_rem a b \<le> 0"
    by (simp_all add: js_rem_neg_range)
  show ?thesis
  proof (cases "js_rem a b = 0")
    case True
    with assms show ?thesis by (simp add: js_rem_small)
  next
    case False
    with * show ?thesis by (intro js_rem_small_neg) simp_all
  qed
qed

lemma js_rem_add_period:
  assumes "0 \<le> a" and "0 < b"
  shows "js_rem (a + b) b = js_rem a b"
proof -
  from assms have "(a + b) / b = a / b + 1" by (simp add: field_simps)
  then have "\<lfloor>(a + b) / b\<rfloor> = \<lfloor>a / b\<rfloor> + 1" by simp
  with assms show ?thesis
    by (simp add: js_rem_nonneg_eq algebra_simps)
qed

lemma js_rem_int_nonneg: "0 \<le> a \<Longrightarrow> js_rem_int a b = a mod \<bar>b\<bar>"
  by (cases "a = 0") (simp_all add: js_rem_int_def)

lemma js_rem_int_range:
  assumes "0 \<le> a" and "0 < b"
  shows "0 \<le> js_rem_int a b \<and> js_rem_int a b < b"
  using assms by (simp add: js_rem_int_nonneg)

section \<open>Facts about rounding and the arc tangent\<close>

lemma Math_round_of_int [simp]: "Math_round (of_int k) = k"
proof -
  have "\<lfloor>of_int k + (1 / 2 :: real)\<rfloor> = k" by (simp add: floor_eq_iff)
  then show ?thesis by (simp add: Math_round_def)
qed

lemma Math_round_eq_round: "Math_round x = round x"
  by (simp add: Math_round_def round_def)

lemma Math_atan2_range: "- pi < Math_atan2 y x \<and> Math_atan2 y x \<le> pi"
proof -
  have lb: "- (pi / 2) < arctan (y / x)" and ub: "arctan (y / x) < pi / 2"
    by (rule arctan_lbound, rule arctan_ubound)
  consider (right) "0 < x" | (up) "x < 0" "0 \<le> y" | (down) "x < 0" "y < 0" | (axis) "x = 0"
    by linarith
  then show ?thesis
  proof cases
    case right
    from lb ub pi_gt_zero have "- pi < arctan (y / x)" and "arctan (y / x) \<le> pi"
      by linarith+
    with right show ?thesis by (simp add: Math_atan2_def)
  next
    case up
    then have "y / x \<le> 0" by (simp add: divide_nonneg_neg)
    then have "arctan (y / x) \<le> 0" by simp
    with lb pi_gt_zero have "- pi < arctan (y / x) + pi" and "arctan (y / x) + pi \<le> pi"
      by linarith+
    with up show ?thesis by (simp add: Math_atan2_def)
  next
    case down
    then have "0 < y / x" by (simp add: divide_neg_neg)
    then have "0 < arctan (y / x)" by simp
    with ub pi_gt_zero have "- pi < arctan (y / x) - pi" and "arctan (y / x) - pi \<le> pi"
      by linarith+
    with down show ?thesis by (simp add: Math_atan2_def)
  next
    case axis
    from pi_gt_zero have "- pi < pi / 2" "- pi < - (pi / 2)" "pi / 2 \<le> pi" "- (pi / 2) \<le> pi"
      by linarith+
    with axis pi_gt_zero show ?thesis by (simp add: Math_atan2_def)
  qed
qed

section \<open>Facts about arrays\<close>

lemma js_index_Some_iff:
  "js_index xs i = Some x \<longleftrightarrow> 0 \<le> i \<and> i < int (length xs) \<and> xs ! nat i = x"
  by (auto simp: js_index_def)

lemma js_index_None_iff: "js_index xs i = None \<longleftrightarrow> i < 0 \<or> int (length xs) \<le> i"
  by (auto simp: js_index_def)

lemma js_index_of_nat [simp]: "n < length xs \<Longrightarrow> js_index xs (int n) = Some (xs ! n)"
  by (simp add: js_index_def)

lemma findIndex_from_range:
  "findIndex_from i P xs = - 1 \<or> (i \<le> findIndex_from i P xs \<and> findIndex_from i P xs < i + int (length xs))"
  by (induction xs arbitrary: i) (simp, force)

lemma findIndex_from_nth:
  assumes "n < length xs" and "P (xs ! n)" and "\<forall>m<n. \<not> P (xs ! m)" and "0 \<le> i"
  shows "findIndex_from i P xs = i + int n"
  using assms
proof (induction xs arbitrary: i n)
  case Nil
  then show ?case by simp
next
  case (Cons x xs)
  show ?case
  proof (cases n)
    case 0
    with Cons.prems show ?thesis by simp
  next
    case (Suc k)
    with Cons.prems have "\<not> P x" by auto
    moreover from Suc Cons.prems have "findIndex_from (i + 1) P xs = i + 1 + int k"
      by (intro Cons.IH) auto
    ultimately show ?thesis using Suc by simp
  qed
qed

lemma findIndex_nth:
  assumes "n < length xs" and "P (xs ! n)" and "\<forall>m<n. \<not> P (xs ! m)"
  shows "findIndex P xs = int n"
  using findIndex_from_nth [OF assms, of 0] by (simp add: findIndex_def)

lemma findIndex_from_none: "(\<forall>x\<in>set xs. \<not> P x) \<Longrightarrow> findIndex_from i P xs = - 1"
  by (induction xs arbitrary: i) simp_all

lemma set_map_filter: "set (List.map_filter f xs) = {y. \<exists>x\<in>set xs. f x = Some y}"
  by (induction xs) (auto split: option.splits)

lemma length_map_filter_le: "length (List.map_filter f xs) \<le> length xs"
  by (simp add: List.map_filter_def)

section \<open>Facts about computations that may throw\<close>

lemma bind_result_Inr [result_simps, simp]: "bind_result (Inr x) f = f x"
  by (simp add: bind_result_def)

lemma bind_result_Inl [result_simps, simp]: "bind_result (Inl e) f = Inl e"
  by (simp add: bind_result_def)

lemma bind_result_eq_Inr_iff [result_simps]:
  "bind_result m f = Inr y \<longleftrightarrow> (\<exists>x. m = Inr x \<and> f x = Inr y)"
  by (cases m) simp_all

lemma bind_result_eq_Inl_iff [result_simps]:
  "bind_result m f = Inl e \<longleftrightarrow> m = Inl e \<or> (\<exists>x. m = Inr x \<and> f x = Inl e)"
  by (cases m) simp_all

lemma mapM_result_Inr_iff:
  "mapM_result f xs = Inr ys \<longleftrightarrow> length ys = length xs \<and> (\<forall>i<length xs. f (xs ! i) = Inr (ys ! i))"
proof (induction xs arbitrary: ys)
  case Nil
  then show ?case by auto
next
  case (Cons x xs)
  show ?case
  proof (cases ys)
    case Nil
    then show ?thesis by (auto simp: bind_result_eq_Inr_iff)
  next
    case (Cons y ys')
    then show ?thesis
      by (auto simp: bind_result_eq_Inr_iff Cons.IH less_Suc_eq_0_disj)
  qed
qed

lemma mapM_result_total:
  assumes "\<forall>x\<in>set xs. \<exists>y. f x = Inr y"
  shows "\<exists>ys. mapM_result f xs = Inr ys"
  using assms by (induction xs) (auto simp: bind_result_eq_Inr_iff)

lemma mapM_result_pure [simp]: "mapM_result (\<lambda>x. Inr (g x)) xs = Inr (map g xs)"
  by (induction xs) simp_all

lemma mapM_result_first_error:
  assumes "n < length xs" and "f (xs ! n) = Inl e" and "\<forall>m<n. \<exists>y. f (xs ! m) = Inr y"
  shows "mapM_result f xs = Inl e"
  using assms
proof (induction xs arbitrary: n)
  case Nil
  then show ?case by simp
next
  case (Cons x xs)
  show ?case
  proof (cases n)
    case 0
    with Cons.prems show ?thesis by simp
  next
    case (Suc k)
    with Cons.prems obtain y where "f x = Inr y" by fastforce
    moreover from Suc Cons.prems have "mapM_result f xs = Inl e"
      by (intro Cons.IH [of k]) auto
    ultimately show ?thesis by simp
  qed
qed

lemma mapM_result_error_index:
  assumes "mapM_result f xs = Inl e"
  shows "\<exists>n<length xs. f (xs ! n) = Inl e \<and> (\<forall>m<n. \<exists>y. f (xs ! m) = Inr y)"
  using assms
proof (induction xs)
  case Nil
  then show ?case by simp
next
  case (Cons x xs)
  show ?case
  proof (cases "f x")
    case (Inl e')
    with Cons.prems have "f ((x # xs) ! 0) = Inl e" by simp
    then show ?thesis by (intro exI [of _ 0]) simp
  next
    case (Inr y)
    with Cons.prems have "mapM_result f xs = Inl e"
      by (cases "mapM_result f xs") simp_all
    then obtain n where n: "n < length xs" "f (xs ! n) = Inl e" "\<forall>m<n. \<exists>y. f (xs ! m) = Inr y"
      using Cons.IH by blast
    with Inr have "\<forall>m<Suc n. \<exists>y. f ((x # xs) ! m) = Inr y"
      by (auto simp: less_Suc_eq_0_disj)
    with n show ?thesis by (intro exI [of _ "Suc n"]) simp
  qed
qed

lemma mapM_result_Inl_iff:
  "mapM_result f xs = Inl e \<longleftrightarrow>
     (\<exists>n<length xs. f (xs ! n) = Inl e \<and> (\<forall>m<n. \<exists>y. f (xs ! m) = Inr y))"
  using mapM_result_error_index mapM_result_first_error by blast

section \<open>Facts about the stable sort\<close>
text \<open>
  \<open>Array.prototype.sort\<close> is stable (ECMAScript 2019), so with a comparator that
  subtracts keys its result is the one list that is sorted by the key, has the elements of
  the input, and keeps the input order among equal keys: \<^const>\<open>sort_key\<close>.
\<close>

lemmas sort_key_facts = sorted_sort_key mset_sort length_sort set_sort sort_key_stable

lemma sort_key_nth_mono:
  assumes "i \<le> j" and "j < length xs"
  shows "f (sort_key f xs ! i) \<le> f (sort_key f xs ! j)"
proof -
  have "sorted (map f (sort_key f xs))" by (rule sorted_sort_key)
  with assms have "map f (sort_key f xs) ! i \<le> map f (sort_key f xs) ! j"
    by (intro sorted_nth_mono) simp_all
  with assms show ?thesis by simp
qed

end
