(* ===== verification/Celestia_Types.thy ===== *)
theory Celestia_Types
  imports Celestia_Prelude
begin

text \<open>
  The data model: the interfaces of \<open>types.ts\<close> as records and the tables of
  \<open>constants.ts\<close> as lists (both files are part of \<open>src/unnamed/part_001\<close>).

  A TypeScript interface is a \<^theory_text>\<open>record\<close> with the interface's field names. Several
  interfaces share field names (\<open>name\<close>, \<open>sign\<close>, \<open>degree\<close>, \<open>rising\<close>); a field is then
  written with its record's name in front, as in \<open>ZodiacSign.name\<close>. The object spread
  \<open>{...p, interpretation}\<close> is record extension: \<open>PlanetPosition\<close> extends
  \<open>CalculatedPlanet\<close> (\<open>Omit<PlanetPosition, 'interpretation'>\<close>), \<open>ChartData\<close> extends the
  chart that the astronomy service computes. Names that are ASCII are \<^typ>\<open>string\<close>s, the
  astrological glyphs are lists of UTF-16 code units. The element of a sign is the string
  the table holds.
\<close>

section \<open>types.ts\<close>

record CalculatedPlanet =
  name :: string
  symbol :: code_units
  sign :: string
  signSymbol :: code_units
  degree :: number
  relativeDegree :: number
  house :: int
  retrograde :: bool

record PlanetPosition = CalculatedPlanet +
  "interpretation" :: string

record ElementalBalance =
  fire :: int
  earth :: int
  air :: int
  water :: int

record Rising =
  sign :: string
  signSymbol :: code_units
  degree :: number

record BigThree =
  sun :: string
  moon :: string
  rising :: string

record 'p Chart =
  planets :: "'p list"
  rising :: Rising
  elements :: ElementalBalance
  bigThree :: BigThree

type_synonym CalculatedChart = "CalculatedPlanet Chart"

record ChartData = "PlanetPosition Chart" +
  name :: "string option"
  summary :: string

record SynastryAspect =
  planetA :: string
  planetB :: string
  aspectType :: string
  description :: string
  orb :: number

record Analysis =
  overview :: string
  strengths :: "string list"
  challenges :: "string list"
  keyAspects :: "SynastryAspect list"

record SynastryData =
  personA :: ChartData
  personB :: ChartData
  analysis :: Analysis

record BirthDetails =
  date :: string
  time :: string
  location :: string
  name :: string

record ResolvedLocation =
  lat :: number
  lon :: number
  utcTime :: string
  formattedAddress :: string

section \<open>constants.ts\<close>

record ZodiacSign =
  name :: string
  symbol :: code_units
  startDegree :: number
  element :: string

definition ZODIAC_SIGNS :: "ZodiacSign list" where
  "ZODIAC_SIGNS =
    [\<lparr>ZodiacSign.name = ''Aries'', ZodiacSign.symbol = [0x2648, 0xFE0E], startDegree = 0, element = ''fire''\<rparr>,
     \<lparr>ZodiacSign.name = ''Taurus'', ZodiacSign.symbol = [0x2649, 0xFE0E], startDegree = 30, element = ''earth''\<rparr>,
     \<lparr>ZodiacSign.name = ''Gemini'', ZodiacSign.symbol = [0x264A, 0xFE0E], startDegree = 60, element = ''air''\<rparr>,
     \<lparr>ZodiacSign.name = ''Cancer'', ZodiacSign.symbol = [0x264B, 0xFE0E], startDegree = 90, element = ''water''\<rparr>,
     \<lparr>ZodiacSign.name = ''Leo'', ZodiacSign.symbol = [0x264C, 0xFE0E], startDegree = 120, element = ''fire''\<rparr>,
     \<lparr>ZodiacSign.name = ''Virgo'', ZodiacSign.symbol = [0x264D, 0xFE0E], startDegree = 150, element = ''earth''\<rparr>,
     \<lparr>ZodiacSign.name = ''Libra'', ZodiacSign.symbol = [0x264E, 0xFE0E], startDegree = 180, element = ''air''\<rparr>,
     \<lparr>ZodiacSign.name = ''Scorpio'', ZodiacSign.symbol = [0x264F, 0xFE0E], startDegree = 210, element = ''water''\<rparr>,
     \<lparr>ZodiacSign.name = ''Sagittarius'', ZodiacSign.symbol = [0x2650, 0xFE0E], startDegree = 240, element = ''fire''\<rparr>,
     \<lparr>ZodiacSign.name = ''Capricorn'', ZodiacSign.symbol = [0x2651, 0xFE0E], startDegree = 270, element = ''earth''\<rparr>,
     \<lparr>ZodiacSign.name = ''Aquarius'', ZodiacSign.symbol = [0x2652, 0xFE0E], startDegree = 300, element = ''air''\<rparr>,
     \<lparr>ZodiacSign.name = ''Pisces'', ZodiacSign.symbol = [0x2653, 0xFE0E], startDegree = 330, element = ''water''\<rparr>]"

definition PLANET_SYMBOLS :: "(string \<times> code_units) list" where
  "PLANET_SYMBOLS =
    [(''Sun'', [0x2609]), (''Moon'', [0x263D]), (''Mercury'', [0x263F]), (''Venus'', [0x2640]),
     (''Mars'', [0x2642]), (''Jupiter'', [0x2643]), (''Saturn'', [0x2644]), (''Uranus'', [0x2645]),
     (''Neptune'', [0x2646]), (''Pluto'', [0x2647]), (''Chiron'', [0x26B7]), (''NorthNode'', [0x260A])]"

definition INITIAL_BIRTH_DETAILS :: BirthDetails where
  "INITIAL_BIRTH_DETAILS = \<lparr>date = '''', time = '''', location = '''', BirthDetails.name = ''''\<rparr>"

lemmas [celestia_defs] = ZODIAC_SIGNS_def PLANET_SYMBOLS_def INITIAL_BIRTH_DETAILS_def

section \<open>Notions used to state the properties\<close>

definition balanceTotal :: "ElementalBalance \<Rightarrow> int" where
  "balanceTotal b = fire b + earth b + air b + water b"

definition sign_names :: "string list" where
  "sign_names = map ZodiacSign.name ZODIAC_SIGNS"

section \<open>The zodiac table\<close>

lemma length_ZODIAC_SIGNS [simp]: "length ZODIAC_SIGNS = 12"
  by (simp add: ZODIAC_SIGNS_def)

lemma sign_names_eq:
  "sign_names = [''Aries'', ''Taurus'', ''Gemini'', ''Cancer'', ''Leo'', ''Virgo'', ''Libra'',
     ''Scorpio'', ''Sagittarius'', ''Capricorn'', ''Aquarius'', ''Pisces'']"
  by (simp add: sign_names_def ZODIAC_SIGNS_def)

lemma distinct_sign_names: "distinct sign_names"
  by (simp add: sign_names_eq)

lemma length_sign_names [simp]: "length sign_names = 12"
  by (simp add: sign_names_def)

text \<open>The \<open>i\<close>-th sign starts at \<open>30 i\<close> degrees: the table is laid out as the sign mapping
  \<open>floor (longitude / 30)\<close> needs it.\<close>

lemma startDegree_nth:
  assumes "i < 12"
  shows "startDegree (ZODIAC_SIGNS ! i) = 30 * real i"
proof -
  have "map startDegree ZODIAC_SIGNS = map (\<lambda>i. 30 * real i) [0..<12]"
    by (simp add: ZODIAC_SIGNS_def upt_rec)
  then have "map startDegree ZODIAC_SIGNS ! i = map (\<lambda>i. 30 * real i) [0..<12] ! i"
    by (rule arg_cong)
  with assms show ?thesis by simp
qed

text \<open>The elements repeat with period four: fire, earth, air, water.\<close>

lemma element_nth:
  assumes "i < 12"
  shows "element (ZODIAC_SIGNS ! i) = [''fire'', ''earth'', ''air'', ''water''] ! (i mod 4)"
proof -
  have "map element ZODIAC_SIGNS = map (\<lambda>i. [''fire'', ''earth'', ''air'', ''water''] ! (i mod 4)) [0..<12]"
    by (simp add: ZODIAC_SIGNS_def upt_rec)
  then have "map element ZODIAC_SIGNS ! i
      = map (\<lambda>i. [''fire'', ''earth'', ''air'', ''water''] ! (i mod 4)) [0..<12] ! i"
    by (rule arg_cong)
  with assms show ?thesis by simp
qed

lemma element_in_table:
  assumes "z \<in> set ZODIAC_SIGNS"
  shows "element z \<in> {''fire'', ''earth'', ''air'', ''water''}"
  using assms by (auto simp: ZODIAC_SIGNS_def)

text \<open>Looking a sign up by its name finds its own index, because the names are distinct.\<close>

lemma sign_name_eq_iff:
  assumes "i < 12" and "j < 12"
  shows "ZodiacSign.name (ZODIAC_SIGNS ! i) = ZodiacSign.name (ZODIAC_SIGNS ! j) \<longleftrightarrow> i = j"
proof -
  from assms have "sign_names ! i = sign_names ! j \<longleftrightarrow> i = j"
    using distinct_sign_names by (simp add: nth_eq_iff_index_eq)
  with assms show ?thesis by (simp add: sign_names_def)
qed

lemma findIndex_sign_name:
  assumes "i < 12"
  shows "findIndex (\<lambda>z. ZodiacSign.name z = ZodiacSign.name (ZODIAC_SIGNS ! i)) ZODIAC_SIGNS = int i"
  using assms by (intro findIndex_nth) (simp_all add: sign_name_eq_iff)

lemma find_sign_name:
  assumes "i < 12"
  shows "find (\<lambda>z. ZodiacSign.name z = ZodiacSign.name (ZODIAC_SIGNS ! i)) ZODIAC_SIGNS
    = Some (ZODIAC_SIGNS ! i)"
  using assms by (auto simp: find_Some_iff sign_name_eq_iff intro!: exI [of _ i])

end
