(* ===== verification/Astronomy_Service.thy ===== *)
theory Astronomy_Service
  imports Celestia_Types
begin

text \<open>
  The deterministic chart engine, \<open>services/astronomyService.ts\<close> (\<open>src/unnamed/part_003\<close>):
  \<open>getZodiacInfo\<close>, \<open>calculateAscendant\<close>, \<open>calculateChart\<close> and \<open>calculateAspects\<close>.

  The library \<open>astronomy-engine\<close> is not part of the repository. It is an interface here:
  a record of the five functions the service calls, over type variables for the library's
  body, time and vector types. Every call may throw, so every function returns a
  \<open>result\<close>; the service has no \<open>try\<close>, so the first exception is the result of the
  whole computation. A \<open>Date\<close> is its \<open>getTime()\<close>, milliseconds as an integer.

  Statements of the source that are expressions of one function are helper definitions
  here, composed in the source's order: \<open>normalizeDegrees\<close> is \<open>(x + 360) % 360\<close>,
  \<open>ascendantDegrees\<close> the arithmetic of \<open>calculateAscendant\<close> after the sidereal time is read,
  \<open>wholeSignHouse\<close> the house formula, \<open>countElement\<close> and \<open>elementPercentages\<close> the
  elemental balance, \<open>calculatePlanet\<close> the callback of \<open>BODIES.map\<close>, \<open>classifyAspect\<close>,
  \<open>aspectAngle\<close> and \<open>aspectOf\<close> the body of the double loop of \<open>calculateAspects\<close>.
  A parameter whose name is also a field of a record of the data model carries a prime
  (\<open>date'\<close>, \<open>lat'\<close>, \<open>planetA'\<close>).
\<close>

section \<open>The astronomy-engine interface\<close>

type_synonym Date = int

record ('b, 't, 'v) Astronomy =
  SiderealTime :: "Date \<Rightarrow> number result"
  MakeTime :: "Date \<Rightarrow> 't result"
  Body :: "string \<Rightarrow> 'b"
  GeoVector :: "'b \<Rightarrow> 't \<Rightarrow> bool \<Rightarrow> 'v result"
  Ecliptic :: "'v \<Rightarrow> number result"

section \<open>Types and constants\<close>

definition BODIES :: "string list" where
  "BODIES = [''Sun'', ''Moon'', ''Mercury'', ''Venus'', ''Mars'', ''Jupiter'', ''Saturn'',
     ''Uranus'', ''Neptune'', ''Pluto'']"

definition BODY_SYMBOLS :: "(string \<times> code_units) list" where
  "BODY_SYMBOLS =
    [(''Sun'', [0x2609]), (''Moon'', [0x263D]), (''Mercury'', [0x263F]), (''Venus'', [0x2640]),
     (''Mars'', [0x2642]), (''Jupiter'', [0x2643]), (''Saturn'', [0x2644]), (''Uranus'', [0x2645]),
     (''Neptune'', [0x2646]), (''Pluto'', [0x2647])]"

definition symbolOf :: "string \<Rightarrow> code_units" where
  "symbolOf bodyName = (case map_of BODY_SYMBOLS bodyName of None \<Rightarrow> [] | Some s \<Rightarrow> s)"

section \<open>Helper functions\<close>

record ZodiacInfo =
  sign :: "ZodiacSign option"
  relativeDegree :: number

definition normalizeDegrees :: "number \<Rightarrow> number" where
  "normalizeDegrees longitude = js_rem (longitude + 360) 360"

definition getZodiacInfo :: "number \<Rightarrow> ZodiacInfo" where
  "getZodiacInfo longitude =
     (let normalized = normalizeDegrees longitude;
          signIndex = \<lfloor>normalized / 30\<rfloor>;
          sign = js_index ZODIAC_SIGNS signIndex;
          relativeDegree = js_rem normalized 30
      in \<lparr>ZodiacInfo.sign = sign, ZodiacInfo.relativeDegree = relativeDegree\<rparr>)"

definition ascendantDegrees :: "number \<Rightarrow> number \<Rightarrow> number \<Rightarrow> number" where
  "ascendantDegrees gmst lat' lon' =
     (let lstHours = gmst + lon' / 15;
          lstDeg = lstHours * 15;
          ramc = (lstDeg * pi) / 180;
          eps = (23.4392911 * pi) / 180;
          latRad = (lat' * pi) / 180;
          num = cos ramc;
          den = - sin ramc * cos eps - tan latRad * sin eps;
          ascRad = Math_atan2 num den;
          ascDeg = (ascRad * 180) / pi
      in normalizeDegrees ascDeg)"

definition calculateAscendant ::
    "('b, 't, 'v) Astronomy \<Rightarrow> Date \<Rightarrow> number \<Rightarrow> number \<Rightarrow> number result" where
  "calculateAscendant A date' lat' lon' =
     bind_result (SiderealTime A date') (\<lambda>gmst. Inr (ascendantDegrees gmst lat' lon'))"

section \<open>calculateChart\<close>

definition wholeSignHouse :: "int \<Rightarrow> int \<Rightarrow> int" where
  "wholeSignHouse signIndex ascSignIndex = js_rem_int (signIndex - ascSignIndex + 12) 12 + 1"

definition isRetrograde :: "number \<Rightarrow> number \<Rightarrow> bool" where
  "isRetrograde longitude elonNext \<longleftrightarrow> elonNext < longitude \<and> longitude - elonNext < 180"

definition eclipticLongitude ::
    "('b, 't, 'v) Astronomy \<Rightarrow> 'b \<Rightarrow> Date \<Rightarrow> number result" where
  "eclipticLongitude A body date' =
     bind_result (MakeTime A date') (\<lambda>time.
     bind_result (GeoVector A body time True) (\<lambda>vec.
     Ecliptic A vec))"

definition calculatePlanet ::
    "('b, 't, 'v) Astronomy \<Rightarrow> Date \<Rightarrow> int \<Rightarrow> string \<Rightarrow> CalculatedPlanet result" where
  "calculatePlanet A date' ascSignIndex bodyName =
     (let body = Body A bodyName in
      bind_result (eclipticLongitude A body date') (\<lambda>longitude.
      bind_result (eclipticLongitude A body (date' + 3600000)) (\<lambda>elonNext.
        let retrograde = isRetrograde longitude elonNext;
            info = getZodiacInfo longitude
        in case ZodiacInfo.sign info of
             None \<Rightarrow> Inl (TypeError ''sign is undefined'')
           | Some sign' \<Rightarrow>
               let signIndex = findIndex (\<lambda>z. ZodiacSign.name z = ZodiacSign.name sign') ZODIAC_SIGNS;
                   house = wholeSignHouse signIndex ascSignIndex
               in Inr \<lparr>CalculatedPlanet.name = bodyName,
                       CalculatedPlanet.symbol = symbolOf bodyName,
                       CalculatedPlanet.sign = ZodiacSign.name sign',
                       CalculatedPlanet.signSymbol = ZodiacSign.symbol sign',
                       CalculatedPlanet.degree = longitude,
                       CalculatedPlanet.relativeDegree = ZodiacInfo.relativeDegree info,
                       house = house,
                       retrograde = retrograde\<rparr>)))"

definition countElement :: "ElementalBalance \<Rightarrow> 'a CalculatedPlanet_scheme \<Rightarrow> ElementalBalance" where
  "countElement counts p =
     (case find (\<lambda>z. ZodiacSign.name z = CalculatedPlanet.sign p) ZODIAC_SIGNS of
        None \<Rightarrow> counts
      | Some z \<Rightarrow>
          let el = element z in
          if el = ''fire'' then counts\<lparr>fire := fire counts + 1\<rparr>
          else if el = ''earth'' then counts\<lparr>earth := earth counts + 1\<rparr>
          else if el = ''air'' then counts\<lparr>air := air counts + 1\<rparr>
          else if el = ''water'' then counts\<lparr>water := water counts + 1\<rparr>
          else counts)"

definition elementCounts :: "'a CalculatedPlanet_scheme list \<Rightarrow> ElementalBalance" where
  "elementCounts ps = foldl countElement \<lparr>fire = 0, earth = 0, air = 0, water = 0\<rparr> ps"

definition elementPercentages :: "ElementalBalance \<Rightarrow> nat \<Rightarrow> ElementalBalance" where
  "elementPercentages counts n =
     (let total = max (int n) 1;
          firePct = Math_round ((of_int (fire counts) / of_int total) * 100);
          earthPct = Math_round ((of_int (earth counts) / of_int total) * 100);
          airPct = Math_round ((of_int (air counts) / of_int total) * 100);
          waterPct = 100 - firePct - earthPct - airPct
      in \<lparr>fire = firePct, earth = earthPct, air = airPct,
          water = (if waterPct < 0 then 0 else waterPct)\<rparr>)"

definition signOfBody :: "string \<Rightarrow> CalculatedPlanet list \<Rightarrow> string" where
  "signOfBody bodyName ps =
     (case find (\<lambda>p. CalculatedPlanet.name p = bodyName) ps of
        None \<Rightarrow> ''undefined''
      | Some p \<Rightarrow> CalculatedPlanet.sign p)"

definition calculateChart ::
    "('b, 't, 'v) Astronomy \<Rightarrow> Date \<Rightarrow> number \<Rightarrow> number \<Rightarrow> CalculatedChart result" where
  "calculateChart A date' lat' lon' =
     bind_result (calculateAscendant A date' lat' lon') (\<lambda>ascDegree.
       let ascInfo = getZodiacInfo ascDegree in
       case ZodiacInfo.sign ascInfo of
         None \<Rightarrow> Inl (TypeError ''ascInfo.sign is undefined'')
       | Some ascSign \<Rightarrow>
           let ascSignIndex = findIndex (\<lambda>z. ZodiacSign.name z = ZodiacSign.name ascSign) ZODIAC_SIGNS in
           bind_result (mapM_result (calculatePlanet A date' ascSignIndex) BODIES) (\<lambda>ps.
             Inr \<lparr>planets = ps,
                  Chart.rising = \<lparr>Rising.sign = ZodiacSign.name ascSign,
                                  Rising.signSymbol = ZodiacSign.symbol ascSign,
                                  Rising.degree = ascDegree\<rparr>,
                  elements = elementPercentages (elementCounts ps) (length ps),
                  bigThree = \<lparr>sun = signOfBody ''Sun'' ps,
                              moon = signOfBody ''Moon'' ps,
                              BigThree.rising = ZodiacSign.name ascSign\<rparr>\<rparr>))"

section \<open>calculateAspects\<close>

definition ORB :: number where
  "ORB = 6"

definition circularSeparation :: "number \<Rightarrow> number \<Rightarrow> number" where
  "circularSeparation a b = (let diff = \<bar>a - b\<bar> in if diff > 180 then 360 - diff else diff)"

definition classifyAspect :: "number \<Rightarrow> string" where
  "classifyAspect angle =
     (if \<bar>angle - 0\<bar> \<le> ORB then ''Conjunction''
      else if \<bar>angle - 60\<bar> \<le> ORB * 0.7 then ''Sextile''
      else if \<bar>angle - 90\<bar> \<le> ORB then ''Square''
      else if \<bar>angle - 120\<bar> \<le> ORB then ''Trine''
      else if \<bar>angle - 180\<bar> \<le> ORB then ''Opposition''
      else '''')"

definition aspectAngle :: "string \<Rightarrow> number" where
  "aspectAngle type =
     (if type = ''Conjunction'' then 0
      else if type = ''Sextile'' then 60
      else if type = ''Square'' then 90
      else if type = ''Trine'' then 120
      else 180)"

definition aspectOf ::
    "'a CalculatedPlanet_scheme \<Rightarrow> 'b CalculatedPlanet_scheme \<Rightarrow> SynastryAspect option" where
  "aspectOf planetA' planetB' =
     (let angle = circularSeparation (CalculatedPlanet.degree planetA') (CalculatedPlanet.degree planetB');
          type = classifyAspect angle
      in if type \<noteq> '''' then
           Some \<lparr>planetA = CalculatedPlanet.name planetA',
                 planetB = CalculatedPlanet.name planetB',
                 SynastryAspect.aspectType = type,
                 description = '''',
                 orb = \<bar>angle - aspectAngle type\<bar>\<rparr>
         else None)"

definition allAspects ::
    "'a CalculatedPlanet_scheme list \<Rightarrow> 'b CalculatedPlanet_scheme list \<Rightarrow> SynastryAspect list" where
  "allAspects ps1 ps2 = concat (map (\<lambda>a. List.map_filter (aspectOf a) ps2) ps1)"

definition calculateAspects ::
    "('a CalculatedPlanet_scheme, 'c) Chart_scheme \<Rightarrow> ('b CalculatedPlanet_scheme, 'd) Chart_scheme
       \<Rightarrow> SynastryAspect list" where
  "calculateAspects p1 p2 = take 8 (sort_key orb (allAspects (planets p1) (planets p2)))"

section \<open>Notions used to state the properties\<close>

text \<open>
  \<open>elementOf\<close> and \<open>countOf\<close> say what the elemental counts are meant to count,
  \<open>chartOf\<close> names the record that \<open>calculateChart\<close> returns, \<open>risingIndex\<close> the
  index of the rising sign, \<open>aspectOrb\<close> and \<open>aspectNames\<close> the orb table of the
  classifier. \<open>fixedSky\<close> is an implementation of the astronomy-engine interface in which
  every body stands at a given longitude; \<open>exampleSky\<close>, \<open>planetAt\<close> and \<open>chartWith\<close>
  are the concrete inputs of the witnesses.
\<close>

definition elementOf :: "'a CalculatedPlanet_scheme \<Rightarrow> string option" where
  "elementOf p = map_option element (find (\<lambda>z. ZodiacSign.name z = CalculatedPlanet.sign p) ZODIAC_SIGNS)"

definition countOf :: "string \<Rightarrow> 'a CalculatedPlanet_scheme list \<Rightarrow> int" where
  "countOf el ps = int (length (filter (\<lambda>p. elementOf p = Some el) ps))"

definition chartOf :: "number \<Rightarrow> ZodiacSign \<Rightarrow> CalculatedPlanet list \<Rightarrow> CalculatedChart" where
  "chartOf ascDegree ascSign ps =
     \<lparr>planets = ps,
      Chart.rising = \<lparr>Rising.sign = ZodiacSign.name ascSign,
                      Rising.signSymbol = ZodiacSign.symbol ascSign,
                      Rising.degree = ascDegree\<rparr>,
      elements = elementPercentages (elementCounts ps) (length ps),
      bigThree = \<lparr>sun = signOfBody ''Sun'' ps,
                  moon = signOfBody ''Moon'' ps,
                  BigThree.rising = ZodiacSign.name ascSign\<rparr>\<rparr>"

definition risingIndex :: "number \<Rightarrow> nat" where
  "risingIndex asc = nat \<lfloor>asc / 30\<rfloor>"

definition aspectOrb :: "string \<Rightarrow> number" where
  "aspectOrb type = (if type = ''Sextile'' then ORB * 0.7 else ORB)"

definition aspectNames :: "string list" where
  "aspectNames = [''Conjunction'', ''Sextile'', ''Square'', ''Trine'', ''Opposition'']"

definition fixedSky :: "number \<Rightarrow> (string \<Rightarrow> Date \<Rightarrow> number) \<Rightarrow> (string, Date, string \<times> Date) Astronomy" where
  "fixedSky gmst pos =
     \<lparr>SiderealTime = (\<lambda>d. Inr gmst), MakeTime = Inr, Body = (\<lambda>b. b),
      GeoVector = (\<lambda>b t aberration. Inr (b, t)), Ecliptic = (\<lambda>(b, t). Inr (pos b t))\<rparr>"

definition exampleSky :: "(string, Date, string \<times> Date) Astronomy" where
  "exampleSky = fixedSky 0 (\<lambda>b t. 30 * real (length b) - 75)"

definition planetAt :: "string \<Rightarrow> number \<Rightarrow> CalculatedPlanet" where
  "planetAt b l = \<lparr>CalculatedPlanet.name = b, CalculatedPlanet.symbol = symbolOf b,
     CalculatedPlanet.sign = '''', CalculatedPlanet.signSymbol = [], CalculatedPlanet.degree = l,
     CalculatedPlanet.relativeDegree = 0, house = 1, retrograde = False\<rparr>"

definition chartWith :: "CalculatedPlanet list \<Rightarrow> CalculatedChart" where
  "chartWith ps = chartOf 0 (ZODIAC_SIGNS ! 0) ps"

lemmas [celestia_defs] =
  BODIES_def BODY_SYMBOLS_def symbolOf_def normalizeDegrees_def getZodiacInfo_def
  ascendantDegrees_def calculateAscendant_def wholeSignHouse_def isRetrograde_def eclipticLongitude_def
  calculatePlanet_def countElement_def elementCounts_def elementPercentages_def
  signOfBody_def calculateChart_def ORB_def circularSeparation_def classifyAspect_def
  aspectAngle_def aspectOf_def allAspects_def calculateAspects_def

section \<open>Normalisation of degrees\<close>

lemma normalizeDegrees_range:
  assumes "- 360 \<le> l"
  shows "0 \<le> normalizeDegrees l" and "normalizeDegrees l < 360"
  using assms by (simp_all add: normalizeDegrees_def js_rem_nonneg_range)

lemma normalizeDegrees_id:
  assumes "0 \<le> l" and "l < 360"
  shows "normalizeDegrees l = l"
  using assms by (simp add: normalizeDegrees_def js_rem_add_period js_rem_small)

lemma normalizeDegrees_shift:
  assumes "- 360 \<le> l" and "l < 0"
  shows "normalizeDegrees l = l + 360"
  using assms by (simp add: normalizeDegrees_def js_rem_small)

lemma normalizeDegrees_below:
  assumes "l < - 360"
  shows "- 360 < normalizeDegrees l" and "normalizeDegrees l \<le> 0"
  using assms js_rem_neg_range [of "l + 360" 360] by (simp_all add: normalizeDegrees_def)

lemma signIndex_range:
  assumes "0 \<le> n" and "n < 360"
  shows "0 \<le> \<lfloor>n / 30\<rfloor>" and "\<lfloor>n / 30 :: real\<rfloor> < 12"
  using assms by (simp_all add: floor_less_iff)

section \<open>Signs\<close>

lemma getZodiacInfo_sign:
  assumes "- 360 \<le> l"
  shows "ZodiacInfo.sign (getZodiacInfo l) = Some (ZODIAC_SIGNS ! nat \<lfloor>normalizeDegrees l / 30\<rfloor>)"
  using signIndex_range [OF normalizeDegrees_range [OF assms]]
  by (simp add: getZodiacInfo_def Let_def js_index_def)

lemma getZodiacInfo_relativeDegree:
  assumes "- 360 \<le> l"
  shows "ZodiacInfo.relativeDegree (getZodiacInfo l)
    = normalizeDegrees l - 30 * of_int \<lfloor>normalizeDegrees l / 30\<rfloor>"
  using normalizeDegrees_range [OF assms]
  by (simp add: getZodiacInfo_def Let_def js_rem_nonneg_eq)

lemma getZodiacInfo_relativeDegree_range:
  assumes "- 360 \<le> l"
  shows "0 \<le> ZodiacInfo.relativeDegree (getZodiacInfo l)"
    and "ZodiacInfo.relativeDegree (getZodiacInfo l) < 30"
  using normalizeDegrees_range [OF assms]
  by (simp_all add: getZodiacInfo_def Let_def js_rem_nonneg_range)

section \<open>Whole-sign houses\<close>

lemma wholeSignHouse_eq:
  assumes "- 12 \<le> s - a"
  shows "wholeSignHouse s a = (s - a) mod 12 + 1"
  using assms by (simp add: wholeSignHouse_def js_rem_int_nonneg)

lemma wholeSignHouse_range:
  assumes "- 12 \<le> s - a"
  shows "1 \<le> wholeSignHouse s a" and "wholeSignHouse s a \<le> 12"
  using assms by (simp_all add: wholeSignHouse_eq)

lemma wholeSignHouse_ascendant [simp]: "wholeSignHouse a a = 1"
  by (simp add: wholeSignHouse_eq)

lemma wholeSignHouse_inj:
  assumes "0 \<le> a" "a < 12" "0 \<le> s" "s < 12" "0 \<le> t" "t < 12"
    and "wholeSignHouse s a = wholeSignHouse t a"
  shows "s = t"
proof -
  from assms have "(s - a) mod 12 = (t - a) mod 12" by (simp add: wholeSignHouse_eq)
  then have "12 dvd (s - a) - (t - a)" by (simp add: mod_eq_dvd_iff)
  then have "12 dvd s - t" by simp
  with assms show ?thesis by presburger
qed


section \<open>The elemental balance\<close>

lemma countOf_Nil [simp]: "countOf el [] = 0"
  by (simp add: countOf_def)

lemma countOf_Cons [simp]:
  "countOf el (p # ps) = (if elementOf p = Some el then 1 else 0) + countOf el ps"
  by (simp add: countOf_def)

lemma countElement_fields:
  "fire (countElement c p) = fire c + countOf ''fire'' [p]"
  "earth (countElement c p) = earth c + countOf ''earth'' [p]"
  "air (countElement c p) = air c + countOf ''air'' [p]"
  "water (countElement c p) = water c + countOf ''water'' [p]"
  by (simp_all add: countElement_def elementOf_def Let_def split: option.split)

lemma foldl_countElement_fields:
  "fire (foldl countElement c ps) = fire c + countOf ''fire'' ps"
  "earth (foldl countElement c ps) = earth c + countOf ''earth'' ps"
  "air (foldl countElement c ps) = air c + countOf ''air'' ps"
  "water (foldl countElement c ps) = water c + countOf ''water'' ps"
  by (induction ps arbitrary: c) (simp_all add: countElement_fields)

lemma elementCounts_fields:
  "fire (elementCounts ps) = countOf ''fire'' ps"
  "earth (elementCounts ps) = countOf ''earth'' ps"
  "air (elementCounts ps) = countOf ''air'' ps"
  "water (elementCounts ps) = countOf ''water'' ps"
  by (simp_all add: elementCounts_def foldl_countElement_fields)

lemma elementOf_table:
  assumes "CalculatedPlanet.sign p \<in> set sign_names"
  shows "elementOf p \<in> Some ` {''fire'', ''earth'', ''air'', ''water''}"
proof -
  from assms obtain i where i: "i < 12" and "CalculatedPlanet.sign p = ZodiacSign.name (ZODIAC_SIGNS ! i)"
    by (auto simp: sign_names_def in_set_conv_nth)
  then have "elementOf p = Some (element (ZODIAC_SIGNS ! i))"
    by (simp add: elementOf_def find_sign_name)
  moreover from i have "ZODIAC_SIGNS ! i \<in> set ZODIAC_SIGNS" by simp
  ultimately show ?thesis using element_in_table by blast
qed

lemma countOf_total:
  assumes "\<forall>p\<in>set ps. CalculatedPlanet.sign p \<in> set sign_names"
  shows "countOf ''fire'' ps + countOf ''earth'' ps + countOf ''air'' ps + countOf ''water'' ps
    = int (length ps)"
  using assms
proof (induction ps)
  case Nil
  then show ?case by simp
next
  case (Cons p ps)
  from Cons.prems have "elementOf p \<in> Some ` {''fire'', ''earth'', ''air'', ''water''}"
    by (intro elementOf_table) simp
  with Cons show ?case by auto
qed

lemma countOf_nonneg [simp]: "0 \<le> countOf el ps"
  by (simp add: countOf_def)

lemma Math_round_numeral_mult [simp]: "Math_round (numeral n * of_int k) = numeral n * k"
proof -
  have "numeral n * of_int k = (of_int (numeral n * k) :: real)" by simp
  then show ?thesis by (simp only: Math_round_of_int)
qed

lemma elementPercentages_ten:
  assumes "balanceTotal c = 10" and "0 \<le> water c"
  shows "elementPercentages c 10
    = \<lparr>fire = 10 * fire c, earth = 10 * earth c, air = 10 * air c, water = 10 * water c\<rparr>"
proof -
  have "max (int 10) 1 = 10" by simp
  moreover from assms have "100 - 10 * fire c - 10 * earth c - 10 * air c = 10 * water c"
    by (simp add: balanceTotal_def)
  ultimately show ?thesis
    using assms(2) by (simp add: elementPercentages_def Let_def)
qed

text \<open>With eight bodies the three rounded shares can exceed 100; the clip then breaks the sum.\<close>

lemma elementPercentages_eight:
  "elementPercentages \<lparr>fire = 3, earth = 3, air = 2, water = 0\<rparr> 8
    = \<lparr>fire = 38, earth = 38, air = 25, water = 0\<rparr>"
  by code_simp

section \<open>The ascendant\<close>

lemma degrees_of_atan2_range:
  shows "- 180 < (Math_atan2 y x * 180) / pi" and "(Math_atan2 y x * 180) / pi \<le> 180"
  using Math_atan2_range [of y x] pi_gt_zero by (simp_all add: field_simps)

lemma ascendantDegrees_range:
  shows "0 \<le> ascendantDegrees gmst la lo" and "ascendantDegrees gmst la lo < 360"
proof -
  obtain y x where a: "ascendantDegrees gmst la lo = normalizeDegrees ((Math_atan2 y x * 180) / pi)"
    by (simp add: ascendantDegrees_def Let_def)
  have "- 360 \<le> (Math_atan2 y x * 180) / pi"
    using degrees_of_atan2_range(1) [of y x] by linarith
  then show "0 \<le> ascendantDegrees gmst la lo" and "ascendantDegrees gmst la lo < 360"
    unfolding a by (rule normalizeDegrees_range)+
qed

lemma ascendantDegrees_equator: "ascendantDegrees 0 0 0 = 90"
  by (simp add: ascendantDegrees_def Let_def Math_atan2_def normalizeDegrees_id)


lemma calculateAscendant_Inr_iff:
  "calculateAscendant A d la lo = Inr a \<longleftrightarrow>
     (\<exists>gmst. SiderealTime A d = Inr gmst \<and> a = ascendantDegrees gmst la lo)"
  by (auto simp: calculateAscendant_def bind_result_eq_Inr_iff)

lemma calculateAscendant_Inl_iff:
  "calculateAscendant A d la lo = Inl e \<longleftrightarrow> SiderealTime A d = Inl e"
  by (cases "SiderealTime A d") (simp_all add: calculateAscendant_def)

lemma calculateAscendant_range:
  assumes "calculateAscendant A d la lo = Inr a"
  shows "0 \<le> a" and "a < 360"
  using assms by (auto simp: calculateAscendant_Inr_iff ascendantDegrees_range)

section \<open>One body\<close>

lemma getZodiacInfo_sign_Some_iff:
  "ZodiacInfo.sign (getZodiacInfo l) = Some z \<longleftrightarrow>
     (\<exists>i<12. z = ZODIAC_SIGNS ! i \<and> int i = \<lfloor>normalizeDegrees l / 30\<rfloor>)"
proof
  assume "ZodiacInfo.sign (getZodiacInfo l) = Some z"
  then have *: "0 \<le> \<lfloor>normalizeDegrees l / 30\<rfloor>" "\<lfloor>normalizeDegrees l / 30\<rfloor> < 12"
    "z = ZODIAC_SIGNS ! nat \<lfloor>normalizeDegrees l / 30\<rfloor>"
    by (auto simp: getZodiacInfo_def Let_def js_index_Some_iff)
  from *(1,2) have "nat \<lfloor>normalizeDegrees l / 30\<rfloor> < 12"
    and "int (nat \<lfloor>normalizeDegrees l / 30\<rfloor>) = \<lfloor>normalizeDegrees l / 30\<rfloor>"
    by linarith+
  with *(3) show "\<exists>i<12. z = ZODIAC_SIGNS ! i \<and> int i = \<lfloor>normalizeDegrees l / 30\<rfloor>"
    by blast
next
  assume "\<exists>i<12. z = ZODIAC_SIGNS ! i \<and> int i = \<lfloor>normalizeDegrees l / 30\<rfloor>"
  then obtain i where "i < 12" "z = ZODIAC_SIGNS ! i" "int i = \<lfloor>normalizeDegrees l / 30\<rfloor>"
    by blast
  then show "ZodiacInfo.sign (getZodiacInfo l) = Some z"
    by (simp add: getZodiacInfo_def Let_def flip: \<open>int i = _\<close>)
qed

lemma calculatePlanet_Inr_iff:
  "calculatePlanet A d a b = Inr p \<longleftrightarrow>
     (\<exists>l l' z. eclipticLongitude A (Body A b) d = Inr l
        \<and> eclipticLongitude A (Body A b) (d + 3600000) = Inr l'
        \<and> ZodiacInfo.sign (getZodiacInfo l) = Some z
        \<and> p = \<lparr>CalculatedPlanet.name = b, CalculatedPlanet.symbol = symbolOf b,
                CalculatedPlanet.sign = ZodiacSign.name z,
                CalculatedPlanet.signSymbol = ZodiacSign.symbol z,
                CalculatedPlanet.degree = l,
                CalculatedPlanet.relativeDegree = ZodiacInfo.relativeDegree (getZodiacInfo l),
                house = wholeSignHouse (findIndex (\<lambda>z'. ZodiacSign.name z' = ZodiacSign.name z) ZODIAC_SIGNS) a,
                retrograde = isRetrograde l l'\<rparr>)"
  by (auto simp: calculatePlanet_def Let_def bind_result_eq_Inr_iff split: option.splits)

lemma calculatePlanet_name:
  "calculatePlanet A d a b = Inr p \<Longrightarrow> CalculatedPlanet.name p = b"
  by (auto simp: calculatePlanet_Inr_iff)

lemma calculatePlanet_sign:
  assumes "calculatePlanet A d a b = Inr p"
  obtains i where "i < 12"
    and "CalculatedPlanet.sign p = ZodiacSign.name (ZODIAC_SIGNS ! i)"
    and "CalculatedPlanet.signSymbol p = ZodiacSign.symbol (ZODIAC_SIGNS ! i)"
    and "int i = \<lfloor>normalizeDegrees (CalculatedPlanet.degree p) / 30\<rfloor>"
    and "house p = wholeSignHouse (int i) a"
proof -
  from assms obtain l z where z: "ZodiacInfo.sign (getZodiacInfo l) = Some z"
    and p: "CalculatedPlanet.sign p = ZodiacSign.name z" "CalculatedPlanet.signSymbol p = ZodiacSign.symbol z"
      "CalculatedPlanet.degree p = l"
      "house p = wholeSignHouse (findIndex (\<lambda>z'. ZodiacSign.name z' = ZodiacSign.name z) ZODIAC_SIGNS) a"
    by (auto simp: calculatePlanet_Inr_iff)
  from z obtain i where "i < 12" "z = ZODIAC_SIGNS ! i" "int i = \<lfloor>normalizeDegrees l / 30\<rfloor>"
    unfolding getZodiacInfo_sign_Some_iff by blast
  with p show thesis by (intro that [of i]) (simp_all add: findIndex_sign_name)
qed

lemma calculatePlanet_sign_in_table:
  assumes "calculatePlanet A d a b = Inr p"
  shows "CalculatedPlanet.sign p \<in> set sign_names"
  using assms by (rule calculatePlanet_sign) (simp add: sign_names_def)

lemma calculatePlanet_house_range:
  assumes "calculatePlanet A d a b = Inr p" and "0 \<le> a" and "a < 12"
  shows "1 \<le> house p" and "house p \<le> 12"
  using assms(1)
  by (rule calculatePlanet_sign, use assms(2,3) in \<open>simp add: wholeSignHouse_range\<close>)+

section \<open>The whole chart\<close>

lemma length_BODIES [simp]: "length BODIES = 10"
  by (simp add: BODIES_def)

lemma BODIES_symbols: "b \<in> set BODIES \<Longrightarrow> map_of BODY_SYMBOLS b \<noteq> None"
  by (auto simp: BODIES_def BODY_SYMBOLS_def)

lemma risingIndex_ascendant:
  shows "risingIndex (ascendantDegrees gmst la lo) < 12"
    and "int (risingIndex (ascendantDegrees gmst la lo)) = \<lfloor>ascendantDegrees gmst la lo / 30\<rfloor>"
proof -
  have "0 \<le> \<lfloor>ascendantDegrees gmst la lo / 30\<rfloor>" and "\<lfloor>ascendantDegrees gmst la lo / 30\<rfloor> < 12"
    by (rule signIndex_range; rule ascendantDegrees_range)+
  then show "risingIndex (ascendantDegrees gmst la lo) < 12"
    and "int (risingIndex (ascendantDegrees gmst la lo)) = \<lfloor>ascendantDegrees gmst la lo / 30\<rfloor>"
    unfolding risingIndex_def by linarith+
qed

lemma getZodiacInfo_ascendant:
  "ZodiacInfo.sign (getZodiacInfo (ascendantDegrees gmst la lo))
    = Some (ZODIAC_SIGNS ! risingIndex (ascendantDegrees gmst la lo))"
proof -
  have "normalizeDegrees (ascendantDegrees gmst la lo) = ascendantDegrees gmst la lo"
    by (simp add: normalizeDegrees_id ascendantDegrees_range)
  then show ?thesis
    unfolding getZodiacInfo_sign_Some_iff using risingIndex_ascendant [of gmst la lo] by auto
qed

lemma calculateChart_unfold:
  "calculateChart A d la lo =
     bind_result (SiderealTime A d) (\<lambda>gmst.
       bind_result (mapM_result (calculatePlanet A d (int (risingIndex (ascendantDegrees gmst la lo)))) BODIES)
         (\<lambda>ps. Inr (chartOf (ascendantDegrees gmst la lo)
                (ZODIAC_SIGNS ! risingIndex (ascendantDegrees gmst la lo)) ps)))"
proof (cases "SiderealTime A d")
  case (Inl e)
  then show ?thesis by (simp add: calculateChart_def calculateAscendant_def)
next
  case (Inr gmst)
  then show ?thesis
    by (simp add: calculateChart_def calculateAscendant_def Let_def chartOf_def
          getZodiacInfo_ascendant findIndex_sign_name risingIndex_ascendant(1))
qed

lemma calculateChart_Inr_iff:
  "calculateChart A d la lo = Inr c \<longleftrightarrow>
     (\<exists>gmst ps. SiderealTime A d = Inr gmst
        \<and> mapM_result (calculatePlanet A d (int (risingIndex (ascendantDegrees gmst la lo)))) BODIES = Inr ps
        \<and> c = chartOf (ascendantDegrees gmst la lo)
                (ZODIAC_SIGNS ! risingIndex (ascendantDegrees gmst la lo)) ps)"
  unfolding calculateChart_unfold by (auto simp: bind_result_eq_Inr_iff)

lemma calculateChart_cases:
  assumes "calculateChart A d la lo = Inr c"
  obtains gmst i ps where "SiderealTime A d = Inr gmst" and "i < 12"
    and "i = risingIndex (ascendantDegrees gmst la lo)"
    and "length ps = 10"
    and "\<And>k. k < 10 \<Longrightarrow> calculatePlanet A d (int i) (BODIES ! k) = Inr (ps ! k)"
    and "c = chartOf (ascendantDegrees gmst la lo) (ZODIAC_SIGNS ! i) ps"
  using assms unfolding calculateChart_Inr_iff mapM_result_Inr_iff
  by (auto simp: risingIndex_ascendant(1))

lemma calculateChart_planet:
  assumes "calculateChart A d la lo = Inr c" and "p \<in> set (planets c)"
  obtains i b where "i < 12" and "b \<in> set BODIES"
    and "Rising.sign (Chart.rising c) = ZodiacSign.name (ZODIAC_SIGNS ! i)"
    and "calculatePlanet A d (int i) b = Inr p"
proof -
  from assms(1) obtain gmst i ps where i: "i < 12" and len: "length ps = 10"
    and ps: "\<And>k. k < 10 \<Longrightarrow> calculatePlanet A d (int i) (BODIES ! k) = Inr (ps ! k)"
    and c: "c = chartOf (ascendantDegrees gmst la lo) (ZODIAC_SIGNS ! i) ps"
    by (rule calculateChart_cases) blast
  from assms(2) c len obtain k where "k < 10" "p = ps ! k"
    by (auto simp: chartOf_def in_set_conv_nth)
  with ps [of k] i c show thesis
    by (intro that [of i "BODIES ! k"]) (simp_all add: chartOf_def)
qed

lemma calculateChart_names:
  assumes "calculateChart A d la lo = Inr c"
  shows "map CalculatedPlanet.name (planets c) = BODIES"
proof -
  from assms obtain gmst i ps where len: "length ps = 10"
    and ps: "\<And>k. k < 10 \<Longrightarrow> calculatePlanet A d (int i) (BODIES ! k) = Inr (ps ! k)"
    and c: "c = chartOf (ascendantDegrees gmst la lo) (ZODIAC_SIGNS ! i) ps"
    by (rule calculateChart_cases) blast
  have "map CalculatedPlanet.name ps = BODIES"
  proof (rule nth_equalityI)
    show "length (map CalculatedPlanet.name ps) = length BODIES" using len by simp
    fix k assume "k < length (map CalculatedPlanet.name ps)"
    with len have "k < 10" by simp
    with ps [of k] len show "map CalculatedPlanet.name ps ! k = BODIES ! k"
      by (simp add: calculatePlanet_name)
  qed
  with c show ?thesis by (simp add: chartOf_def)
qed

lemma calculateChart_signs:
  assumes "calculateChart A d la lo = Inr c" and "p \<in> set (planets c)"
  shows "CalculatedPlanet.sign p \<in> set sign_names"
  using assms by (rule calculateChart_planet) (rule calculatePlanet_sign_in_table)

lemma calculateChart_elements:
  assumes "calculateChart A d la lo = Inr c"
  shows "elements c = \<lparr>fire = 10 * countOf ''fire'' (planets c), earth = 10 * countOf ''earth'' (planets c),
     air = 10 * countOf ''air'' (planets c), water = 10 * countOf ''water'' (planets c)\<rparr>"
proof -
  from assms have "length (map CalculatedPlanet.name (planets c)) = 10"
    by (simp add: calculateChart_names)
  then have len: "length (planets c) = 10" by simp
  from assms have "\<forall>p\<in>set (planets c). CalculatedPlanet.sign p \<in> set sign_names"
    by (blast intro: calculateChart_signs)
  with len have "balanceTotal (elementCounts (planets c)) = 10"
    by (simp add: balanceTotal_def elementCounts_fields countOf_total)
  then have "elementPercentages (elementCounts (planets c)) 10
      = \<lparr>fire = 10 * fire (elementCounts (planets c)), earth = 10 * earth (elementCounts (planets c)),
         air = 10 * air (elementCounts (planets c)), water = 10 * water (elementCounts (planets c))\<rparr>"
    by (rule elementPercentages_ten) (simp add: elementCounts_fields)
  moreover from assms have "elements c = elementPercentages (elementCounts (planets c)) (length (planets c))"
    by (auto simp: calculateChart_Inr_iff chartOf_def)
  ultimately show ?thesis using len by (simp add: elementCounts_fields)
qed

lemma calculatePlanet_succeeds:
  assumes "eclipticLongitude A (Body A b) d = Inr l"
    and "eclipticLongitude A (Body A b) (d + 3600000) = Inr l'"
    and "- 360 \<le> l"
  shows "\<exists>p. calculatePlanet A d a b = Inr p"
  using assms by (simp add: calculatePlanet_def Let_def getZodiacInfo_sign)

lemma calculateChart_succeeds:
  assumes "SiderealTime A d = Inr gmst"
    and "\<forall>b\<in>set BODIES. \<exists>l l'. eclipticLongitude A (Body A b) d = Inr l
          \<and> eclipticLongitude A (Body A b) (d + 3600000) = Inr l' \<and> - 360 \<le> l"
  shows "\<exists>c. calculateChart A d la lo = Inr c"
proof -
  from assms(2) have "\<forall>b\<in>set BODIES. \<exists>p.
      calculatePlanet A d (int (risingIndex (ascendantDegrees gmst la lo))) b = Inr p"
    by (blast intro: calculatePlanet_succeeds)
  then obtain ps where
    "mapM_result (calculatePlanet A d (int (risingIndex (ascendantDegrees gmst la lo)))) BODIES = Inr ps"
    using mapM_result_total by blast
  with assms(1) show ?thesis by (simp add: calculateChart_unfold)
qed


lemma calculateChart_house_one:
  assumes "calculateChart A d la lo = Inr c" and "p \<in> set (planets c)"
  shows "house p = 1 \<longleftrightarrow> CalculatedPlanet.sign p = Rising.sign (Chart.rising c)"
proof -
  from assms obtain i b where i: "i < 12"
    and r: "Rising.sign (Chart.rising c) = ZodiacSign.name (ZODIAC_SIGNS ! i)"
    and p: "calculatePlanet A d (int i) b = Inr p"
    by (rule calculateChart_planet)
  from p obtain j where j: "j < 12"
    and s: "CalculatedPlanet.sign p = ZodiacSign.name (ZODIAC_SIGNS ! j)"
    and h: "house p = wholeSignHouse (int j) (int i)"
    by (rule calculatePlanet_sign)
  from i j have "wholeSignHouse (int j) (int i) = 1 \<longleftrightarrow> j = i"
    using wholeSignHouse_inj [of "int i" "int j" "int i"] by auto
  with i j r s h show ?thesis by (simp add: sign_name_eq_iff)
qed

lemma calculateChart_house_range:
  assumes "calculateChart A d la lo = Inr c" and "p \<in> set (planets c)"
  shows "1 \<le> house p" and "house p \<le> 12"
proof -
  from assms obtain i b where "i < 12" and "calculatePlanet A d (int i) b = Inr p"
    by (rule calculateChart_planet)
  then show "1 \<le> house p" and "house p \<le> 12"
    by (simp_all add: calculatePlanet_house_range [where a = "int i"])
qed

section \<open>Aspects\<close>

lemma circularSeparation_sym: "circularSeparation a b = circularSeparation b a"
  by (simp add: circularSeparation_def abs_minus_commute)

lemma circularSeparation_le_180: "circularSeparation a b \<le> 180"
  by (simp add: circularSeparation_def Let_def)

lemma circularSeparation_nonneg:
  assumes "\<bar>a - b\<bar> \<le> 360"
  shows "0 \<le> circularSeparation a b"
  using assms by (simp add: circularSeparation_def Let_def)

lemma circularSeparation_range:
  assumes "0 \<le> a" "a < 360" "0 \<le> b" "b < 360"
  shows "0 \<le> circularSeparation a b" and "circularSeparation a b \<le> 180"
  using assms by (simp_all add: circularSeparation_nonneg circularSeparation_le_180)

lemma classifyAspect_orb:
  assumes "classifyAspect x \<noteq> ''''"
  shows "\<bar>x - aspectAngle (classifyAspect x)\<bar> \<le> aspectOrb (classifyAspect x)"
  using assms
  by (simp add: classifyAspect_def aspectAngle_def aspectOrb_def ORB_def split: if_splits)

lemma classifyAspect_names: "classifyAspect x = '''' \<or> classifyAspect x \<in> set aspectNames"
  by (simp add: classifyAspect_def aspectNames_def)

lemma classifyAspect_none_iff:
  "classifyAspect x = '''' \<longleftrightarrow> (\<forall>t\<in>set aspectNames. aspectOrb t < \<bar>x - aspectAngle t\<bar>)"
  by (simp add: aspectNames_def classifyAspect_def aspectAngle_def aspectOrb_def ORB_def not_le)

lemma aspectOf_Some_iff:
  "aspectOf a b = Some r \<longleftrightarrow>
     classifyAspect (circularSeparation (CalculatedPlanet.degree a) (CalculatedPlanet.degree b)) \<noteq> ''''
     \<and> r = \<lparr>planetA = CalculatedPlanet.name a, planetB = CalculatedPlanet.name b,
            SynastryAspect.aspectType =
              classifyAspect (circularSeparation (CalculatedPlanet.degree a) (CalculatedPlanet.degree b)),
            description = '''',
            orb = \<bar>circularSeparation (CalculatedPlanet.degree a) (CalculatedPlanet.degree b)
                   - aspectAngle (classifyAspect (circularSeparation (CalculatedPlanet.degree a) (CalculatedPlanet.degree b)))\<bar>\<rparr>"
  by (auto simp: aspectOf_def Let_def)

lemma aspectOf_orb:
  assumes "aspectOf a b = Some r"
  shows "SynastryAspect.aspectType r \<in> set aspectNames"
    and "0 \<le> orb r" and "orb r \<le> aspectOrb (SynastryAspect.aspectType r)"
proof -
  let ?x = "circularSeparation (CalculatedPlanet.degree a) (CalculatedPlanet.degree b)"
  from assms have t: "classifyAspect ?x \<noteq> ''''" "SynastryAspect.aspectType r = classifyAspect ?x"
    and o: "orb r = \<bar>?x - aspectAngle (classifyAspect ?x)\<bar>"
    by (simp_all add: aspectOf_Some_iff)
  from t classifyAspect_names [of ?x] show "SynastryAspect.aspectType r \<in> set aspectNames"
    by simp
  from o show "0 \<le> orb r" by simp
  from t o classifyAspect_orb [of ?x] show "orb r \<le> aspectOrb (SynastryAspect.aspectType r)"
    by simp
qed

lemma aspectOf_swap:
  "aspectOf b a = map_option (\<lambda>r. r\<lparr>planetA := planetB r, planetB := planetA r\<rparr>) (aspectOf a b)"
  by (simp add: aspectOf_def Let_def circularSeparation_sym [of "CalculatedPlanet.degree b"])

lemma set_allAspects:
  "set (allAspects ps1 ps2) = {r. \<exists>a\<in>set ps1. \<exists>b\<in>set ps2. aspectOf a b = Some r}"
  by (simp add: allAspects_def set_map_filter) blast

lemma length_allAspects: "length (allAspects ps1 ps2) \<le> length ps1 * length ps2"
proof (induction ps1)
  case Nil
  then show ?case by (simp add: allAspects_def)
next
  case (Cons a ps1)
  with length_map_filter_le [of "aspectOf a" ps2] show ?case
    by (simp add: allAspects_def)
qed

lemma calculateAspects_sorted: "sorted (map orb (calculateAspects p1 p2))"
proof -
  have "sorted (take 8 (map orb (sort_key orb (allAspects (planets p1) (planets p2)))))"
    by (intro sorted_wrt_take sorted_sort_key)
  then show ?thesis by (simp add: calculateAspects_def take_map)
qed

lemma calculateAspects_length:
  "length (calculateAspects p1 p2) = min 8 (length (allAspects (planets p1) (planets p2)))"
  by (simp add: calculateAspects_def)

lemma calculateAspects_subset:
  "set (calculateAspects p1 p2) \<subseteq> set (allAspects (planets p1) (planets p2))"
  using set_take_subset [of 8 "sort_key orb (allAspects (planets p1) (planets p2))"]
  by (simp add: calculateAspects_def)

lemma calculateAspects_tightest:
  assumes "r \<in> set (calculateAspects p1 p2)"
    and "r' \<in># mset (allAspects (planets p1) (planets p2)) - mset (calculateAspects p1 p2)"
  shows "orb r \<le> orb r'"
proof -
  let ?s = "sort_key orb (allAspects (planets p1) (planets p2))"
  have "mset ?s = mset (take 8 ?s) + mset (drop 8 ?s)"
    by (simp flip: mset_append)
  then have "mset (allAspects (planets p1) (planets p2)) - mset (calculateAspects p1 p2) = mset (drop 8 ?s)"
    by (simp add: calculateAspects_def)
  with assms(2) have r': "r' \<in> set (drop 8 ?s)" by simp
  have "sorted (map orb (take 8 ?s @ drop 8 ?s))" by simp
  then have "\<forall>x\<in>set (take 8 ?s). \<forall>y\<in>set (drop 8 ?s). orb x \<le> orb y"
    unfolding map_append sorted_append by simp
  with assms(1) r' show ?thesis by (simp add: calculateAspects_def)
qed

lemma eclipticLongitude_fixedSky [simp]:
  "eclipticLongitude (fixedSky gmst pos) b d = Inr (pos b d)"
  by (simp add: fixedSky_def eclipticLongitude_def)

lemma Body_fixedSky [simp]: "Body (fixedSky gmst pos) b = b"
  by (simp add: fixedSky_def)

lemma getZodiacInfo_eval:
  assumes "i < 12" and "30 * real i \<le> l" and "l < 30 * real i + 30"
  shows "getZodiacInfo l = \<lparr>ZodiacInfo.sign = Some (ZODIAC_SIGNS ! i), ZodiacInfo.relativeDegree = l - 30 * real i\<rparr>"
proof -
  from assms have l: "0 \<le> l" "l < 360" by simp_all
  from assms have "\<lfloor>l / 30\<rfloor> = int i" by (simp add: floor_eq_iff)
  with l assms(1) show ?thesis
    by (simp add: getZodiacInfo_def Let_def normalizeDegrees_id js_rem_nonneg_eq)
qed

lemma calculatePlanet_fixedSky:
  assumes "i < 12" and "30 * real i \<le> pos b d" and "pos b d < 30 * real i + 30"
  shows "calculatePlanet (fixedSky gmst pos) d a b =
    Inr \<lparr>CalculatedPlanet.name = b, CalculatedPlanet.symbol = symbolOf b,
      CalculatedPlanet.sign = ZodiacSign.name (ZODIAC_SIGNS ! i),
      CalculatedPlanet.signSymbol = ZodiacSign.symbol (ZODIAC_SIGNS ! i),
      CalculatedPlanet.degree = pos b d, CalculatedPlanet.relativeDegree = pos b d - 30 * real i,
      house = wholeSignHouse (int i) a, retrograde = isRetrograde (pos b d) (pos b (d + 3600000))\<rparr>"
  using assms by (simp add: calculatePlanet_def Let_def getZodiacInfo_eval findIndex_sign_name)


lemma calculateChart_balanceTotal:
  assumes "calculateChart A d la lo = Inr c"
  shows "balanceTotal (elements c) = 100"
proof -
  from assms have "length (map CalculatedPlanet.name (planets c)) = 10"
    by (simp add: calculateChart_names)
  moreover from assms have "\<forall>p\<in>set (planets c). CalculatedPlanet.sign p \<in> set sign_names"
    by (blast intro: calculateChart_signs)
  ultimately show ?thesis
    using countOf_total [of "planets c"]
    by (simp add: calculateChart_elements [OF assms] balanceTotal_def)
qed

lemma aspectOrb_le: "aspectOrb t \<le> 6"
  by (simp add: aspectOrb_def ORB_def)

lemma calculateAspects_orb_range:
  assumes "r \<in> set (calculateAspects p1 p2)"
  shows "0 \<le> orb r" and "orb r \<le> 6"
proof -
  from assms calculateAspects_subset [of p1 p2]
  have "r \<in> set (allAspects (planets p1) (planets p2))" by blast
  then have "\<exists>a\<in>set (planets p1). \<exists>b\<in>set (planets p2). aspectOf a b = Some r"
    by (simp add: set_allAspects)
  then have "0 \<le> orb r" and "orb r \<le> aspectOrb (SynastryAspect.aspectType r)"
    by (blast intro: aspectOf_orb)+
  then show "0 \<le> orb r" and "orb r \<le> 6"
    using aspectOrb_le [of "SynastryAspect.aspectType r"] by simp_all
qed

section \<open>Fixtures\<close>

lemma SiderealTime_fixedSky [simp]: "SiderealTime (fixedSky gmst pos) d = Inr gmst"
  by (simp add: fixedSky_def)

lemma exampleSky_succeeds: "\<exists>c. calculateChart exampleSky 0 la lo = Inr c"
  by (rule calculateChart_succeeds [where gmst = 0]) (simp_all add: exampleSky_def)

section \<open>Properties of the normalisation and the sign mapping\<close>

text \<open>C5. For every longitude of at least -360 degrees, \<open>(longitude + 360) % 360\<close> lies in
  \<open>[0, 360)\<close> and normalising it again changes nothing.\<close>

theorem normalizeDegrees_normal:
  assumes "- 360 \<le> l"
  shows "0 \<le> normalizeDegrees l \<and> normalizeDegrees l < 360
    \<and> normalizeDegrees (normalizeDegrees l) = normalizeDegrees l"
  using assms by (simp add: normalizeDegrees_range normalizeDegrees_id)

theorem normalizeDegrees_normal_witness:
  "normalizeDegrees (- 30) = 330 \<and> normalizeDegrees (normalizeDegrees (- 30)) = normalizeDegrees (- 30)"
  using normalizeDegrees_normal [of "- 30"] by (simp add: normalizeDegrees_shift)


text \<open>C18. For every longitude of at least -360 degrees \<open>getZodiacInfo\<close> returns a sign of the
  table and a degree within it in \<open>[0, 30)\<close>, and the start of the sign plus that degree is
  the normalised longitude.\<close>

theorem getZodiacInfo_decompose:
  assumes "- 360 \<le> l"
  shows "\<exists>z. ZodiacInfo.sign (getZodiacInfo l) = Some z \<and> z \<in> set ZODIAC_SIGNS
    \<and> startDegree z + ZodiacInfo.relativeDegree (getZodiacInfo l) = normalizeDegrees l
    \<and> 0 \<le> ZodiacInfo.relativeDegree (getZodiacInfo l)
    \<and> ZodiacInfo.relativeDegree (getZodiacInfo l) < 30"
proof -
  let ?i = "nat \<lfloor>normalizeDegrees l / 30\<rfloor>"
  from normalizeDegrees_range [OF assms]
  have "0 \<le> \<lfloor>normalizeDegrees l / 30\<rfloor>" and "\<lfloor>normalizeDegrees l / 30\<rfloor> < 12"
    by (rule signIndex_range)+
  then have i: "?i < 12" and "int ?i = \<lfloor>normalizeDegrees l / 30\<rfloor>"
    by linarith+
  then have fl: "real ?i = of_int \<lfloor>normalizeDegrees l / 30\<rfloor>"
    by (metis of_int_of_nat_eq)
  from i have "ZODIAC_SIGNS ! ?i \<in> set ZODIAC_SIGNS" by simp
  moreover from i fl have "startDegree (ZODIAC_SIGNS ! ?i) + ZodiacInfo.relativeDegree (getZodiacInfo l)
      = normalizeDegrees l"
    by (simp add: startDegree_nth getZodiacInfo_relativeDegree [OF assms])
  ultimately show ?thesis
    using assms by (simp add: getZodiacInfo_sign getZodiacInfo_relativeDegree_range)
qed

theorem getZodiacInfo_decompose_witness:
  "\<exists>z. ZodiacInfo.sign (getZodiacInfo (191 / 2)) = Some z \<and> ZodiacSign.name z = ''Cancer''
     \<and> ZodiacInfo.relativeDegree (getZodiacInfo (191 / 2)) = 11 / 2"
proof -
  have n: "normalizeDegrees (191 / 2) = 191 / 2" by (simp add: normalizeDegrees_id)
  from getZodiacInfo_decompose [of "191 / 2"] obtain z
    where z: "ZodiacInfo.sign (getZodiacInfo (191 / 2)) = Some z"
      and s: "startDegree z + ZodiacInfo.relativeDegree (getZodiacInfo (191 / 2)) = 191 / 2"
    unfolding n by auto
  from z have "z = ZODIAC_SIGNS ! 3" by (simp add: getZodiacInfo_sign n)
  with z s show ?thesis by (simp add: ZODIAC_SIGNS_def)
qed

text \<open>Below -360 degrees (multiples of 360 apart) the sign index is negative, the table read
  is \<open>undefined\<close>, and \<open>getZodiacInfo\<close> returns no sign; the caller's \<open>sign.name\<close> then
  throws.\<close>

theorem getZodiacInfo_undefined:
  assumes "l < - 360" and "normalizeDegrees l \<noteq> 0"
  shows "ZodiacInfo.sign (getZodiacInfo l) = None"
proof -
  from assms normalizeDegrees_below [of l] have "normalizeDegrees l / 30 < 0" by simp
  then have "\<lfloor>normalizeDegrees l / 30\<rfloor> < 0" by (simp add: floor_less_iff)
  then show ?thesis by (simp add: getZodiacInfo_def Let_def js_index_def)
qed

theorem getZodiacInfo_undefined_witness: "ZodiacInfo.sign (getZodiacInfo (- 400)) = None"
proof -
  have "normalizeDegrees (- 400) = - 40"
    by (simp add: normalizeDegrees_def js_rem_small_neg)
  with getZodiacInfo_undefined [of "- 400"] show ?thesis by simp
qed

text \<open>C6. For a fixed ascendant sign the whole-sign house formula maps the twelve sign indices
  one-to-one onto the houses 1 to 12.\<close>

theorem wholeSignHouse_bij:
  assumes "0 \<le> a" and "a < 12"
  shows "bij_betw (\<lambda>s. wholeSignHouse s a) {0..11} {1..12}"
proof (rule bij_betw_byWitness [where f' = "\<lambda>h. (a + h - 1) mod 12"])
  show "\<forall>s\<in>{0..11}. (a + wholeSignHouse s a - 1) mod 12 = s"
    using assms by (auto simp: wholeSignHouse_eq mod_simps)
  show "\<forall>h\<in>{1..12}. wholeSignHouse ((a + h - 1) mod 12) a = h"
  proof
    fix h :: int assume "h \<in> {1..12}"
    then have h: "1 \<le> h" "h \<le> 12" by simp_all
    have "- 12 \<le> (a + h - 1) mod 12 - a" using assms by simp
    then have "wholeSignHouse ((a + h - 1) mod 12) a = ((a + h - 1) mod 12 - a) mod 12 + 1"
      by (rule wholeSignHouse_eq)
    also have "((a + h - 1) mod 12 - a) mod 12 = (h - 1) mod 12"
      by (simp add: mod_simps)
    also from h have "(h - 1) mod 12 = h - 1" by simp
    finally show "wholeSignHouse ((a + h - 1) mod 12) a = h" by simp
  qed
  show "(\<lambda>s. wholeSignHouse s a) ` {0..11} \<subseteq> {1..12}"
    using assms by (auto simp: wholeSignHouse_range)
  show "(\<lambda>h. (a + h - 1) mod 12) ` {1..12} \<subseteq> {0..11}"
    by auto
qed

theorem wholeSignHouse_bij_witness:
  "bij_betw (\<lambda>s. wholeSignHouse s 3) {0..11} {1..12} \<and> wholeSignHouse 2 3 = 12"
  using wholeSignHouse_bij [of 3] by (simp add: wholeSignHouse_eq)

section \<open>Properties of the ascendant\<close>



text \<open>At latitude 0, longitude 0 and sidereal time 0 hours the ascendant is exactly 90 degrees.\<close>

theorem calculateAscendant_equator:
  assumes "SiderealTime A d = Inr 0"
  shows "calculateAscendant A d 0 0 = Inr 90"
  using assms by (simp add: calculateAscendant_def ascendantDegrees_equator)

theorem calculateAscendant_equator_witness: "calculateAscendant exampleSky 0 0 0 = Inr 90"
  using calculateAscendant_equator [of exampleSky 0] by (simp add: exampleSky_def)

section \<open>Properties of calculateChart\<close>

text \<open>C2. In every chart that \<open>calculateChart\<close> returns, the four elemental percentages sum to
  exactly 100, and each is ten times the number of bodies in signs of that element.\<close>

theorem calculateChart_elements_sum:
  assumes "calculateChart A d la lo = Inr c"
  shows "balanceTotal (elements c) = 100
    \<and> fire (elements c) = 10 * countOf ''fire'' (planets c)
    \<and> earth (elements c) = 10 * countOf ''earth'' (planets c)
    \<and> air (elements c) = 10 * countOf ''air'' (planets c)
    \<and> water (elements c) = 10 * countOf ''water'' (planets c)"
  using calculateChart_balanceTotal [OF assms]
  by (simp add: calculateChart_elements [OF assms])

theorem calculateChart_elements_sum_witness:
  "\<exists>c. calculateChart exampleSky 0 0 0 = Inr c \<and> balanceTotal (elements c) = 100"
proof -
  obtain c where "calculateChart exampleSky 0 0 0 = Inr c"
    using exampleSky_succeeds by blast
  with calculateChart_elements_sum [OF this] show ?thesis by blast
qed

text \<open>C1. Every chart that \<open>calculateChart\<close> returns lists the ten bodies in the order of
  \<open>BODIES\<close>, each in a sign of the table and in a house from 1 to 12, in house 1 exactly when
  it is in the rising sign; the rising degree is in \<open>[0, 360)\<close>.\<close>

theorem calculateChart_wellformed:
  assumes "calculateChart A d la lo = Inr c"
  shows "map CalculatedPlanet.name (planets c) = BODIES
    \<and> (\<forall>p\<in>set (planets c). CalculatedPlanet.sign p \<in> set sign_names
          \<and> 1 \<le> house p \<and> house p \<le> 12
          \<and> (house p = 1 \<longleftrightarrow> CalculatedPlanet.sign p = Rising.sign (Chart.rising c)))
    \<and> 0 \<le> Rising.degree (Chart.rising c) \<and> Rising.degree (Chart.rising c) < 360
    \<and> BigThree.rising (bigThree c) = Rising.sign (Chart.rising c)"
proof -
  from assms have "0 \<le> Rising.degree (Chart.rising c) \<and> Rising.degree (Chart.rising c) < 360
      \<and> BigThree.rising (bigThree c) = Rising.sign (Chart.rising c)"
    by (auto simp: calculateChart_Inr_iff chartOf_def ascendantDegrees_range)
  with assms show ?thesis
    by (simp add: calculateChart_names calculateChart_signs calculateChart_house_range
          calculateChart_house_one)
qed

theorem calculateChart_wellformed_witness:
  "\<exists>c. calculateChart exampleSky 0 0 0 = Inr c \<and> map CalculatedPlanet.name (planets c) = BODIES
     \<and> (\<forall>p\<in>set (planets c). 1 \<le> house p \<and> house p \<le> 12)"
proof -
  obtain c where "calculateChart exampleSky 0 0 0 = Inr c"
    using exampleSky_succeeds by blast
  with calculateChart_wellformed [OF this] show ?thesis by blast
qed





section \<open>Properties of calculateAspects\<close>

text \<open>The five orb bands do not overlap, so the order of the \<open>if\<close> chain does not matter:
  a separation is classified as an aspect exactly when it lies in that aspect's band.\<close>

theorem classifyAspect_bands:
  shows "classifyAspect x = ''Conjunction'' \<longleftrightarrow> \<bar>x\<bar> \<le> 6"
    and "classifyAspect x = ''Sextile'' \<longleftrightarrow> \<bar>x - 60\<bar> \<le> 4.2"
    and "classifyAspect x = ''Square'' \<longleftrightarrow> \<bar>x - 90\<bar> \<le> 6"
    and "classifyAspect x = ''Trine'' \<longleftrightarrow> \<bar>x - 120\<bar> \<le> 6"
    and "classifyAspect x = ''Opposition'' \<longleftrightarrow> \<bar>x - 180\<bar> \<le> 6"
  by (simp_all add: classifyAspect_def ORB_def abs_le_iff)

text \<open>C13. Swapping the two bodies gives the same aspect type and the same orb.\<close>

theorem aspectOf_symmetric:
  "map_option (\<lambda>r. (SynastryAspect.aspectType r, orb r)) (aspectOf b a)
     = map_option (\<lambda>r. (SynastryAspect.aspectType r, orb r)) (aspectOf a b)"
  by (simp add: aspectOf_swap [of b a] option.map_comp comp_def)

text \<open>Bodies at 10 and 70 degrees form a sextile of orb 0; bodies at 95 and 300 degrees are
  155 degrees apart and form no aspect.\<close>

theorem aspectOf_examples:
  "aspectOf (planetAt ''Sun'' 10) (planetAt ''Moon'' 70)
     = Some \<lparr>planetA = ''Sun'', planetB = ''Moon'', SynastryAspect.aspectType = ''Sextile'',
             description = '''', orb = 0\<rparr>
   \<and> aspectOf (planetAt ''Sun'' 95) (planetAt ''Moon'' 300) = None"
  by (simp add: aspectOf_def planetAt_def circularSeparation_def classifyAspect_def aspectAngle_def ORB_def)

text \<open>C7. \<open>calculateAspects\<close> returns at most eight aspects in ascending order of orb, each
  the aspect of a body of the first chart with a body of the second, and no aspect it leaves
  out is tighter than one it returns.\<close>

theorem calculateAspects_tightest_eight:
  "length (calculateAspects p1 p2) \<le> 8
   \<and> sorted (map orb (calculateAspects p1 p2))
   \<and> (\<forall>r\<in>set (calculateAspects p1 p2). \<exists>a\<in>set (planets p1). \<exists>b\<in>set (planets p2). aspectOf a b = Some r)
   \<and> (\<forall>r\<in>set (calculateAspects p1 p2).
        \<forall>r'\<in>#mset (allAspects (planets p1) (planets p2)) - mset (calculateAspects p1 p2). orb r \<le> orb r')"
  using calculateAspects_subset [of p1 p2]
  by (auto simp: calculateAspects_length calculateAspects_sorted set_allAspects
        intro: calculateAspects_tightest)

theorem calculateAspects_tightest_eight_witness:
  "length (calculateAspects (chartWith [planetAt ''Sun'' 10])
       (chartWith [planetAt ''Moon'' 72, planetAt ''Mars'' 100, planetAt ''Venus'' 40])) \<le> 8
   \<and> sorted (map orb (calculateAspects (chartWith [planetAt ''Sun'' 10])
       (chartWith [planetAt ''Moon'' 72, planetAt ''Mars'' 100, planetAt ''Venus'' 40])))
   \<and> map planetB (calculateAspects (chartWith [planetAt ''Sun'' 10])
       (chartWith [planetAt ''Moon'' 72, planetAt ''Mars'' 100, planetAt ''Venus'' 40]))
     = [''Mars'', ''Moon'']"
proof -
  let ?A = "chartWith [planetAt ''Sun'' 10]"
  let ?B = "chartWith [planetAt ''Moon'' 72, planetAt ''Mars'' 100, planetAt ''Venus'' 40]"
  note t = calculateAspects_tightest_eight [of ?A ?B]
  from t have 1: "length (calculateAspects ?A ?B) \<le> 8" by (rule conjunct1)
  from t have 2: "sorted (map orb (calculateAspects ?A ?B))" by (rule conjunct1 [OF conjunct2])
  have "allAspects (planets ?A) (planets ?B)
      = [the (aspectOf (planetAt ''Sun'' 10) (planetAt ''Moon'' 72)),
         the (aspectOf (planetAt ''Sun'' 10) (planetAt ''Mars'' 100))]"
    by (simp add: chartWith_def chartOf_def allAspects_def aspectOf_def planetAt_def
          circularSeparation_def classifyAspect_def ORB_def Let_def)
  then have "map planetB (calculateAspects ?A ?B) = [''Mars'', ''Moon'']"
    by (simp add: calculateAspects_def aspectOf_def planetAt_def circularSeparation_def
          classifyAspect_def aspectAngle_def ORB_def Let_def)
  with 1 2 show ?thesis by (intro conjI)
qed

text \<open>When at most eight aspects exist, aspects of equal orb stay in the order in which the
  double loop found them (the sort is stable).\<close>

theorem calculateAspects_stable:
  assumes "length (allAspects (planets p1) (planets p2)) \<le> 8"
  shows "filter (\<lambda>r. orb r = k) (calculateAspects p1 p2)
     = filter (\<lambda>r. orb r = k) (allAspects (planets p1) (planets p2))"
  using assms by (simp add: calculateAspects_def sort_key_stable)

theorem calculateAspects_stable_witness:
  "map planetB (filter (\<lambda>r. orb r = 0) (calculateAspects (chartWith [planetAt ''Sun'' 10])
       (chartWith [planetAt ''Moon'' 70, planetAt ''Mars'' 100])))
     = [''Moon'', ''Mars'']"
proof -
  let ?A = "chartWith [planetAt ''Sun'' 10]"
  let ?B = "chartWith [planetAt ''Moon'' 70, planetAt ''Mars'' 100]"
  have *: "allAspects (planets ?A) (planets ?B)
      = [the (aspectOf (planetAt ''Sun'' 10) (planetAt ''Moon'' 70)),
         the (aspectOf (planetAt ''Sun'' 10) (planetAt ''Mars'' 100))]"
    by (simp add: chartWith_def chartOf_def allAspects_def aspectOf_def planetAt_def
          circularSeparation_def classifyAspect_def ORB_def Let_def)
  then have "length (allAspects (planets ?A) (planets ?B)) \<le> 8" by simp
  from calculateAspects_stable [OF this, of 0]
  have eq: "filter (\<lambda>r. orb r = 0) (calculateAspects ?A ?B)
      = filter (\<lambda>r. orb r = 0) (allAspects (planets ?A) (planets ?B))" .
  have "map planetB (filter (\<lambda>r. orb r = 0) (allAspects (planets ?A) (planets ?B)))
      = [''Moon'', ''Mars'']"
    unfolding * by (simp add: aspectOf_def planetAt_def circularSeparation_def
          classifyAspect_def aspectAngle_def ORB_def Let_def)
  then show ?thesis by (simp only: eq)
qed

end
