(* ===== verification/Gemini_Service.thy ===== *)
theory Gemini_Service
  imports Astronomy_Service
begin

text \<open>
  The pipeline of \<open>src/services/geminiService.ts\<close>: the generative model resolves the birth
  place and time to coordinates and a UTC instant, the astronomy service computes the chart,
  and the generative model writes the interpretations, which are merged into the computed
  chart; for two people the aspects between the charts are computed and the model's analysis
  of them is joined with the computed orbs.

  \<^item> The world outside the program is the record \<open>Runtime\<close>: \<open>generateContent n p\<close> is the
    text of the response to the \<open>n\<close>-th request of a run, the request \<open>p\<close> given by the values
    that the prompt template interpolates (\<open>prompt\<close>); it is \<open>None\<close> when the response has
    no text, and an error when the request is rejected. \<open>JSON_parse\<close> and \<open>newDate\<close> are
    the functions of the platform. The theorems hold for every runtime.
  \<^item> A parsed JSON document is a \<open>json\<close> value; an object is the list of its own properties,
    whose keys are distinct.
  \<^item> A Zod schema is the function that its \<open>parse\<close> method computes: it returns the validated
    value with the unknown keys stripped, or \<open>ZodError\<close>.
  \<^item> \<open>await\<close> is sequencing of results. \<open>Promise.all\<close> of two requests is \<open>Promise_all2\<close>:
    both requests are made, and it fails when one of them fails. When both fail the model
    returns the error of the first; which one the program sees depends on timing, and no
    theorem depends on it.
\<close>

section \<open>JSON and the runtime\<close>

datatype json =
  JNull
| JBool bool
| JNumber number
| JString string
| JArray "json list"
| JObject "(string \<times> json) list"

datatype prompt =
  GeocodePrompt BirthDetails
| InterpretPrompt string "(string \<times> string \<times> int) list" string
| SynastryPrompt string string "(string \<times> string \<times> string) list"

record Runtime =
  generateContent :: "nat \<Rightarrow> prompt \<Rightarrow> string option result"
  JSON_parse :: "string \<Rightarrow> json result"
  newDate :: "string \<Rightarrow> Date"

definition responseJSON :: "Runtime \<Rightarrow> nat \<Rightarrow> prompt \<Rightarrow> string \<Rightarrow> json result" where
  "responseJSON R n p message =
    bind_result (generateContent R n p) (\<lambda>text.
      case text of
        None \<Rightarrow> Inl (Error message)
      | Some t \<Rightarrow> if t = '''' then Inl (Error message) else JSON_parse R t)"

definition Promise_all2 :: "'a result \<Rightarrow> 'b result \<Rightarrow> ('a \<times> 'b) result" where
  "Promise_all2 r1 r2 =
    (case r1 of
       Inl e \<Rightarrow> Inl e
     | Inr a \<Rightarrow> (case r2 of Inl e \<Rightarrow> Inl e | Inr b \<Rightarrow> Inr (a, b)))"

section \<open>Zod schemas\<close>

fun z_number :: "json option \<Rightarrow> number result" where
  "z_number (Some (JNumber n)) = Inr n"
| "z_number _ = Inl ZodError"

fun z_string :: "json option \<Rightarrow> string result" where
  "z_string (Some (JString s)) = Inr s"
| "z_string _ = Inl ZodError"

fun z_array :: "(json option \<Rightarrow> 'a result) \<Rightarrow> json option \<Rightarrow> 'a list result" where
  "z_array item (Some (JArray xs)) = mapM_result (\<lambda>x. item (Some x)) xs"
| "z_array item _ = Inl ZodError"

fun z_object :: "((string \<Rightarrow> json option) \<Rightarrow> 'a result) \<Rightarrow> json option \<Rightarrow> 'a result" where
  "z_object shape (Some (JObject kvs)) = shape (map_of kvs)"
| "z_object shape _ = Inl ZodError"

definition ResolvedLocationSchema :: "json \<Rightarrow> ResolvedLocation result" where
  "ResolvedLocationSchema parsed =
    z_object (\<lambda>obj.
      bind_result (z_number (obj ''lat'')) (\<lambda>la.
      bind_result (z_number (obj ''lon'')) (\<lambda>lo.
      bind_result (z_string (obj ''utcTime'')) (\<lambda>utc.
      bind_result (z_string (obj ''formattedAddress'')) (\<lambda>address.
        Inr \<lparr>lat = la, lon = lo, utcTime = utc, formattedAddress = address\<rparr>)))))
      (Some parsed)"

type_synonym Interpretation = "(string \<times> string) list \<times> string"

definition InterpretationSchema :: "json \<Rightarrow> Interpretation result" where
  "InterpretationSchema data =
    z_object (\<lambda>obj.
      bind_result (z_array (z_object (\<lambda>ip.
          bind_result (z_string (ip ''name'')) (\<lambda>n.
          bind_result (z_string (ip ''interpretation'')) (\<lambda>i. Inr (n, i)))))
        (obj ''planets'')) (\<lambda>ps.
      bind_result (z_string (obj ''summary'')) (\<lambda>s. Inr (ps, s))))
      (Some data)"

type_synonym KeyAspect = "string \<times> string \<times> string \<times> string"
type_synonym SynastryAnalysis = "string \<times> string list \<times> string list \<times> KeyAspect list"

definition SynastryAnalysisSchema :: "json \<Rightarrow> SynastryAnalysis result" where
  "SynastryAnalysisSchema analysisRaw =
    z_object (\<lambda>obj.
      bind_result (z_string (obj ''overview'')) (\<lambda>ov.
      bind_result (z_array z_string (obj ''strengths'')) (\<lambda>st.
      bind_result (z_array z_string (obj ''challenges'')) (\<lambda>ch.
      bind_result (z_array (z_object (\<lambda>ka.
          bind_result (z_string (ka ''planetA'')) (\<lambda>a.
          bind_result (z_string (ka ''planetB'')) (\<lambda>b.
          bind_result (z_string (ka ''aspectType'')) (\<lambda>t.
          bind_result (z_string (ka ''description'')) (\<lambda>d. Inr (a, b, t, d)))))))
        (obj ''keyAspects'')) (\<lambda>kas. Inr (ov, st, ch, kas))))))
      (Some analysisRaw)"

section \<open>The requests\<close>

definition resolveBirthDetails :: "Runtime \<Rightarrow> nat \<Rightarrow> BirthDetails \<Rightarrow> ResolvedLocation result" where
  "resolveBirthDetails R n details =
    bind_result (responseJSON R n (GeocodePrompt details) ''Could not resolve location details.'')
      ResolvedLocationSchema"

definition mergedPlanet :: "(string \<times> string) list \<Rightarrow> CalculatedPlanet \<Rightarrow> PlanetPosition" where
  "mergedPlanet ips p =
    (let found = (case find (\<lambda>ip. fst ip = CalculatedPlanet.name p) ips of
                    None \<Rightarrow> None | Some ip \<Rightarrow> Some (snd ip));
         text = (case found of
                   None \<Rightarrow> ''A mysterious placement.''
                 | Some i \<Rightarrow> if i = '''' then ''A mysterious placement.'' else i)
     in CalculatedPlanet.extend p (PlanetPosition.fields text))"

definition enrichChart :: "Runtime \<Rightarrow> nat \<Rightarrow> CalculatedChart \<Rightarrow> string \<Rightarrow> ChartData result" where
  "enrichChart R n chart name' =
    (let simplifiedChart =
           map (\<lambda>p. (CalculatedPlanet.name p, CalculatedPlanet.sign p, house p)) (planets chart);
         risingSign = Rising.sign (rising chart);
         request = InterpretPrompt name' simplifiedChart risingSign
     in bind_result (responseJSON R n request ''Could not interpret chart.'') (\<lambda>data.
        bind_result (InterpretationSchema data) (\<lambda>validated.
          Inr \<lparr>planets = map (mergedPlanet (fst validated)) (planets chart),
               rising = rising chart, elements = elements chart, bigThree = bigThree chart,
               ChartData.name = Some name', summary = snd validated\<rparr>)))"

section \<open>The public methods\<close>

definition analyzeBirthChart ::
  "Runtime \<Rightarrow> ('b, 't, 'v) Astronomy \<Rightarrow> BirthDetails \<Rightarrow> ChartData result" where
  "analyzeBirthChart R A details =
    bind_result (resolveBirthDetails R 0 details) (\<lambda>resolved.
    bind_result (calculateChart A (newDate R (utcTime resolved)) (lat resolved) (lon resolved))
      (\<lambda>calculated. enrichChart R 1 calculated (BirthDetails.name details)))"

definition keyAspectWithOrb :: "SynastryAspect list \<Rightarrow> KeyAspect \<Rightarrow> SynastryAspect" where
  "keyAspectWithOrb aspects ka =
    (case ka of (a, b, t, d) \<Rightarrow>
      let original = find (\<lambda>x. planetA x = a \<and> planetB x = b \<and> aspectType x = t) aspects
      in \<lparr>planetA = a, planetB = b, aspectType = t, description = d,
           orb = (case original of Some x \<Rightarrow> orb x | None \<Rightarrow> 0)\<rparr>)"

definition analyzeSynastry ::
  "Runtime \<Rightarrow> ('b, 't, 'v) Astronomy \<Rightarrow> BirthDetails \<Rightarrow> BirthDetails \<Rightarrow> SynastryData result" where
  "analyzeSynastry R A d1 d2 =
    bind_result (Promise_all2 (resolveBirthDetails R 0 d1) (resolveBirthDetails R 1 d2)) (\<lambda>(r1, r2).
    bind_result (calculateChart A (newDate R (utcTime r1)) (lat r1) (lon r1)) (\<lambda>c1.
    bind_result (calculateChart A (newDate R (utcTime r2)) (lat r2) (lon r2)) (\<lambda>c2.
    let aspects = calculateAspects c1 c2 in
    bind_result (Promise_all2 (enrichChart R 2 c1 (BirthDetails.name d1))
                   (enrichChart R 3 c2 (BirthDetails.name d2))) (\<lambda>(p1Enriched, p2Enriched).
    let aspectDescriptions = map (\<lambda>a. (planetA a, aspectType a, planetB a)) aspects;
        request = SynastryPrompt (BirthDetails.name d1) (BirthDetails.name d2) aspectDescriptions
    in
    bind_result (responseJSON R 4 request ''Could not analyze synastry.'') (\<lambda>analysisRaw.
    bind_result (SynastryAnalysisSchema analysisRaw) (\<lambda>(ov, st, ch, kas).
      Inr \<lparr>personA = p1Enriched, personB = p2Enriched,
           analysis = \<lparr>overview = ov, strengths = st, challenges = ch,
                        keyAspects = map (keyAspectWithOrb aspects) kas\<rparr>\<rparr>))))))"

section \<open>Notions used to state the properties\<close>

text \<open>
  \<open>resolvedLocationJSON\<close>, \<open>interpretationJSON\<close> and \<open>synastryAnalysisJSON\<close> build the
  documents that the three schemas are written for. \<open>cannedRuntime\<close> is a runtime that
  answers every request with a fixed document of the right kind; \<open>exampleRuntime\<close>,
  \<open>exampleLocation\<close> and \<open>exampleDetails\<close> are the inputs of the examples.
\<close>

definition resolvedLocationJSON :: "ResolvedLocation \<Rightarrow> json" where
  "resolvedLocationJSON l =
    JObject [(''lat'', JNumber (lat l)), (''lon'', JNumber (lon l)),
             (''utcTime'', JString (utcTime l)), (''formattedAddress'', JString (formattedAddress l))]"

definition interpretationJSON :: "Interpretation \<Rightarrow> json" where
  "interpretationJSON v =
    JObject [(''planets'', JArray (map (\<lambda>ip. JObject [(''name'', JString (fst ip)),
                                            (''interpretation'', JString (snd ip))]) (fst v))),
             (''summary'', JString (snd v))]"

definition cannedRuntime :: "ResolvedLocation \<Rightarrow> Interpretation \<Rightarrow> json \<Rightarrow> Runtime" where
  "cannedRuntime l v s =
    \<lparr>generateContent = (\<lambda>n p. case p of
         GeocodePrompt _ \<Rightarrow> Inr (Some ''L'')
       | InterpretPrompt _ _ _ \<Rightarrow> Inr (Some ''I'')
       | SynastryPrompt _ _ _ \<Rightarrow> Inr (Some ''S'')),
     JSON_parse = (\<lambda>t. if t = ''L'' then Inr (resolvedLocationJSON l)
       else if t = ''I'' then Inr (interpretationJSON v)
       else if t = ''S'' then Inr s else Inl SyntaxError),
     newDate = (\<lambda>s. 0)\<rparr>"

definition synastryAnalysisJSON :: "SynastryAnalysis \<Rightarrow> json" where
  "synastryAnalysisJSON v =
    (case v of (ov, st, ch, kas) \<Rightarrow>
      JObject [(''overview'', JString ov),
               (''strengths'', JArray (map JString st)),
               (''challenges'', JArray (map JString ch)),
               (''keyAspects'', JArray (map (\<lambda>(a, b, t, d).
                   JObject [(''planetA'', JString a), (''planetB'', JString b),
                            (''aspectType'', JString t), (''description'', JString d)]) kas))])"

definition exampleLocation :: ResolvedLocation where
  "exampleLocation = \<lparr>lat = 0, lon = 0, utcTime = ''2000-01-01T12:00:00.000Z'',
     formattedAddress = ''Null Island''\<rparr>"

definition exampleRuntime :: Runtime where
  "exampleRuntime = cannedRuntime exampleLocation ([(''Sun'', ''Radiant.''), (''Moon'', '''')], ''Bright.'')
     (synastryAnalysisJSON (''Close.'', [''Warmth''], [''Pride''],
        [(''Sun'', ''Moon'', ''Sextile'', ''Ease.''), (''Sun'', ''Mars'', ''trine'', ''Drive.'')]))"

definition exampleDetails :: BirthDetails where
  "exampleDetails = \<lparr>date = ''2000-01-01'', time = ''12:00'', location = ''Null Island'',
     BirthDetails.name = ''Ada''\<rparr>"

text \<open>
  \<open>chartOK\<close> is what the rest of the program relies on in a chart: the ten bodies in the
  order of \<open>BODIES\<close>, percentages that sum to 100, houses from 1 to 12 and non-empty
  interpretations. \<open>dataOK\<close> extends it to the data of the two modes.
\<close>

definition chartOK :: "ChartData \<Rightarrow> bool" where
  "chartOK cd \<longleftrightarrow>
     map CalculatedPlanet.name (planets cd) = BODIES
     \<and> balanceTotal (elements cd) = 100
     \<and> (\<forall>p\<in>set (planets cd). 1 \<le> house p \<and> house p \<le> 12 \<and> interpretation p \<noteq> '''')"

definition dataOK :: "ChartData + SynastryData \<Rightarrow> bool" where
  "dataOK d =
    (case d of
       Inl c \<Rightarrow> chartOK c
     | Inr s \<Rightarrow> chartOK (personA s) \<and> chartOK (personB s)
         \<and> (\<forall>k\<in>set (keyAspects (analysis s)). 0 \<le> orb k \<and> orb k \<le> 6))"

lemmas [celestia_defs] = responseJSON_def Promise_all2_def ResolvedLocationSchema_def
  InterpretationSchema_def SynastryAnalysisSchema_def resolveBirthDetails_def mergedPlanet_def
  enrichChart_def analyzeBirthChart_def keyAspectWithOrb_def analyzeSynastry_def

section \<open>Responses\<close>

lemma responseJSON_Inr_iff:
  "responseJSON R n p msg = Inr j \<longleftrightarrow>
     (\<exists>t. generateContent R n p = Inr (Some t) \<and> t \<noteq> '''' \<and> JSON_parse R t = Inr j)"
  by (cases "generateContent R n p") (auto simp: responseJSON_def split: option.splits)

lemma responseJSON_Inl_iff:
  "responseJSON R n p msg = Inl e \<longleftrightarrow>
     generateContent R n p = Inl e
     \<or> (generateContent R n p = Inr None \<or> generateContent R n p = Inr (Some '''')) \<and> e = Error msg
     \<or> (\<exists>t. generateContent R n p = Inr (Some t) \<and> t \<noteq> '''' \<and> JSON_parse R t = Inl e)"
  by (cases "generateContent R n p") (auto simp: responseJSON_def split: option.splits)

lemma Promise_all2_Inr_iff:
  "Promise_all2 r1 r2 = Inr ab \<longleftrightarrow> r1 = Inr (fst ab) \<and> r2 = Inr (snd ab)"
  by (cases ab; cases r1; cases r2) (simp_all add: Promise_all2_def)

lemma Promise_all2_isl: "isl (Promise_all2 r1 r2) \<longleftrightarrow> isl r1 \<or> isl r2"
  by (cases r1; cases r2) (simp_all add: Promise_all2_def)

section \<open>Schemas\<close>

lemma z_number_Inr_iff: "z_number j = Inr n \<longleftrightarrow> j = Some (JNumber n)"
  by (cases "(j)" rule: z_number.cases) simp_all

lemma z_string_Inr_iff: "z_string j = Inr s \<longleftrightarrow> j = Some (JString s)"
  by (cases "(j)" rule: z_string.cases) simp_all

lemma z_object_Inr_iff:
  "z_object shape j = Inr v \<longleftrightarrow> (\<exists>kvs. j = Some (JObject kvs) \<and> shape (map_of kvs) = Inr v)"
  by (cases "(shape, j)" rule: z_object.cases) simp_all

lemma z_array_Inr_iff:
  "z_array item j = Inr vs \<longleftrightarrow>
     (\<exists>xs. j = Some (JArray xs) \<and> mapM_result (\<lambda>x. item (Some x)) xs = Inr vs)"
  by (cases "(item, j)" rule: z_array.cases) simp_all

lemma z_number_Inl_iff: "z_number j = Inl e \<longleftrightarrow> e = ZodError \<and> (\<forall>n. j \<noteq> Some (JNumber n))"
  by (cases "(j)" rule: z_number.cases) auto

lemma z_string_Inl_iff: "z_string j = Inl e \<longleftrightarrow> e = ZodError \<and> (\<forall>s. j \<noteq> Some (JString s))"
  by (cases "(j)" rule: z_string.cases) auto

lemmas z_Inr_iff = z_number_Inr_iff z_string_Inr_iff z_object_Inr_iff z_array_Inr_iff
  bind_result_eq_Inr_iff

lemma ResolvedLocationSchema_Inr_iff:
  "ResolvedLocationSchema j = Inr l \<longleftrightarrow>
     (\<exists>kvs. j = JObject kvs
        \<and> map_of kvs ''lat'' = Some (JNumber (lat l))
        \<and> map_of kvs ''lon'' = Some (JNumber (lon l))
        \<and> map_of kvs ''utcTime'' = Some (JString (utcTime l))
        \<and> map_of kvs ''formattedAddress'' = Some (JString (formattedAddress l)))"
  by (cases l; cases j) (auto simp: ResolvedLocationSchema_def z_Inr_iff)

lemma mapM_result_map_Inr:
  assumes "\<And>x. x \<in> set xs \<Longrightarrow> f (g x) = Inr x"
  shows "mapM_result f (map g xs) = Inr xs"
  using assms by (induction xs) simp_all

lemma InterpretationSchema_roundtrip: "InterpretationSchema (interpretationJSON v) = Inr v"
  by (simp add: InterpretationSchema_def interpretationJSON_def mapM_result_map_Inr)

section \<open>Merging the interpretations\<close>

lemma mergedPlanet_truncate [simp]: "CalculatedPlanet.truncate (mergedPlanet ips p) = p"
  by (simp add: mergedPlanet_def Let_def CalculatedPlanet.defs PlanetPosition.defs)

lemma mergedPlanet_fields [simp]:
  shows "CalculatedPlanet.name (mergedPlanet ips p) = CalculatedPlanet.name p"
    and "CalculatedPlanet.degree (mergedPlanet ips p) = CalculatedPlanet.degree p"
    and "CalculatedPlanet.sign (mergedPlanet ips p) = CalculatedPlanet.sign p"
    and "house (mergedPlanet ips p) = house p"
    and "retrograde (mergedPlanet ips p) = retrograde p"
  by (simp_all add: mergedPlanet_def Let_def CalculatedPlanet.defs PlanetPosition.defs)

lemma mergedPlanet_interpretation:
  "interpretation (mergedPlanet ips p) =
    (case find (\<lambda>ip. fst ip = CalculatedPlanet.name p) ips of
       None \<Rightarrow> ''A mysterious placement.''
     | Some ip \<Rightarrow> if snd ip = '''' then ''A mysterious placement.'' else snd ip)"
  by (simp add: mergedPlanet_def Let_def CalculatedPlanet.defs PlanetPosition.defs
        split: option.splits)

lemma mergedPlanet_nonempty: "interpretation (mergedPlanet ips p) \<noteq> ''''"
  by (simp add: mergedPlanet_interpretation split: option.splits)

section \<open>enrichChart\<close>

lemma enrichChart_Inr_iff:
  "enrichChart R n chart nm = Inr cd \<longleftrightarrow>
    (\<exists>data validated.
       responseJSON R n (InterpretPrompt nm
          (map (\<lambda>p. (CalculatedPlanet.name p, CalculatedPlanet.sign p, house p)) (planets chart))
          (Rising.sign (rising chart))) ''Could not interpret chart.'' = Inr data
       \<and> InterpretationSchema data = Inr validated
       \<and> cd = \<lparr>planets = map (mergedPlanet (fst validated)) (planets chart),
               rising = rising chart, elements = elements chart, bigThree = bigThree chart,
               ChartData.name = Some nm, summary = snd validated\<rparr>)"
  unfolding enrichChart_def Let_def bind_result_eq_Inr_iff by blast

lemma enrichChart_fields:
  assumes "enrichChart R n chart nm = Inr cd"
  shows "map CalculatedPlanet.truncate (planets cd) = planets chart"
    and "rising cd = rising chart" and "elements cd = elements chart"
    and "bigThree cd = bigThree chart" and "ChartData.name cd = Some nm"
    and "\<forall>p\<in>set (planets cd). interpretation p \<noteq> ''''"
  using assms by (auto simp: enrichChart_Inr_iff comp_def mergedPlanet_nonempty)

lemma enrichChart_planet_fields:
  assumes "enrichChart R n chart nm = Inr cd"
  shows "map CalculatedPlanet.name (planets cd) = map CalculatedPlanet.name (planets chart)"
    and "map house (planets cd) = map house (planets chart)"
    and "map CalculatedPlanet.degree (planets cd) = map CalculatedPlanet.degree (planets chart)"
  using assms by (auto simp: enrichChart_Inr_iff comp_def)

lemma enrichChart_canned:
  "enrichChart (cannedRuntime l v s) n chart nm =
     Inr \<lparr>planets = map (mergedPlanet (fst v)) (planets chart),
          rising = rising chart, elements = elements chart, bigThree = bigThree chart,
          ChartData.name = Some nm, summary = snd v\<rparr>"
  by (simp add: enrichChart_def Let_def responseJSON_def cannedRuntime_def
        InterpretationSchema_roundtrip)

lemma resolveBirthDetails_Inr_iff:
  "resolveBirthDetails R n details = Inr l \<longleftrightarrow>
    (\<exists>j. responseJSON R n (GeocodePrompt details) ''Could not resolve location details.'' = Inr j
       \<and> ResolvedLocationSchema j = Inr l)"
  by (simp add: resolveBirthDetails_def bind_result_eq_Inr_iff)

lemma resolveBirthDetails_canned: "resolveBirthDetails (cannedRuntime l v s) n details = Inr l"
  by (simp add: resolveBirthDetails_Inr_iff responseJSON_Inr_iff cannedRuntime_def
        ResolvedLocationSchema_Inr_iff resolvedLocationJSON_def)

lemma SynastryAnalysisSchema_roundtrip: "SynastryAnalysisSchema (synastryAnalysisJSON v) = Inr v"
  by (cases v)
    (simp add: SynastryAnalysisSchema_def synastryAnalysisJSON_def mapM_result_map_Inr
       split_beta)

lemma bind_result_InlE:
  assumes "bind_result m f = Inl e"
  obtains "m = Inl e" | x where "m = Inr x" and "f x = Inl e"
  using assms by (cases m) auto

lemma ResolvedLocationSchema_Inl:
  assumes "ResolvedLocationSchema j = Inl e"
  shows "e = ZodError"
proof (cases j)
  case (JObject kvs)
  with assms have "bind_result (z_number (map_of kvs ''lat'')) (\<lambda>la.
      bind_result (z_number (map_of kvs ''lon'')) (\<lambda>lo.
      bind_result (z_string (map_of kvs ''utcTime'')) (\<lambda>utc.
      bind_result (z_string (map_of kvs ''formattedAddress'')) (\<lambda>address.
        Inr \<lparr>lat = la, lon = lo, utcTime = utc, formattedAddress = address\<rparr>)))) = Inl e"
    by (simp add: ResolvedLocationSchema_def)
  then show ?thesis
    by (elim bind_result_InlE) (simp_all add: z_number_Inl_iff z_string_Inl_iff)
qed (use assms in \<open>simp_all add: ResolvedLocationSchema_def\<close>)

section \<open>Key aspects\<close>

lemma keyAspectWithOrb_fields [simp]:
  shows "planetA (keyAspectWithOrb aspects (a, b, t, d)) = a"
    and "planetB (keyAspectWithOrb aspects (a, b, t, d)) = b"
    and "aspectType (keyAspectWithOrb aspects (a, b, t, d)) = t"
    and "description (keyAspectWithOrb aspects (a, b, t, d)) = d"
    and "orb (keyAspectWithOrb aspects (a, b, t, d))
      = (case find (\<lambda>x. planetA x = a \<and> planetB x = b \<and> aspectType x = t) aspects of
           Some x \<Rightarrow> orb x | None \<Rightarrow> 0)"
  by (simp_all add: keyAspectWithOrb_def Let_def)

lemma keyAspectWithOrb_orb_cases:
  "orb (keyAspectWithOrb aspects ka) = 0 \<or> (\<exists>x\<in>set aspects. orb (keyAspectWithOrb aspects ka) = orb x
      \<and> planetA x = planetA (keyAspectWithOrb aspects ka)
      \<and> planetB x = planetB (keyAspectWithOrb aspects ka)
      \<and> aspectType x = aspectType (keyAspectWithOrb aspects ka))"
proof (cases ka)
  case (fields a b t d)
  show ?thesis
  proof (cases "find (\<lambda>x. planetA x = a \<and> planetB x = b \<and> aspectType x = t) aspects")
    case None
    with fields show ?thesis by simp
  next
    case (Some x)
    then have "x \<in> set aspects" and "planetA x = a \<and> planetB x = b \<and> aspectType x = t"
      by (auto simp: find_Some_iff)
    with Some fields show ?thesis by auto
  qed
qed

lemma keyAspectWithOrb_orb_range:
  assumes "\<forall>x\<in>set aspects. 0 \<le> orb x \<and> orb x \<le> 6"
  shows "0 \<le> orb (keyAspectWithOrb aspects ka)" and "orb (keyAspectWithOrb aspects ka) \<le> 6"
  using assms keyAspectWithOrb_orb_cases [of aspects ka] by auto

section \<open>The pipelines\<close>

lemma analyzeBirthChart_Inr_iff:
  "analyzeBirthChart R A details = Inr cd \<longleftrightarrow>
    (\<exists>resolved calculated.
       resolveBirthDetails R 0 details = Inr resolved
       \<and> calculateChart A (newDate R (utcTime resolved)) (lat resolved) (lon resolved) = Inr calculated
       \<and> enrichChart R 1 calculated (BirthDetails.name details) = Inr cd)"
  by (simp add: analyzeBirthChart_def bind_result_eq_Inr_iff)


lemma analyzeSynastry_cases:
  assumes "analyzeSynastry R A d1 d2 = Inr sd"
  obtains r1 r2 c1 c2 raw ov st ch kas where
    "resolveBirthDetails R 0 d1 = Inr r1" and "resolveBirthDetails R 1 d2 = Inr r2"
    and "calculateChart A (newDate R (utcTime r1)) (lat r1) (lon r1) = Inr c1"
    and "calculateChart A (newDate R (utcTime r2)) (lat r2) (lon r2) = Inr c2"
    and "enrichChart R 2 c1 (BirthDetails.name d1) = Inr (personA sd)"
    and "enrichChart R 3 c2 (BirthDetails.name d2) = Inr (personB sd)"
    and "responseJSON R 4 (SynastryPrompt (BirthDetails.name d1) (BirthDetails.name d2)
            (map (\<lambda>a. (planetA a, aspectType a, planetB a)) (calculateAspects c1 c2)))
          ''Could not analyze synastry.'' = Inr raw"
    and "SynastryAnalysisSchema raw = Inr (ov, st, ch, kas)"
    and "analysis sd = \<lparr>overview = ov, strengths = st, challenges = ch,
           keyAspects = map (keyAspectWithOrb (calculateAspects c1 c2)) kas\<rparr>"
proof -
  from assms obtain r c1 c2 p raw v where
    r: "Promise_all2 (resolveBirthDetails R 0 d1) (resolveBirthDetails R 1 d2) = Inr r"
    and c1: "calculateChart A (newDate R (utcTime (fst r))) (lat (fst r)) (lon (fst r)) = Inr c1"
    and c2: "calculateChart A (newDate R (utcTime (snd r))) (lat (snd r)) (lon (snd r)) = Inr c2"
    and p: "Promise_all2 (enrichChart R 2 c1 (BirthDetails.name d1))
              (enrichChart R 3 c2 (BirthDetails.name d2)) = Inr p"
    and raw: "responseJSON R 4 (SynastryPrompt (BirthDetails.name d1) (BirthDetails.name d2)
            (map (\<lambda>a. (planetA a, aspectType a, planetB a)) (calculateAspects c1 c2)))
          ''Could not analyze synastry.'' = Inr raw"
    and v: "SynastryAnalysisSchema raw = Inr v"
    and sd: "\<lparr>personA = fst p, personB = snd p,
           analysis = \<lparr>overview = fst v, strengths = fst (snd v), challenges = fst (snd (snd v)),
             keyAspects = map (keyAspectWithOrb (calculateAspects c1 c2)) (snd (snd (snd v)))\<rparr>\<rparr> = sd"
    unfolding analyzeSynastry_def Let_def case_prod_beta bind_result_eq_Inr_iff sum.inject
    by blast
  from r p sd show thesis
    by (intro that [of "fst r" "snd r" c1 c2 raw "fst v" "fst (snd v)" "fst (snd (snd v))"
          "snd (snd (snd v))"])
      (use c1 c2 raw v in \<open>auto simp: Promise_all2_Inr_iff\<close>)
qed

lemma enrichChart_example:
  "enrichChart exampleRuntime n chart nm =
     Inr \<lparr>planets = map (mergedPlanet [(''Sun'', ''Radiant.''), (''Moon'', '''')]) (planets chart),
          rising = rising chart, elements = elements chart, bigThree = bigThree chart,
          ChartData.name = Some nm, summary = ''Bright.''\<rparr>"
  by (simp add: exampleRuntime_def enrichChart_canned)

lemma resolveBirthDetails_example: "resolveBirthDetails exampleRuntime n details = Inr exampleLocation"
  by (simp add: exampleRuntime_def resolveBirthDetails_canned)

lemma newDate_example [simp]: "newDate exampleRuntime s = 0"
  by (simp add: exampleRuntime_def cannedRuntime_def)

lemma analyzeBirthChart_example:
  "\<exists>cd. analyzeBirthChart exampleRuntime exampleSky details = Inr cd"
proof -
  obtain c where "calculateChart exampleSky 0 (lat exampleLocation) (lon exampleLocation) = Inr c"
    using exampleSky_succeeds by blast
  then show ?thesis
    by (simp add: analyzeBirthChart_Inr_iff resolveBirthDetails_example enrichChart_example)
qed

lemma analyzeSynastry_example:
  "\<exists>sd. analyzeSynastry exampleRuntime exampleSky d1 d2 = Inr sd"
proof -
  obtain c where c: "calculateChart exampleSky 0 (lat exampleLocation) (lon exampleLocation) = Inr c"
    using exampleSky_succeeds by blast
  have "responseJSON exampleRuntime 4 p m = Inr (synastryAnalysisJSON (''Close.'', [''Warmth''], [''Pride''],
        [(''Sun'', ''Moon'', ''Sextile'', ''Ease.''), (''Sun'', ''Mars'', ''trine'', ''Drive.'')]))"
    if "\<exists>a b c. p = SynastryPrompt a b c" for p m
    using that by (auto simp: responseJSON_def exampleRuntime_def cannedRuntime_def)
  with c show ?thesis
    by (simp add: analyzeSynastry_def resolveBirthDetails_example enrichChart_example
          Promise_all2_def Let_def SynastryAnalysisSchema_roundtrip)
qed

section \<open>Charts that the pipelines return\<close>

lemma enrichChart_chartOK:
  assumes c: "calculateChart A d la lo = Inr c" and cd: "enrichChart R n c nm = Inr cd"
  shows "chartOK cd"
proof -
  from cd obtain validated :: Interpretation where
    eq: "cd = \<lparr>planets = map (mergedPlanet (fst validated)) (planets c),
               rising = rising c, elements = elements c, bigThree = bigThree c,
               ChartData.name = Some nm, summary = snd validated\<rparr>"
    unfolding enrichChart_Inr_iff by blast
  define ips where "ips = fst validated"
  from eq have ps: "planets cd = map (mergedPlanet ips) (planets c)"
    and el: "elements cd = elements c"
    by (simp_all add: ips_def)
  have "map CalculatedPlanet.name (planets cd) = BODIES"
    using calculateChart_names [OF c] by (simp add: ps comp_def)
  moreover have "balanceTotal (elements cd) = 100"
    using calculateChart_balanceTotal [OF c] by (simp add: el)
  moreover have "1 \<le> house p \<and> house p \<le> 12 \<and> interpretation p \<noteq> ''''" if "p \<in> set (planets cd)" for p
  proof -
    from that ps obtain q where q: "q \<in> set (planets c)" and p: "p = mergedPlanet ips q" by auto
    from calculateChart_house_range [OF c q] show ?thesis
      by (simp add: p mergedPlanet_nonempty)
  qed
  ultimately show ?thesis by (simp add: chartOK_def)
qed

lemma analyzeBirthChart_chartOK:
  assumes "analyzeBirthChart R A details = Inr cd"
  shows "chartOK cd" and "ChartData.name cd = Some (BirthDetails.name details)"
proof -
  from assms obtain l :: ResolvedLocation and c :: CalculatedChart
    where c: "calculateChart A (newDate R (utcTime l)) (lat l) (lon l) = Inr c"
    and cd: "enrichChart R 1 c (BirthDetails.name details) = Inr cd"
    unfolding analyzeBirthChart_Inr_iff by blast
  from c cd show "chartOK cd" by (rule enrichChart_chartOK)
  from cd show "ChartData.name cd = Some (BirthDetails.name details)"
    by (rule enrichChart_fields)
qed

lemma analyzeSynastry_dataOK:
  assumes "analyzeSynastry R A d1 d2 = Inr sd"
  shows "dataOK (Inr sd)"
proof -
  from assms obtain r1 r2 :: ResolvedLocation and c1 c2 :: CalculatedChart and ov st ch kas where
    c1: "calculateChart A (newDate R (utcTime r1)) (lat r1) (lon r1) = Inr c1"
    and c2: "calculateChart A (newDate R (utcTime r2)) (lat r2) (lon r2) = Inr c2"
    and p1: "enrichChart R 2 c1 (BirthDetails.name d1) = Inr (personA sd)"
    and p2: "enrichChart R 3 c2 (BirthDetails.name d2) = Inr (personB sd)"
    and a: "analysis sd = \<lparr>overview = ov, strengths = st, challenges = ch,
           keyAspects = map (keyAspectWithOrb (calculateAspects c1 c2)) kas\<rparr>"
    by (rule analyzeSynastry_cases) blast
  have "\<forall>x\<in>set (calculateAspects c1 c2). 0 \<le> orb x \<and> orb x \<le> 6"
    by (simp add: calculateAspects_orb_range)
  then have "\<forall>k\<in>set (keyAspects (analysis sd)). 0 \<le> orb k \<and> orb k \<le> 6"
    by (auto simp: a intro: keyAspectWithOrb_orb_range)
  with enrichChart_chartOK [OF c1 p1] enrichChart_chartOK [OF c2 p2] show ?thesis
    by (simp add: dataOK_def)
qed

lemma chartOK_Sun:
  assumes "chartOK cd"
  shows "\<exists>p. find (\<lambda>p. CalculatedPlanet.name p = ''Sun'') (planets cd) = Some p"
proof -
  from assms have "map CalculatedPlanet.name (planets cd) = BODIES" by (simp add: chartOK_def)
  then have "''Sun'' \<in> set (map CalculatedPlanet.name (planets cd))" by (simp add: BODIES_def)
  then have "\<exists>p\<in>set (planets cd). CalculatedPlanet.name p = ''Sun''" by auto
  then have "find (\<lambda>p. CalculatedPlanet.name p = ''Sun'') (planets cd) \<noteq> None"
    by (auto simp: find_None_iff)
  then show ?thesis by auto
qed

lemma chartOK_length:
  assumes "chartOK cd"
  shows "length (planets cd) = 10"
proof -
  from assms have "length (map CalculatedPlanet.name (planets cd)) = length BODIES"
    by (simp add: chartOK_def)
  then show ?thesis by simp
qed

section \<open>Properties of the schemas\<close>


text \<open>C31. What the location schema accepts is an object whose four fields have the types of a
  resolved location, and the location returned holds their values; every other document is
  rejected with a \<open>ZodError\<close>.\<close>

theorem ResolvedLocationSchema_validates:
  "(ResolvedLocationSchema j = Inr l \<longrightarrow>
      (\<exists>kvs. j = JObject kvs
        \<and> map_of kvs ''lat'' = Some (JNumber (lat l))
        \<and> map_of kvs ''lon'' = Some (JNumber (lon l))
        \<and> map_of kvs ''utcTime'' = Some (JString (utcTime l))
        \<and> map_of kvs ''formattedAddress'' = Some (JString (formattedAddress l))))
   \<and> (ResolvedLocationSchema j = Inl e \<longrightarrow> e = ZodError)"
  using ResolvedLocationSchema_Inr_iff [of j l] ResolvedLocationSchema_Inl [of j e] by blast

theorem ResolvedLocationSchema_validates_witness:
  "ResolvedLocationSchema (JObject [(''lat'', JString ''north'')]) = Inl ZodError"
proof -
  have "ResolvedLocationSchema (JObject [(''lat'', JString ''north'')]) = Inl ZodError
      \<longrightarrow> ZodError = ZodError" by simp
  moreover have "\<exists>e. ResolvedLocationSchema (JObject [(''lat'', JString ''north'')]) = Inl e"
    by (simp add: ResolvedLocationSchema_def)
  ultimately show ?thesis
    using ResolvedLocationSchema_validates [of "JObject [(''lat'', JString ''north'')]"] by blast
qed

section \<open>Properties of enrichChart\<close>

text \<open>A merged planet is the computed planet with an interpretation added: the
  interpretation of the first entry of the response with the planet's name, or the default
  text when there is no such entry or its interpretation is empty.\<close>

theorem mergedPlanet_lookup:
  "CalculatedPlanet.truncate (mergedPlanet ips p) = p
   \<and> interpretation (mergedPlanet ips p) =
      (case find (\<lambda>ip. fst ip = CalculatedPlanet.name p) ips of
         None \<Rightarrow> ''A mysterious placement.''
       | Some ip \<Rightarrow> if snd ip = '''' then ''A mysterious placement.'' else snd ip)"
  by (simp add: mergedPlanet_interpretation)

text \<open>C9. When \<open>enrichChart\<close> returns, the chart data holds the computed chart unchanged: the
  same planets in the same order with all their computed fields, the same rising sign,
  elements and big three; the subject's name is set and no interpretation is empty.\<close>

theorem enrichChart_preserves:
  assumes "enrichChart R n chart nm = Inr cd"
  shows "map CalculatedPlanet.truncate (planets cd) = planets chart
    \<and> rising cd = rising chart \<and> elements cd = elements chart \<and> bigThree cd = bigThree chart
    \<and> ChartData.name cd = Some nm
    \<and> (\<forall>p\<in>set (planets cd). interpretation p \<noteq> '''')"
  using enrichChart_fields [OF assms] by blast

theorem enrichChart_preserves_witness:
  "\<exists>cd. enrichChart exampleRuntime 1 (chartWith [planetAt ''Sun'' 10, planetAt ''Moon'' 70]) ''Ada'' = Inr cd
     \<and> map CalculatedPlanet.truncate (planets cd) = [planetAt ''Sun'' 10, planetAt ''Moon'' 70]
     \<and> map interpretation (planets cd) = [''Radiant.'', ''A mysterious placement.'']"
proof -
  let ?c = "chartWith [planetAt ''Sun'' 10, planetAt ''Moon'' 70]"
  obtain cd where cd: "enrichChart exampleRuntime 1 ?c ''Ada'' = Inr cd"
    by (simp add: enrichChart_example)
  from enrichChart_preserves [OF cd]
  have "map CalculatedPlanet.truncate (planets cd) = planets ?c" by (rule conjunct1)
  moreover from cd have "map interpretation (planets cd) = [''Radiant.'', ''A mysterious placement.'']"
    by (auto simp: enrichChart_example chartWith_def chartOf_def mergedPlanet_interpretation
          planetAt_def)
  ultimately show ?thesis using cd by (simp add: chartWith_def chartOf_def)
qed

section \<open>Properties of the pipelines\<close>



text \<open>\<open>analyzeSynastry\<close> fails when one of the two location requests fails: no chart is
  computed from one resolved location alone.\<close>

theorem analyzeSynastry_needs_both:
  assumes "isl (resolveBirthDetails R 0 d1) \<or> isl (resolveBirthDetails R 1 d2)"
  shows "isl (analyzeSynastry R A d1 d2)"
proof -
  from assms have "isl (Promise_all2 (resolveBirthDetails R 0 d1) (resolveBirthDetails R 1 d2))"
    by (simp add: Promise_all2_isl)
  then show ?thesis by (auto simp: analyzeSynastry_def isl_def)
qed

theorem analyzeSynastry_needs_both_witness:
  "isl (analyzeSynastry (exampleRuntime\<lparr>generateContent := \<lambda>n p. if n = 1 then Inr None else Inr (Some ''L'')\<rparr>)
     exampleSky exampleDetails exampleDetails)"
  by (rule analyzeSynastry_needs_both) (simp add: resolveBirthDetails_def responseJSON_def)

text \<open>C32. A key aspect of the response that matches no computed aspect in both planets and the
  aspect type, compared as strings, is kept with orb 0.\<close>

theorem keyAspectWithOrb_unmatched:
  assumes "\<forall>x\<in>set aspects. \<not> (planetA x = a \<and> planetB x = b \<and> aspectType x = t)"
  shows "keyAspectWithOrb aspects (a, b, t, d)
    = \<lparr>planetA = a, planetB = b, aspectType = t, description = d, orb = 0\<rparr>"
proof -
  from assms have "find (\<lambda>x. planetA x = a \<and> planetB x = b \<and> aspectType x = t) aspects = None"
    by (simp add: find_None_iff)
  then show ?thesis by (simp add: keyAspectWithOrb_def)
qed

theorem keyAspectWithOrb_unmatched_witness:
  "keyAspectWithOrb (calculateAspects (chartWith [planetAt ''Sun'' 10]) (chartWith [planetAt ''Mars'' 132]))
     (''Sun'', ''Mars'', ''trine'', ''Drive.'')
    = \<lparr>planetA = ''Sun'', planetB = ''Mars'', aspectType = ''trine'', description = ''Drive.'', orb = 0\<rparr>
   \<and> map (\<lambda>x. (aspectType x, orb x))
       (calculateAspects (chartWith [planetAt ''Sun'' 10]) (chartWith [planetAt ''Mars'' 132]))
     = [(''Trine'', 2)]"
proof -
  have *: "calculateAspects (chartWith [planetAt ''Sun'' 10]) (chartWith [planetAt ''Mars'' 132])
      = [\<lparr>planetA = ''Sun'', planetB = ''Mars'', aspectType = ''Trine'', description = '''', orb = 2\<rparr>]"
    by (simp add: calculateAspects_def allAspects_def aspectOf_def chartWith_def chartOf_def
          planetAt_def circularSeparation_def classifyAspect_def aspectAngle_def ORB_def Let_def
          List.map_filter_simps)
  have "keyAspectWithOrb (calculateAspects (chartWith [planetAt ''Sun'' 10]) (chartWith [planetAt ''Mars'' 132]))
     (''Sun'', ''Mars'', ''trine'', ''Drive.'')
    = \<lparr>planetA = ''Sun'', planetB = ''Mars'', aspectType = ''trine'', description = ''Drive.'', orb = 0\<rparr>"
    by (rule keyAspectWithOrb_unmatched) (simp add: *)
  then show ?thesis by (simp add: *)
qed

text \<open>C10. In the analysis that \<open>analyzeSynastry\<close> returns every key aspect has an orb between
  0 and 6 degrees: it is the orb of a computed aspect or 0.\<close>

theorem analyzeSynastry_keyAspects_orb:
  assumes "analyzeSynastry R A d1 d2 = Inr sd"
  shows "\<forall>k\<in>set (keyAspects (analysis sd)). 0 \<le> orb k \<and> orb k \<le> 6"
proof -
  from assms obtain c1 c2 :: CalculatedChart and ov st ch kas where
    a: "analysis sd = \<lparr>overview = ov, strengths = st, challenges = ch,
           keyAspects = map (keyAspectWithOrb (calculateAspects c1 c2)) kas\<rparr>"
    by (rule analyzeSynastry_cases) blast
  have "\<forall>x\<in>set (calculateAspects c1 c2). 0 \<le> orb x \<and> orb x \<le> 6"
    by (simp add: calculateAspects_orb_range)
  then show ?thesis
    by (auto simp: a intro: keyAspectWithOrb_orb_range)
qed

theorem analyzeSynastry_keyAspects_orb_witness:
  "\<exists>sd. analyzeSynastry exampleRuntime exampleSky exampleDetails exampleDetails = Inr sd
     \<and> (\<forall>k\<in>set (keyAspects (analysis sd)). 0 \<le> orb k \<and> orb k \<le> 6)"
proof -
  obtain sd where "analyzeSynastry exampleRuntime exampleSky exampleDetails exampleDetails = Inr sd"
    using analyzeSynastry_example by blast
  with analyzeSynastry_keyAspects_orb [OF this] show ?thesis by blast
qed

end
