(* ===== verification/Zodiac_Wheel.thy ===== *)
theory Zodiac_Wheel
  imports Celestia_Types
begin

text \<open>
  The chart wheel of \<open>components/ZodiacWheel.tsx\<close> (\<open>src/unnamed/part_001\<close>, lines 1 to 389):
  the radial layout \<open>resolveCollisions\<close> that stacks clustered planets on tracks and flags
  isolated ones, the rotation and coordinates of the wheel, the radii of the two rings of
  planets, the classification of the aspect lines and the rule that shows a label.

  \<^item> \<open>{...planet, track, isIsolated}\<close> is the record \<open>TrackedPlanet\<close>, an extension of
    \<open>PlanetPosition\<close>, built by \<open>withTrack\<close>. A track is a \<^typ>\<open>nat\<close>: the code counts it
    up from 0.
  \<^item> The \<open>Set\<close> of used tracks is the list of the tracks added, \<open>has\<close> is membership.
  \<^item> The loop \<open>while (usedTracks.has(track)) track++\<close> is the recursive function
    \<open>firstAvailable\<close>; it terminates because every step passes one more used track.
  \<^item> \<open>forEachUpTo sorted' minDeg k\<close> is the array \<open>withTracks\<close> after the first \<open>k\<close> calls
    of the \<open>forEach\<close> callback, \<open>placePlanet\<close> is the object that one call pushes.
  \<^item> The point \<open>{x, y}\<close> is a pair. The fields \<open>x\<close>, \<open>y\<close> and \<open>r\<close> of a plotted planet
    are \<open>coords\<close> and \<open>plotRadius\<close>, the owners \<open>'A'\<close> and \<open>'B'\<close> are \<open>OwnerA\<close> and
    \<open>OwnerB\<close>: a record field or constructor named \<open>x\<close> or \<open>A\<close> would take that name from
    every later statement.
  \<^item> A parameter named like a constant of the library has a prime: \<open>sorted'\<close>.

  The state hooks of the component, its event handlers and what it draws are in the theory
  \<open>Wheel_View\<close>.
\<close>

section \<open>resolveCollisions\<close>

definition getDist :: "number \<Rightarrow> number \<Rightarrow> number" where
  "getDist d1 d2 = (let diff = \<bar>d1 - d2\<bar> in if diff > 180 then 360 - diff else diff)"

record TrackedPlanet = PlanetPosition +
  track :: nat
  isIsolated :: bool

definition withTrack :: "PlanetPosition \<Rightarrow> nat \<Rightarrow> bool \<Rightarrow> TrackedPlanet" where
  "withTrack planet t isolated' = PlanetPosition.extend planet (TrackedPlanet.fields t isolated')"

definition isolatedAt :: "PlanetPosition list \<Rightarrow> nat \<Rightarrow> bool" where
  "isolatedAt sorted' i =
    (let planet = sorted' ! i;
         prev = sorted' ! ((i + length sorted' - 1) mod length sorted');
         nxt = sorted' ! ((i + 1) mod length sorted')
     in if length sorted' > 1
        then \<not> (getDist (CalculatedPlanet.degree planet) (CalculatedPlanet.degree prev) < 15
                \<or> getDist (CalculatedPlanet.degree planet) (CalculatedPlanet.degree nxt) < 15)
        else True)"

definition usedTracks :: "TrackedPlanet list \<Rightarrow> number \<Rightarrow> number \<Rightarrow> nat \<Rightarrow> nat list" where
  "usedTracks withTracks d minDeg i =
    map (\<lambda>j. track (withTracks ! (i - j)))
      (filter (\<lambda>j. j \<le> i \<and> getDist d (CalculatedPlanet.degree (withTracks ! (i - j))) < minDeg)
         [1..<5])"

function firstAvailable :: "nat list \<Rightarrow> nat \<Rightarrow> nat" where
  "firstAvailable used t = (if t \<in> set used then firstAvailable used (t + 1) else t)"
  by pat_completeness auto

termination
proof (relation "measure (\<lambda>(used, t). length (filter (\<lambda>u. t \<le> u) used))")
  fix used :: "nat list" and t
  assume "t \<in> set used"
  then have "t \<in> set (filter (\<lambda>u. t \<le> u) used)" by simp
  then have "length (filter (\<lambda>u. t + 1 \<le> u) (filter (\<lambda>u. t \<le> u) used))
      < length (filter (\<lambda>u. t \<le> u) used)"
    by (rule length_filter_less) simp
  moreover have "filter (\<lambda>u. t + 1 \<le> u) (filter (\<lambda>u. t \<le> u) used) = filter (\<lambda>u. t + 1 \<le> u) used"
    by (auto intro: filter_cong)
  ultimately show "((used, t + 1), (used, t)) \<in> measure (\<lambda>(used, t). length (filter (\<lambda>u. t \<le> u) used))"
    by simp
qed simp

declare firstAvailable.simps [simp del]

definition placePlanet :: "PlanetPosition list \<Rightarrow> number \<Rightarrow> TrackedPlanet list \<Rightarrow> nat \<Rightarrow> TrackedPlanet" where
  "placePlanet sorted' minDeg withTracks i =
    (let planet = sorted' ! i;
         used = usedTracks withTracks (CalculatedPlanet.degree planet) minDeg i
     in withTrack planet (firstAvailable used 0) (isolatedAt sorted' i))"

primrec forEachUpTo :: "PlanetPosition list \<Rightarrow> number \<Rightarrow> nat \<Rightarrow> TrackedPlanet list" where
  "forEachUpTo sorted' minDeg 0 = []"
| "forEachUpTo sorted' minDeg (Suc k) =
    (let withTracks = forEachUpTo sorted' minDeg k
     in withTracks @ [placePlanet sorted' minDeg withTracks k])"

definition wrapPatch :: "number \<Rightarrow> TrackedPlanet list \<Rightarrow> TrackedPlanet list" where
  "wrapPatch minDeg withTracks =
    (if length withTracks > 1
     then let first = withTracks ! 0;
              last = withTracks ! (length withTracks - 1)
          in if getDist (CalculatedPlanet.degree first) (CalculatedPlanet.degree last) < minDeg
                \<and> track first = track last
             then withTracks[0 := first\<lparr>track := track first + 1\<rparr>]
             else withTracks
     else withTracks)"

definition resolveCollisions :: "PlanetPosition list \<Rightarrow> number \<Rightarrow> TrackedPlanet list" where
  "resolveCollisions planets' minDeg =
    (let sorted' = sort_key CalculatedPlanet.degree planets'
     in wrapPatch minDeg (forEachUpTo sorted' minDeg (length sorted')))"

definition resolveCollisionsDefault :: "PlanetPosition list \<Rightarrow> TrackedPlanet list" where
  "resolveCollisionsDefault planets' = resolveCollisions planets' 6"

section \<open>Geometry of the wheel\<close>

definition radius :: number where "radius = 300"
definition center :: number where "center = radius + 50"
definition trackSpacing :: number where "trackSpacing = 18"

definition rotationOffset :: "number \<Rightarrow> number \<Rightarrow> number" where
  "rotationOffset risingDegree manualOffset = (180 - risingDegree) + manualOffset"

definition getCoordinates :: "number \<Rightarrow> number \<Rightarrow> number \<Rightarrow> number \<times> number" where
  "getCoordinates offset degree' r =
    (let adjustedDegree = degree' + offset;
         rad = (adjustedDegree * pi) / 180
     in (center + r * cos rad, center - r * sin rad))"

datatype Owner = OwnerA | OwnerB

record PlottedPlanet = TrackedPlanet +
  coords :: "number \<times> number"
  plotRadius :: number
  owner :: Owner

definition plotPlanet :: "number \<Rightarrow> Owner \<Rightarrow> TrackedPlanet \<Rightarrow> PlottedPlanet" where
  "plotPlanet offset who p =
    (let r = (case who of
                OwnerA \<Rightarrow> radius * 0.82 - real (track p) * trackSpacing
              | OwnerB \<Rightarrow> radius * 0.45 + real (track p) * trackSpacing)
     in TrackedPlanet.extend p
          (PlottedPlanet.fields (getCoordinates offset (CalculatedPlanet.degree p) r) r who))"

definition plottedPlanetsA :: "number \<Rightarrow> PlanetPosition list \<Rightarrow> PlottedPlanet list" where
  "plottedPlanetsA offset planets' = map (plotPlanet offset OwnerA) (resolveCollisionsDefault planets')"

definition plottedPlanetsB :: "number \<Rightarrow> PlanetPosition list option \<Rightarrow> PlottedPlanet list" where
  "plottedPlanetsB offset secondaryPlanets =
    (case secondaryPlanets of
       None \<Rightarrow> []
     | Some planets' \<Rightarrow> map (plotPlanet offset OwnerB) (resolveCollisionsDefault planets'))"


definition maxTrack :: "PlottedPlanet list \<Rightarrow> nat" where
  "maxTrack ps = fold max (map track ps) 0"

definition tracks :: "PlottedPlanet list \<Rightarrow> PlottedPlanet list \<Rightarrow> number list" where
  "tracks plottedA plottedB =
    (let maxTrackA = maxTrack plottedA;
         maxTrackB = maxTrack plottedB;
         baseRA = radius * 0.82;
         baseRB = radius * 0.45
     in map (\<lambda>i. baseRA - real i * trackSpacing) [0..<maxTrackA + 1]
        @ map (\<lambda>i. baseRB + real i * trackSpacing) [0..<maxTrackB + 1])"

section \<open>Aspect lines and labels\<close>

type_synonym Selection = "PlanetPosition \<times> Owner"

record AspectLine =
  lineStart :: PlottedPlanet
  lineEnd :: PlottedPlanet
  lineType :: string
  lineActive :: bool

definition activeSelection :: "Selection option \<Rightarrow> Selection option \<Rightarrow> Selection option" where
  "activeSelection hoveredPlanet selectedPlanet =
    (case hoveredPlanet of Some h \<Rightarrow> Some h | None \<Rightarrow> selectedPlanet)"

definition isActivePlanet :: "Selection option \<Rightarrow> PlottedPlanet \<Rightarrow> bool" where
  "isActivePlanet active p =
    (case active of
       None \<Rightarrow> False
     | Some a \<Rightarrow> CalculatedPlanet.name p = CalculatedPlanet.name (fst a) \<and> owner p = snd a)"

definition wheelAspectType :: "number \<Rightarrow> bool \<Rightarrow> string" where
  "wheelAspectType normDiff synastry =
    (if \<bar>normDiff - 180\<bar> < 6 then ''opposition''
     else if \<bar>normDiff - 120\<bar> < 6 then ''trine''
     else if \<bar>normDiff - 90\<bar> < 6 then ''square''
     else if \<bar>normDiff - 60\<bar> < 4 then ''sextile''
     else if \<bar>normDiff - 0\<bar> < 6 \<and> synastry then ''conjunction''
     else '''')"

definition aspectLine ::
  "bool \<Rightarrow> Selection option \<Rightarrow> nat \<times> PlottedPlanet \<Rightarrow> nat \<times> PlottedPlanet \<Rightarrow> AspectLine option" where
  "aspectLine synastry active ip1 jp2 =
    (let i = fst ip1; p1 = snd ip1; j = fst jp2; p2 = snd jp2
     in if \<not> synastry \<and> i \<ge> j then None
        else if active \<noteq> None \<and> \<not> isActivePlanet active p1 \<and> \<not> isActivePlanet active p2 then None
        else
          let diff = \<bar>CalculatedPlanet.degree p1 - CalculatedPlanet.degree p2\<bar>;
              normDiff = (if diff > 180 then 360 - diff else diff);
              type = wheelAspectType normDiff synastry
          in if type = '''' then None
             else Some \<lparr>lineStart = p1, lineEnd = p2, lineType = type,
                    lineActive = (isActivePlanet active p1 \<or> isActivePlanet active p2)\<rparr>)"

definition aspectLines ::
  "bool \<Rightarrow> Selection option \<Rightarrow> PlottedPlanet list \<Rightarrow> PlottedPlanet list \<Rightarrow> AspectLine list" where
  "aspectLines synastry active plottedA plottedB =
    (let set1 = plottedA;
         set2 = (if synastry then plottedB else plottedA)
     in concat (map (\<lambda>ip1. List.map_filter (aspectLine synastry active ip1) (enumerate 0 set2))
                  (enumerate 0 set1)))"

definition showLabel :: "Selection option \<Rightarrow> Selection option \<Rightarrow> bool \<Rightarrow> PlottedPlanet \<Rightarrow> bool" where
  "showLabel selectedPlanet hoveredPlanet synastry p =
    (let isSelected = isActivePlanet selectedPlanet p;
         isHovered = isActivePlanet hoveredPlanet p;
         isActive = (isSelected \<or> isHovered)
     in isActive \<or> (isIsolated p \<and> \<not> synastry))"

section \<open>Notions used to state the properties\<close>

text \<open>
  Two tracked planets \<open>collide\<close> when they are closer than the threshold on the circle and on
  the same track; a layout is \<open>collisionFree\<close> when no two of its planets collide.
  \<open>tracksUpTo\<close> computes the tracks from the list of degrees alone. \<open>positionAt\<close> is a planet
  at a given degree, the input of the examples.
\<close>

definition collides :: "number \<Rightarrow> TrackedPlanet \<Rightarrow> TrackedPlanet \<Rightarrow> bool" where
  "collides minDeg a b \<longleftrightarrow>
     getDist (CalculatedPlanet.degree a) (CalculatedPlanet.degree b) < minDeg \<and> track a = track b"

definition collisionFree :: "number \<Rightarrow> TrackedPlanet list \<Rightarrow> bool" where
  "collisionFree minDeg ws = sorted_wrt (\<lambda>a b. \<not> collides minDeg a b) ws"

definition trackFor :: "number list \<Rightarrow> number \<Rightarrow> nat list \<Rightarrow> nat \<Rightarrow> nat" where
  "trackFor ds m ts k =
    firstAvailable (map (\<lambda>j. ts ! (k - j))
      (filter (\<lambda>j. j \<le> k \<and> getDist (ds ! k) (ds ! (k - j)) < m) [1..<5])) 0"

primrec tracksUpTo :: "number list \<Rightarrow> number \<Rightarrow> nat \<Rightarrow> nat list" where
  "tracksUpTo ds m 0 = []"
| "tracksUpTo ds m (Suc k) = (let ts = tracksUpTo ds m k in ts @ [trackFor ds m ts k])"

definition positionAt :: "number \<Rightarrow> PlanetPosition" where
  "positionAt d = \<lparr>CalculatedPlanet.name = '''', symbol = [], sign = '''', signSymbol = [],
     degree = d, relativeDegree = 0, house = 1, retrograde = False, interpretation = ''''\<rparr>"

lemmas [celestia_defs] = getDist_def withTrack_def isolatedAt_def usedTracks_def placePlanet_def
  wrapPatch_def resolveCollisions_def resolveCollisionsDefault_def radius_def center_def
  trackSpacing_def rotationOffset_def getCoordinates_def plotPlanet_def plottedPlanetsA_def
  plottedPlanetsB_def maxTrack_def tracks_def activeSelection_def isActivePlanet_def
  wheelAspectType_def aspectLine_def aspectLines_def showLabel_def

section \<open>Circular distance\<close>

lemma getDist_sym: "getDist d1 d2 = getDist d2 d1"
  by (simp add: getDist_def abs_minus_commute)

lemma getDist_self [simp]: "getDist d d = 0"
  by (simp add: getDist_def)

lemma getDist_le_180: "getDist d1 d2 \<le> 180"
  by (simp add: getDist_def Let_def)

lemma getDist_nonneg:
  assumes "\<bar>d1 - d2\<bar> \<le> 360"
  shows "0 \<le> getDist d1 d2"
  using assms by (simp add: getDist_def Let_def)

lemma getDist_range:
  assumes "0 \<le> d1" "d1 < 360" "0 \<le> d2" "d2 < 360"
  shows "0 \<le> getDist d1 d2" and "getDist d1 d2 \<le> 180"
  using assms by (auto simp: getDist_def Let_def)

lemma getDist_small:
  assumes "\<bar>d1 - d2\<bar> \<le> 180"
  shows "getDist d1 d2 = \<bar>d1 - d2\<bar>"
  using assms by (simp add: getDist_def Let_def)

section \<open>Tracked planets\<close>

lemma withTrack_fields [simp]:
  shows "track (withTrack p t b) = t"
    and "isIsolated (withTrack p t b) = b"
    and "CalculatedPlanet.degree (withTrack p t b) = CalculatedPlanet.degree p"
    and "CalculatedPlanet.name (withTrack p t b) = CalculatedPlanet.name p"
    and "PlanetPosition.truncate (withTrack p t b) = p"
  by (simp_all add: withTrack_def PlanetPosition.defs TrackedPlanet.defs CalculatedPlanet.defs)

lemma truncate_track_update [simp]:
  "PlanetPosition.truncate (p\<lparr>track := t\<rparr>) = PlanetPosition.truncate p"
  by (simp add: PlanetPosition.defs CalculatedPlanet.defs)

section \<open>The first available track\<close>

lemma firstAvailable_ge: "t \<le> firstAvailable used t"
proof (induction used t rule: firstAvailable.induct)
  case (1 used t)
  then show ?case by (subst firstAvailable.simps) (auto simp: Suc_leD)
qed

lemma firstAvailable_free: "firstAvailable used t \<notin> set used"
proof (induction used t rule: firstAvailable.induct)
  case (1 used t)
  then show ?case by (subst firstAvailable.simps) auto
qed

lemma firstAvailable_least:
  assumes "t \<le> u" and "u < firstAvailable used t"
  shows "u \<in> set used"
  using assms
proof (induction used t rule: firstAvailable.induct)
  case (1 used t)
  show ?case
  proof (cases "t \<in> set used")
    case True
    with 1 show ?thesis
      by (cases "u = t") (simp_all add: firstAvailable.simps [of used t])
  next
    case False
    with 1 show ?thesis by (simp add: firstAvailable.simps [of used t])
  qed
qed

lemma firstAvailable_le_card: "firstAvailable used 0 \<le> card (set used)"
proof -
  have "{0..<firstAvailable used 0} \<subseteq> set used"
    by (auto intro: firstAvailable_least)
  then have "card {0..<firstAvailable used 0} \<le> card (set used)"
    by (intro card_mono) simp_all
  then show ?thesis by simp
qed

lemma firstAvailable_le_length: "firstAvailable used 0 \<le> length used"
  using firstAvailable_le_card [of used] card_length [of used] by linarith

lemma firstAvailable_eq_iff:
  "firstAvailable used 0 = t \<longleftrightarrow> t \<notin> set used \<and> (\<forall>u<t. u \<in> set used)"
proof
  assume "firstAvailable used 0 = t"
  then show "t \<notin> set used \<and> (\<forall>u<t. u \<in> set used)"
    using firstAvailable_free [of used 0] firstAvailable_least [of 0 _ used] by auto
next
  assume t: "t \<notin> set used \<and> (\<forall>u<t. u \<in> set used)"
  show "firstAvailable used 0 = t"
  proof (rule antisym)
    show "firstAvailable used 0 \<le> t"
      using t firstAvailable_least [of 0 t used] by (meson not_le zero_le)
    show "t \<le> firstAvailable used 0"
      using t firstAvailable_free [of used 0] by (meson not_le)
  qed
qed

section \<open>The used tracks\<close>

lemma length_usedTracks: "length (usedTracks w d m i) \<le> min i 4"
proof -
  let ?P = "\<lambda>j. j \<le> i \<and> getDist d (CalculatedPlanet.degree (w ! (i - j))) < m"
  have "length (filter ?P [1..<5]) = card ({j. ?P j} \<inter> set [1..<5])"
    by (intro distinct_length_filter) simp
  also have "\<dots> \<le> card {1..i}"
    by (intro card_mono) auto
  finally have "length (filter ?P [1..<5]) \<le> i" by simp
  moreover have "length (filter ?P [1..<5]) \<le> 4"
    using length_filter_le [of ?P "[1..<5]"] by simp
  ultimately show ?thesis by (simp add: usedTracks_def)
qed

lemma usedTracks_member:
  assumes "1 \<le> j" "j \<le> 4" "j \<le> i" "getDist d (CalculatedPlanet.degree (w ! (i - j))) < m"
  shows "track (w ! (i - j)) \<in> set (usedTracks w d m i)"
  using assms by (auto simp: usedTracks_def)

section \<open>The forEach loop\<close>

lemma placePlanet_fields [simp]:
  shows "track (placePlanet s m w i) = firstAvailable (usedTracks w (CalculatedPlanet.degree (s ! i)) m i) 0"
    and "isIsolated (placePlanet s m w i) = isolatedAt s i"
    and "CalculatedPlanet.degree (placePlanet s m w i) = CalculatedPlanet.degree (s ! i)"
    and "CalculatedPlanet.name (placePlanet s m w i) = CalculatedPlanet.name (s ! i)"
    and "PlanetPosition.truncate (placePlanet s m w i) = s ! i"
  by (simp_all add: placePlanet_def Let_def)

lemma length_forEachUpTo [simp]: "length (forEachUpTo s m k) = k"
  by (induction k) (simp_all add: Let_def)

lemma forEachUpTo_nth:
  assumes "i < k"
  shows "forEachUpTo s m k ! i = placePlanet s m (forEachUpTo s m i) i"
  using assms by (induction k) (auto simp: Let_def nth_append less_Suc_eq)

lemma forEachUpTo_take:
  assumes "i \<le> k"
  shows "take i (forEachUpTo s m k) = forEachUpTo s m i"
  using assms by (induction k) (auto simp: Let_def le_Suc_eq)

lemma forEachUpTo_nth_prefix:
  assumes "j < i" and "i \<le> k"
  shows "forEachUpTo s m i ! j = forEachUpTo s m k ! j"
  using assms by (simp add: forEachUpTo_nth)

lemma forEachUpTo_degree:
  assumes "i < k"
  shows "CalculatedPlanet.degree (forEachUpTo s m k ! i) = CalculatedPlanet.degree (s ! i)"
  using assms by (simp add: forEachUpTo_nth)

lemma forEachUpTo_isIsolated:
  assumes "i < k"
  shows "isIsolated (forEachUpTo s m k ! i) = isolatedAt s i"
  using assms by (simp add: forEachUpTo_nth)

lemma map_truncate_forEachUpTo:
  assumes "k \<le> length s"
  shows "map PlanetPosition.truncate (forEachUpTo s m k) = take k s"
  using assms by (intro nth_equalityI) (simp_all add: forEachUpTo_nth)

lemma forEachUpTo_track_le:
  assumes "i < k"
  shows "track (forEachUpTo s m k ! i) \<le> min i 4"
  using assms firstAvailable_le_length length_usedTracks
  by (simp only: forEachUpTo_nth placePlanet_fields) (rule le_trans)

lemma forEachUpTo_lookback:
  assumes "i < k" and "1 \<le> j" and "j \<le> 4" and "j \<le> i"
    and "getDist (CalculatedPlanet.degree (s ! i)) (CalculatedPlanet.degree (s ! (i - j))) < m"
  shows "track (forEachUpTo s m k ! i) \<noteq> track (forEachUpTo s m k ! (i - j))"
proof -
  let ?w = "forEachUpTo s m i"
  from assms have eq: "forEachUpTo s m k ! (i - j) = ?w ! (i - j)"
    by (intro forEachUpTo_nth_prefix [symmetric]) simp_all
  from assms have "CalculatedPlanet.degree (?w ! (i - j)) = CalculatedPlanet.degree (s ! (i - j))"
    by (intro forEachUpTo_degree) simp
  with assms have "track (?w ! (i - j)) \<in> set (usedTracks ?w (CalculatedPlanet.degree (s ! i)) m i)"
    by (intro usedTracks_member) simp_all
  moreover have "track (forEachUpTo s m k ! i)
      \<notin> set (usedTracks ?w (CalculatedPlanet.degree (s ! i)) m i)"
    using assms(1) by (simp add: forEachUpTo_nth firstAvailable_free)
  ultimately show ?thesis by (metis eq)
qed

lemma forEachUpTo_near_no_collision:
  assumes "j < i" and "i < k" and "i - j \<le> 4"
  shows "\<not> collides m (forEachUpTo s m k ! j) (forEachUpTo s m k ! i)"
proof
  assume c: "collides m (forEachUpTo s m k ! j) (forEachUpTo s m k ! i)"
  with assms have "getDist (CalculatedPlanet.degree (s ! i)) (CalculatedPlanet.degree (s ! (i - (i - j)))) < m"
    by (simp add: collides_def forEachUpTo_degree getDist_sym)
  with assms have "track (forEachUpTo s m k ! i) \<noteq> track (forEachUpTo s m k ! (i - (i - j)))"
    by (intro forEachUpTo_lookback) simp_all
  with assms c show False by (simp add: collides_def)
qed

section \<open>The wrap-around patch\<close>

lemma length_wrapPatch [simp]: "length (wrapPatch m w) = length w"
  by (simp add: wrapPatch_def Let_def)

lemma wrapPatch_nth:
  assumes "i < length w"
  shows "wrapPatch m w ! i =
    (if i = 0 \<and> 1 < length w \<and> collides m (w ! 0) (w ! (length w - 1))
     then (w ! 0)\<lparr>track := track (w ! 0) + 1\<rparr> else w ! i)"
  using assms by (auto simp: wrapPatch_def Let_def collides_def nth_list_update)

lemma wrapPatch_id:
  assumes "\<not> (1 < length w \<and> collides m (w ! 0) (w ! (length w - 1)))"
  shows "wrapPatch m w = w"
  using assms by (auto simp: wrapPatch_def Let_def collides_def)

lemma wrapPatch_degree:
  assumes "i < length w"
  shows "CalculatedPlanet.degree (wrapPatch m w ! i) = CalculatedPlanet.degree (w ! i)"
  using assms by (simp add: wrapPatch_nth)

lemma wrapPatch_isIsolated:
  assumes "i < length w"
  shows "isIsolated (wrapPatch m w ! i) = isIsolated (w ! i)"
  using assms by (simp add: wrapPatch_nth)

lemma wrapPatch_track_le:
  assumes "i < length w"
  shows "track (wrapPatch m w ! i) \<le> track (w ! i) + (if i = 0 then 1 else 0)"
  using assms by (simp add: wrapPatch_nth)

lemma map_truncate_wrapPatch [simp]:
  "map PlanetPosition.truncate (wrapPatch m w) = map PlanetPosition.truncate w"
  by (intro nth_equalityI) (simp_all add: wrapPatch_nth)

section \<open>resolveCollisions\<close>

lemma length_resolveCollisions [simp]: "length (resolveCollisions ps m) = length ps"
  by (simp add: resolveCollisions_def Let_def)

lemma map_truncate_resolveCollisions:
  "map PlanetPosition.truncate (resolveCollisions ps m) = sort_key CalculatedPlanet.degree ps"
  by (simp add: resolveCollisions_def Let_def map_truncate_forEachUpTo)

lemma resolveCollisions_degree:
  assumes "i < length ps"
  shows "CalculatedPlanet.degree (resolveCollisions ps m ! i)
    = CalculatedPlanet.degree (sort_key CalculatedPlanet.degree ps ! i)"
  using assms by (simp add: resolveCollisions_def Let_def wrapPatch_degree forEachUpTo_degree)

lemma resolveCollisions_isIsolated:
  assumes "i < length ps"
  shows "isIsolated (resolveCollisions ps m ! i) = isolatedAt (sort_key CalculatedPlanet.degree ps) i"
  using assms by (simp add: resolveCollisions_def Let_def wrapPatch_isIsolated forEachUpTo_isIsolated)

lemma resolveCollisions_track_le:
  assumes "i < length ps"
  shows "track (resolveCollisions ps m ! i) \<le> (if i = 0 then 1 else min i 4)"
proof -
  let ?s = "sort_key CalculatedPlanet.degree ps"
  let ?w = "forEachUpTo ?s m (length ?s)"
  from assms have "track (wrapPatch m ?w ! i) \<le> track (?w ! i) + (if i = 0 then 1 else 0)"
    by (intro wrapPatch_track_le) simp
  moreover from assms have "track (?w ! i) \<le> min i 4"
    by (intro forEachUpTo_track_le) simp
  ultimately show ?thesis by (simp add: resolveCollisions_def Let_def split: if_splits)
qed

lemma collisionFree_iff:
  "collisionFree m ws \<longleftrightarrow> (\<forall>i j. i < j \<longrightarrow> j < length ws \<longrightarrow> \<not> collides m (ws ! i) (ws ! j))"
  by (simp add: collisionFree_def sorted_wrt_iff_nth_less)

lemma forEachUpTo_collisionFree:
  assumes "k \<le> 5"
  shows "collisionFree m (forEachUpTo s m k)"
  unfolding collisionFree_iff
proof (intro allI impI)
  fix i j assume "i < j" and "j < length (forEachUpTo s m k)"
  with assms show "\<not> collides m (forEachUpTo s m k ! i) (forEachUpTo s m k ! j)"
    by (intro forEachUpTo_near_no_collision) simp_all
qed

lemma wrapPatch_forEachUpTo_small:
  assumes "k \<le> 5"
  shows "wrapPatch m (forEachUpTo s m k) = forEachUpTo s m k"
proof (rule wrapPatch_id, rule notI, elim conjE)
  assume "1 < length (forEachUpTo s m k)"
    and "collides m (forEachUpTo s m k ! 0) (forEachUpTo s m k ! (length (forEachUpTo s m k) - 1))"
  moreover from this assms have "\<not> collides m (forEachUpTo s m k ! 0) (forEachUpTo s m k ! (k - 1))"
    by (intro forEachUpTo_near_no_collision) simp_all
  ultimately show False by simp
qed

lemma getDist_ge_iff:
  assumes "c \<le> 180"
  shows "c \<le> getDist a b \<longleftrightarrow> c \<le> \<bar>a - b\<bar> \<and> \<bar>a - b\<bar> \<le> 360 - c"
  using assms by (auto simp: getDist_def Let_def)

lemma isolatedAt_iff:
  assumes "1 < length s" and "i < length s"
  shows "isolatedAt s i \<longleftrightarrow>
    15 \<le> getDist (CalculatedPlanet.degree (s ! i))
            (CalculatedPlanet.degree (s ! (if i = 0 then length s - 1 else i - 1)))
    \<and> 15 \<le> getDist (CalculatedPlanet.degree (s ! i))
            (CalculatedPlanet.degree (s ! (if i + 1 = length s then 0 else i + 1)))"
proof -
  from assms have "(i + length s - 1) mod length s = (if i = 0 then length s - 1 else i - 1)"
    by (cases i) (simp_all add: mod_Suc)
  moreover from assms have "(i + 1) mod length s = (if i + 1 = length s then 0 else i + 1)"
    by auto
  ultimately show ?thesis using assms(1)
    by (simp only: isolatedAt_def Let_def) (simp add: not_less)
qed

lemma isolatedAt_single:
  assumes "length s \<le> 1"
  shows "isolatedAt s i"
  using assms by (simp add: isolatedAt_def Let_def)

lemma ring_neighbours_far:
  fixes d :: "nat \<Rightarrow> real"
  assumes mono: "\<And>a b. a \<le> b \<Longrightarrow> b < n \<Longrightarrow> d a \<le> d b"
    and range: "\<And>a. a < n \<Longrightarrow> 0 \<le> d a \<and> d a < 360"
    and i: "i < n" and k: "k < n" and ki: "k \<noteq> i"
    and prev: "15 \<le> getDist (d i) (d (if i = 0 then n - 1 else i - 1))"
    and nxt: "15 \<le> getDist (d i) (d (if i + 1 = n then 0 else i + 1))"
  shows "15 \<le> getDist (d i) (d k)"
proof -
  note ge = getDist_ge_iff [of 15, simplified]
  have r0: "0 \<le> d 0" and rk: "0 \<le> d k" "d k < 360" and ri: "0 \<le> d i" "d i < 360"
    using range [of 0] range [of k] range [of i] i k by simp_all
  have last: "d i \<le> d (n - 1)" "d k \<le> d (n - 1)" and first: "d 0 \<le> d i" "d 0 \<le> d k"
    using mono [of i "n - 1"] mono [of k "n - 1"] mono [of 0 i] mono [of 0 k] i k by simp_all
  have rl: "d (n - 1) < 360" using range [of "n - 1"] i by simp
  show ?thesis
  proof (cases "i < k")
    case True
    then have n1: "i + 1 \<noteq> n" and m1: "d (i + 1) \<le> d k" and m0: "d i \<le> d (i + 1)"
      using k mono [of "i + 1" k] mono [of i "i + 1"] by simp_all
    from nxt n1 have "15 \<le> \<bar>d i - d (i + 1)\<bar>" by (simp add: ge)
    with m0 m1 have lower: "15 \<le> d k - d i" by linarith
    have upper: "d k - d i \<le> 345"
    proof (cases "i = 0")
      case True
      with prev have "\<bar>d i - d (n - 1)\<bar> \<le> 345" by (simp add: ge)
      with last show ?thesis by linarith
    next
      case False
      with prev have "15 \<le> \<bar>d i - d (i - 1)\<bar>" by (simp add: ge)
      moreover have "d (i - 1) \<le> d i" "0 \<le> d (i - 1)"
        using mono [of "i - 1" i] range [of "i - 1"] i by simp_all
      ultimately show ?thesis using rk by linarith
    qed
    from lower upper show ?thesis by (simp add: ge)
  next
    case False
    with ki have lt: "k < i" by simp
    then have i0: "i \<noteq> 0" and m1: "d k \<le> d (i - 1)" and m0: "d (i - 1) \<le> d i"
      using i mono [of k "i - 1"] mono [of "i - 1" i] by simp_all
    from prev i0 have "15 \<le> \<bar>d i - d (i - 1)\<bar>" by (simp add: ge)
    with m0 m1 have lower: "15 \<le> d i - d k" by linarith
    have upper: "d i - d k \<le> 345"
    proof (cases "i + 1 = n")
      case True
      with nxt have "\<bar>d i - d 0\<bar> \<le> 345" by (simp add: ge)
      with first show ?thesis by linarith
    next
      case False
      with nxt have "15 \<le> \<bar>d i - d (i + 1)\<bar>" by (simp add: ge)
      moreover from False i have "d i \<le> d (i + 1)" "d (i + 1) < 360"
        using mono [of i "i + 1"] range [of "i + 1"] by simp_all
      ultimately show ?thesis using rk by linarith
    qed
    from lower upper show ?thesis by (simp add: ge)
  qed
qed

lemma degree_positionAt [simp]: "CalculatedPlanet.degree (positionAt d) = d"
  by (simp add: positionAt_def)

section \<open>Tracks depend on the degrees only\<close>

lemma length_tracksUpTo [simp]: "length (tracksUpTo ds m k) = k"
  by (induction k) (simp_all add: Let_def)

lemma usedTracks_abs:
  assumes "k < length s" and "map track w = ts" and "length w = k"
    and "\<And>i. i < k \<Longrightarrow> CalculatedPlanet.degree (w ! i) = CalculatedPlanet.degree (s ! i)"
  shows "usedTracks w (CalculatedPlanet.degree (s ! k)) m k
    = map (\<lambda>j. ts ! (k - j))
        (filter (\<lambda>j. j \<le> k \<and> getDist (map CalculatedPlanet.degree s ! k)
           (map CalculatedPlanet.degree s ! (k - j)) < m) [1..<5])"
proof -
  have deg: "CalculatedPlanet.degree (w ! (k - j)) = map CalculatedPlanet.degree s ! (k - j)"
    if "j \<in> set [1..<5]" "j \<le> k" for j
    using that assms by simp
  have tr: "track (w ! (k - j)) = ts ! (k - j)" if "j \<in> set [1..<5]" "j \<le> k" for j
    using that assms(2,3) by (auto simp: nth_map [symmetric] simp del: nth_map)
  have "filter (\<lambda>j. j \<le> k \<and> getDist (CalculatedPlanet.degree (s ! k)) (CalculatedPlanet.degree (w ! (k - j))) < m) [1..<5]
      = filter (\<lambda>j. j \<le> k \<and> getDist (map CalculatedPlanet.degree s ! k)
           (map CalculatedPlanet.degree s ! (k - j)) < m) [1..<5]"
    using assms(1) by (intro filter_cong refl conj_cong) (simp_all add: deg)
  moreover have "map (\<lambda>j. track (w ! (k - j))) xs = map (\<lambda>j. ts ! (k - j)) xs"
    if "set xs \<subseteq> {j. j \<in> set [1..<5] \<and> j \<le> k}" for xs
    using that by (intro map_cong refl tr) auto
  ultimately show ?thesis
    unfolding usedTracks_def by (auto intro!: map_cong tr)
qed

lemma forEachUpTo_tracks:
  assumes "k \<le> length s"
  shows "map track (forEachUpTo s m k) = tracksUpTo (map CalculatedPlanet.degree s) m k"
  using assms
proof (induction k)
  case 0
  show ?case by simp
next
  case (Suc k)
  then have IH: "map track (forEachUpTo s m k) = tracksUpTo (map CalculatedPlanet.degree s) m k"
    by simp
  from Suc.prems have "usedTracks (forEachUpTo s m k) (CalculatedPlanet.degree (s ! k)) m k
    = map (\<lambda>j. tracksUpTo (map CalculatedPlanet.degree s) m k ! (k - j))
        (filter (\<lambda>j. j \<le> k \<and> getDist (map CalculatedPlanet.degree s ! k)
           (map CalculatedPlanet.degree s ! (k - j)) < m) [1..<5])"
    by (intro usedTracks_abs IH) (simp_all add: forEachUpTo_degree)
  with IH show ?case by (simp add: Let_def trackFor_def)
qed

section \<open>Plotted planets\<close>

lemma plotPlanet_fields [simp]:
  shows "plotRadius (plotPlanet off' OwnerA p) = radius * 0.82 - real (track p) * trackSpacing"
    and "plotRadius (plotPlanet off' OwnerB p) = radius * 0.45 + real (track p) * trackSpacing"
    and "owner (plotPlanet off' who p) = who"
    and "coords (plotPlanet off' who p)
      = getCoordinates off' (CalculatedPlanet.degree p) (plotRadius (plotPlanet off' who p))"
    and "track (plotPlanet off' who p) = track p"
    and "isIsolated (plotPlanet off' who p) = isIsolated p"
    and "CalculatedPlanet.degree (plotPlanet off' who p) = CalculatedPlanet.degree p"
    and "CalculatedPlanet.name (plotPlanet off' who p) = CalculatedPlanet.name p"
  by (simp_all add: plotPlanet_def Let_def TrackedPlanet.defs PlottedPlanet.defs
        PlanetPosition.defs CalculatedPlanet.defs)

lemma fold_max_ge: "(a::nat) \<le> fold max xs a"
  by (induction xs arbitrary: a) (auto intro: le_trans [OF max.cobounded2])

lemma fold_max_member:
  assumes "(x::nat) \<in> set xs"
  shows "x \<le> fold max xs a"
  using assms
  by (induction xs arbitrary: a) (auto intro: le_trans [OF max.cobounded1 fold_max_ge])

lemma track_le_maxTrack:
  assumes "p \<in> set ps"
  shows "track p \<le> maxTrack ps"
  using assms by (auto simp: maxTrack_def intro!: fold_max_member)

lemma resolveCollisions_track_le_4:
  assumes "p \<in> set (resolveCollisions ps m)"
  shows "track p \<le> 4"
proof -
  from assms obtain i where i: "i < length ps" and p: "p = resolveCollisions ps m ! i"
    by (auto simp: in_set_conv_nth)
  from resolveCollisions_track_le [OF i, of m] show ?thesis
    unfolding p by (simp split: if_splits)
qed

lemma ring_gap: "3 \<le> \<bar>111 - 18 * real n\<bar>"
proof (cases "n \<le> 6")
  case True
  then have "real n \<le> 6" by simp
  then show ?thesis by linarith
next
  case False
  then have "7 \<le> n" by simp
  then have "7 \<le> real n" by (metis of_nat_le_iff of_nat_numeral)
  then show ?thesis by linarith
qed

section \<open>Properties of the layout\<close>

text \<open>C3. With at most five planets the layout is free of collisions, for every threshold: no two
  planets closer than \<open>minDeg\<close> on the circle share a track, also across the 0/360 seam.\<close>

theorem resolveCollisions_small_collisionFree:
  assumes "length ps \<le> 5"
  shows "collisionFree m (resolveCollisions ps m)"
  using assms
  by (simp add: resolveCollisions_def Let_def wrapPatch_forEachUpTo_small forEachUpTo_collisionFree)

theorem resolveCollisions_small_collisionFree_witness:
  "collisionFree 6 (resolveCollisions (map positionAt [350, 355, 359, 1, 3]) 6)"
  by (rule resolveCollisions_small_collisionFree) simp

text \<open>C19. In every layout, two planets that are at most four places apart in the order of their
  degrees, and neither of which is the first, do not collide: the lookback window of four
  keeps them on different tracks whenever they are closer than \<open>minDeg\<close>.\<close>

theorem resolveCollisions_window:
  assumes "0 < j" and "j < i" and "i < length ps" and "i - j \<le> 4"
  shows "\<not> collides m (resolveCollisions ps m ! j) (resolveCollisions ps m ! i)"
proof -
  let ?s = "sort_key CalculatedPlanet.degree ps"
  let ?w = "forEachUpTo ?s m (length ?s)"
  from assms have "wrapPatch m ?w ! j = ?w ! j" and "wrapPatch m ?w ! i = ?w ! i"
    by (simp_all add: wrapPatch_nth)
  moreover from assms have "\<not> collides m (?w ! j) (?w ! i)"
    by (intro forEachUpTo_near_no_collision) simp_all
  ultimately show ?thesis by (simp add: resolveCollisions_def Let_def)
qed

theorem resolveCollisions_window_witness:
  "\<not> collides 6 (resolveCollisions (map positionAt [0, 1, 100, 200, 300, 359]) 6 ! 1)
     (resolveCollisions (map positionAt [0, 1, 100, 200, 300, 359]) 6 ! 5)"
  by (rule resolveCollisions_window) simp_all


text \<open>C20. The layout returns the planets of its input, each exactly once, in ascending order of
  degree, planets of equal degree in their input order; only the track and the isolation flag
  are added.\<close>

theorem resolveCollisions_permutation:
  "map PlanetPosition.truncate (resolveCollisions ps m) = sort_key CalculatedPlanet.degree ps
   \<and> mset (map PlanetPosition.truncate (resolveCollisions ps m)) = mset ps
   \<and> sorted (map CalculatedPlanet.degree (resolveCollisions ps m))"
proof -
  have "map CalculatedPlanet.degree (resolveCollisions ps m)
      = map CalculatedPlanet.degree (sort_key CalculatedPlanet.degree ps)"
    by (intro nth_equalityI) (simp_all add: resolveCollisions_degree)
  then show ?thesis by (simp add: map_truncate_resolveCollisions)
qed

text \<open>C21. No planet is placed above track 4: the loop looks at four earlier planets, so it uses
  the tracks 0 to 4, and the patch lifts the first planet from track 0 to track 1 only.\<close>

theorem resolveCollisions_track_bound:
  "\<forall>p\<in>set (resolveCollisions ps m). track p \<le> 4"
  by (simp add: resolveCollisions_track_le_4)

theorem resolveCollisions_track_bound_witness:
  "track (resolveCollisions (map positionAt [0, 1, 2, 3, 4]) 6 ! 4) \<le> 4
   \<and> map track (resolveCollisions (map positionAt [0, 1, 2, 3, 4]) 6) = [0, 1, 2, 3, 4]"
proof
  have "resolveCollisions (map positionAt [0, 1, 2, 3, 4]) 6 ! 4
      \<in> set (resolveCollisions (map positionAt [0, 1, 2, 3, 4]) 6)"
    by (rule nth_mem) simp
  with resolveCollisions_track_bound [of "map positionAt [0, 1, 2, 3, 4]" 6]
  show "track (resolveCollisions (map positionAt [0, 1, 2, 3, 4]) 6 ! 4) \<le> 4" by (rule bspec)
  show "map track (resolveCollisions (map positionAt [0, 1, 2, 3, 4]) 6) = [0, 1, 2, 3, 4]"
    by code_simp
qed


text \<open>C22. The isolation flag is sound for degrees in \<open>[0, 360)\<close>: a planet flagged as isolated
  has no other planet of the chart within 15 degrees on the circle, although only its two
  neighbours in the sorted ring were compared.\<close>

theorem isIsolated_sound:
  assumes range: "\<forall>p\<in>set ps. 0 \<le> CalculatedPlanet.degree p \<and> CalculatedPlanet.degree p < 360"
    and i: "i < length ps" and k: "k < length ps" and ki: "k \<noteq> i"
    and iso: "isIsolated (resolveCollisions ps m ! i)"
  shows "15 \<le> getDist (CalculatedPlanet.degree (resolveCollisions ps m ! i))
                  (CalculatedPlanet.degree (resolveCollisions ps m ! k))"
proof -
  let ?s = "sort_key CalculatedPlanet.degree ps"
  let ?d = "\<lambda>a. CalculatedPlanet.degree (?s ! a)"
  from i k ki have n: "1 < length ?s" by simp
  from iso i have "isolatedAt ?s i" by (simp add: resolveCollisions_isIsolated)
  moreover from i have "i < length ?s" by simp
  ultimately have "15 \<le> getDist (?d i) (?d (if i = 0 then length ?s - 1 else i - 1))
      \<and> 15 \<le> getDist (?d i) (?d (if i + 1 = length ?s then 0 else i + 1))"
    using isolatedAt_iff [OF n, of i] by blast
  then have nb: "15 \<le> getDist (?d i) (?d (if i = 0 then length ps - 1 else i - 1))"
      "15 \<le> getDist (?d i) (?d (if i + 1 = length ps then 0 else i + 1))"
    unfolding length_sort by blast+
  have "15 \<le> getDist (?d i) (?d k)"
  proof (rule ring_neighbours_far [where n = "length ps"])
    show "?d a \<le> ?d b" if "a \<le> b" "b < length ps" for a b
      using that by (rule sort_key_nth_mono)
    show "0 \<le> ?d a \<and> ?d a < 360" if "a < length ps" for a
    proof -
      from that have "?s ! a \<in> set ?s" by (intro nth_mem) simp
      with range show ?thesis by simp
    qed
  qed (use i k ki nb in simp_all)
  with i k show ?thesis by (simp add: resolveCollisions_degree)
qed

theorem isIsolated_sound_witness:
  "15 \<le> getDist (CalculatedPlanet.degree (resolveCollisionsDefault (map positionAt [0, 2, 4, 6, 100]) ! 4))
            (CalculatedPlanet.degree (resolveCollisionsDefault (map positionAt [0, 2, 4, 6, 100]) ! 0))"
  unfolding resolveCollisionsDefault_def
proof (rule isIsolated_sound)
  show "isIsolated (resolveCollisions (map positionAt [0, 2, 4, 6, 100]) 6 ! 4)"
    by code_simp
qed simp_all

text \<open>C23. The track loop returns the least track that is not in use; with \<open>n\<close> tracks in use
  it is at most \<open>n\<close>.\<close>

theorem firstAvailable_least_free:
  "firstAvailable used 0 \<notin> set used
   \<and> (\<forall>u<firstAvailable used 0. u \<in> set used)
   \<and> firstAvailable used 0 \<le> length used"
  using firstAvailable_free [of used 0] firstAvailable_least [of 0 _ used]
    firstAvailable_le_length [of used] by simp

theorem firstAvailable_least_free_witness:
  "firstAvailable [1, 0, 3] 0 = 2 \<and> firstAvailable [1, 0, 3] 0 \<notin> set [1, 0, 3]"
proof
  show "firstAvailable [1, 0, 3] 0 = 2" by code_simp
  from firstAvailable_least_free [of "[1, 0, 3]"]
  show "firstAvailable [1, 0, 3] 0 \<notin> set [1, 0, 3]" by (rule conjunct1)
qed

text \<open>C24. The tracks depend on the sequence of degrees only: the track component of the loop's
  array is the list \<open>tracksUpTo\<close> computed from the degrees alone.\<close>

theorem forEachUpTo_refines_tracksUpTo:
  assumes "k \<le> length s"
  shows "map track (forEachUpTo s m k) = tracksUpTo (map CalculatedPlanet.degree s) m k"
  using assms by (rule forEachUpTo_tracks)

theorem forEachUpTo_refines_tracksUpTo_witness:
  "map track (forEachUpTo (map positionAt [0, 2, 4]) 6 3)
     = tracksUpTo (map CalculatedPlanet.degree (map positionAt [0, 2, 4])) 6 3"
  by (rule forEachUpTo_refines_tracksUpTo) simp

section \<open>Properties of the geometry\<close>

text \<open>C26. Without manual rotation the ascendant is drawn at nine o'clock: the point of the rising
  degree at radius \<open>r\<close> is \<open>(center - r, center)\<close>; and for every rotation a point at radius
  \<open>r\<close> lies on the circle of radius \<open>r\<close> around the centre.\<close>

theorem getCoordinates_ascendant:
  "getCoordinates (rotationOffset asc 0) asc r = (center - r, center)
   \<and> (fst (getCoordinates off' d r) - center)\<^sup>2 + (snd (getCoordinates off' d r) - center)\<^sup>2 = r\<^sup>2"
proof -
  have "(r * cos x)\<^sup>2 + (r * sin x)\<^sup>2 = r\<^sup>2" for x :: real
    using sin_cos_squared_add2 [of x] by (simp add: power_mult_distrib distrib_left [symmetric])
  then show ?thesis
    by (simp add: getCoordinates_def rotationOffset_def Let_def)
qed

text \<open>The planets of the first chart are drawn at radii from 174 to 246 and those of the
  second at radii from 135 to 207, all between the inner bound at 120 and the zodiac ring at
  270; a radius of the first ring and one of the second differ by at least 3.\<close>

theorem plotPlanet_radius_bounds:
  assumes "track p \<le> 4" and "track q \<le> 4"
  shows "174 \<le> plotRadius (plotPlanet off' OwnerA p) \<and> plotRadius (plotPlanet off' OwnerA p) \<le> 246
    \<and> 135 \<le> plotRadius (plotPlanet off' OwnerB q) \<and> plotRadius (plotPlanet off' OwnerB q) \<le> 207
    \<and> 3 \<le> \<bar>plotRadius (plotPlanet off' OwnerA p) - plotRadius (plotPlanet off' OwnerB q)\<bar>"
proof -
  from assms have "real (track p) \<le> 4" "real (track q) \<le> 4" by simp_all
  moreover have "3 \<le> \<bar>111 - 18 * real (track p + track q)\<bar>" by (rule ring_gap)
  ultimately show ?thesis by (simp add: radius_def trackSpacing_def)
qed

theorem plotPlanet_radius_bounds_witness:
  "plotRadius (plotPlanet 0 OwnerA (withTrack (positionAt 0) 2 False)) = 210
   \<and> plotRadius (plotPlanet 0 OwnerB (withTrack (positionAt 0) 4 False)) = 207
   \<and> 3 \<le> \<bar>plotRadius (plotPlanet 0 OwnerA (withTrack (positionAt 0) 2 False))
          - plotRadius (plotPlanet 0 OwnerB (withTrack (positionAt 0) 4 False))\<bar>"
proof -
  from plotPlanet_radius_bounds [of "withTrack (positionAt 0) 2 False" "withTrack (positionAt 0) 4 False" 0]
  have "3 \<le> \<bar>plotRadius (plotPlanet 0 OwnerA (withTrack (positionAt 0) 2 False))
          - plotRadius (plotPlanet 0 OwnerB (withTrack (positionAt 0) 4 False))\<bar>"
    by simp
  then show ?thesis by (simp add: radius_def trackSpacing_def)
qed

text \<open>Every planet is drawn on one of the track circles: its radius is in the list of radii
  that \<open>tracks\<close> draws for the two sets of plotted planets.\<close>

theorem plotted_on_track:
  assumes "p \<in> set (plottedPlanetsA off' ps) \<or> p \<in> set (plottedPlanetsB off' qs)"
  shows "plotRadius p \<in> set (tracks (plottedPlanetsA off' ps) (plottedPlanetsB off' qs))"
  using assms
proof
  assume p: "p \<in> set (plottedPlanetsA off' ps)"
  then have "plotRadius p = radius * 0.82 - real (track p) * trackSpacing"
    by (auto simp: plottedPlanetsA_def)
  moreover from p have "track p < maxTrack (plottedPlanetsA off' ps) + 1"
    using track_le_maxTrack [OF p] by simp
  ultimately show ?thesis by (auto simp: tracks_def Let_def)
next
  assume p: "p \<in> set (plottedPlanetsB off' qs)"
  then have "plotRadius p = radius * 0.45 + real (track p) * trackSpacing"
    by (auto simp: plottedPlanetsB_def split: option.splits)
  moreover from p have "track p < maxTrack (plottedPlanetsB off' qs) + 1"
    using track_le_maxTrack [OF p] by simp
  ultimately show ?thesis by (auto simp: tracks_def Let_def)
qed

theorem plotted_on_track_witness:
  "plotRadius (hd (plottedPlanetsA 0 [positionAt 0]))
     \<in> set (tracks (plottedPlanetsA 0 [positionAt 0]) (plottedPlanetsB 0 None))"
  by (rule plotted_on_track) (simp add: plottedPlanetsA_def resolveCollisionsDefault_def
     resolveCollisions_def wrapPatch_def Let_def)

end
