(* ===== verification/Analysis_Panel.thy ===== *)
theory Analysis_Panel
  imports Zodiac_Wheel
begin

text \<open>
  The decisions of \<open>src/components/AnalysisPanel.tsx\<close>: which view the panel shows for the
  data, the mode and the selection it is given, the normalisation of the elemental balance
  for display, and the computed texts of the planet view and of the synastry report.

  \<^item> The property \<open>data: ChartData | SynastryData\<close> is a value of the sum type
    \<open>ChartData + SynastryData\<close>. The component casts it according to \<open>isSynastry\<close> without
    a check; where the cast is wrong the first property access on the missing part throws,
    which is the error branch of \<open>AnalysisPanel\<close>.
  \<^item> What the component returns is a \<open>View\<close>: the element \<open>PlanetDetailView\<close> with its five
    properties, the synastry report, or nothing (\<open>null\<close>). \<open>render\<close> gives the content of a
    view: \<open>renderDetail\<close> is the component \<open>PlanetDetailView\<close>, \<open>renderReport\<close> the markup of the
    report, each as a record of the texts that depend on the data. Fixed texts, class names
    and icons are not part of the content.
  \<^item> \<open>toFixed\<close>, \<open>toString\<close> and \<open>padStart\<close> are the methods of JavaScript on real numbers,
    integers and strings: \<open>toFixed\<close> rounds to the nearest numeral with the given number of
    digits, halves away from zero. A text is a \<open>string\<close>; a symbol of the tables is a list
    of code units, and \<open>units\<close> turns a text into one where a property takes both.
  \<^item> \<open>Math.random()\<close> is a parameter of \<open>reportNumber\<close> and of \<open>render\<close>.
\<close>

section \<open>The views\<close>

datatype View =
  PlanetDetailView PlanetPosition "string option" bool "ChartData option" "ElementalBalance option"
| SynastryReport SynastryData
| NoView

definition getNormalizedElements :: "ElementalBalance \<Rightarrow> ElementalBalance" where
  "getNormalizedElements elements' =
    (let f = fire elements'; e = earth elements'; a = air elements'; w = water elements';
         total = f + e + a + w
     in if total = 0 then \<lparr>fire = 0, earth = 0, air = 0, water = 0\<rparr>
        else if total > 20 then \<lparr>fire = f, earth = e, air = a, water = w\<rparr>
        else \<lparr>fire = Math_round ((real_of_int f / real_of_int total) * 100),
              earth = Math_round ((real_of_int e / real_of_int total) * 100),
              air = Math_round ((real_of_int a / real_of_int total) * 100),
              water = Math_round ((real_of_int w / real_of_int total) * 100)\<rparr>)"

definition synastryView :: "SynastryData \<Rightarrow> Selection option \<Rightarrow> View" where
  "synastryView synastry selected =
    (case selected of
       Some s \<Rightarrow> PlanetDetailView (fst s)
          (if snd s = OwnerA then ChartData.name (personA synastry)
           else ChartData.name (personB synastry)) False None None
     | None \<Rightarrow> SynastryReport synastry)"

definition natalView :: "ChartData + SynastryData \<Rightarrow> Selection option \<Rightarrow> View result" where
  "natalView data selected =
    (case data of
       Inr synastry \<Rightarrow>
         (case selected of
            Some s \<Rightarrow> Inl (TypeError ''elements is undefined'')
          | None \<Rightarrow> Inl (TypeError ''natal.planets is undefined''))
     | Inl natal \<Rightarrow>
         (let displayPlanet = (case selected of
                Some s \<Rightarrow> Some (fst s)
              | None \<Rightarrow> find (\<lambda>p. CalculatedPlanet.name p = ''Sun'') (planets natal))
          in case displayPlanet of
               None \<Rightarrow> Inr NoView
             | Some p \<Rightarrow> Inr (PlanetDetailView p None True (Some natal)
                  (Some (getNormalizedElements (elements natal))))))"

definition AnalysisPanel ::
  "ChartData + SynastryData \<Rightarrow> bool \<Rightarrow> Selection option \<Rightarrow> View result" where
  "AnalysisPanel data synastryMode selected =
    (if synastryMode then
       (case data of
          Inl natal \<Rightarrow> Inl (TypeError ''synastry.personA is undefined'')
        | Inr synastry \<Rightarrow> Inr (synastryView synastry selected))
     else natalView data selected)"

section \<open>Computed texts\<close>

definition detailHeading :: "string option \<Rightarrow> string" where
  "detailHeading ownerName =
    (case ownerName of
       None \<Rightarrow> ''Planetary Analysis''
     | Some n \<Rightarrow> if n = '''' then ''Planetary Analysis'' else ''Chart of '' @ n)"

definition motionLabel :: "bool \<Rightarrow> string" where
  "motionLabel isRetrograde = (if isRetrograde then ''Rx'' else ''D'')"

fun showsElements :: "View \<Rightarrow> bool" where
  "showsElements (PlanetDetailView p ownerName showElements natalData normalizedElements) =
     (showElements \<and> natalData \<noteq> None \<and> normalizedElements \<noteq> None)"
| "showsElements _ = False"

function digitsOf :: "nat \<Rightarrow> string" where
  "digitsOf n = (if n < 10 then [char_of (48 + n)] else digitsOf (n div 10) @ [char_of (48 + n mod 10)])"
  by pat_completeness auto

termination
  by (relation "measure id") simp_all

declare digitsOf.simps [simp del]

definition padStart :: "nat \<Rightarrow> char \<Rightarrow> string \<Rightarrow> string" where
  "padStart targetLength c s = replicate (targetLength - length s) c @ s"

definition toFixed :: "nat \<Rightarrow> number \<Rightarrow> string" where
  "toFixed fractionDigits x =
    (let n = nat (Math_round (\<bar>x\<bar> * 10 ^ fractionDigits));
         m = padStart (fractionDigits + 1) (CHR ''0'') (digitsOf n);
         k = length m - fractionDigits
     in (if x < 0 then ''-'' else []) @ (if fractionDigits = 0 then m else take k m @ ''.'' @ drop k m))"

definition reportNumber :: "number \<Rightarrow> string" where
  "reportNumber random = padStart 4 (CHR ''0'') (toFixed 0 (random * 1000))"

section \<open>The content of the views\<close>

definition toString :: "int \<Rightarrow> string" where
  "toString i = (if i < 0 then ''-'' @ digitsOf (nat (- i)) else digitsOf (nat i))"

definition units :: "string \<Rightarrow> code_units" where
  "units s = map of_char s"

definition textOf :: "string option \<Rightarrow> string" where
  "textOf s = (case s of None \<Rightarrow> [] | Some t \<Rightarrow> t)"

record MetricView =
  metricLabel :: string
  metricValue :: code_units
  highlight :: bool

definition Metric :: "string \<Rightarrow> code_units \<Rightarrow> bool option \<Rightarrow> MetricView" where
  "Metric label' value' highlight' =
    \<lparr>metricLabel = label', metricValue = value',
     highlight = (case highlight' of None \<Rightarrow> False | Some h \<Rightarrow> h)\<rparr>"

definition ElementStat :: "string \<Rightarrow> int \<Rightarrow> string \<times> string" where
  "ElementStat label' value' = (label', toString value' @ ''%'')"

record DetailContent =
  heading :: string
  planetName :: string
  residing :: string
  metrics :: "MetricView list"
  reading :: string
  constitution :: "(string \<times> string) list"
  soulSignature :: "string option"

definition renderDetail ::
  "PlanetPosition \<Rightarrow> string option \<Rightarrow> bool \<Rightarrow> ChartData option \<Rightarrow> ElementalBalance option
    \<Rightarrow> DetailContent" where
  "renderDetail planet ownerName showElements natalData normalizedElements =
    \<lparr>heading = detailHeading ownerName,
     planetName = CalculatedPlanet.name planet,
     residing = ''Residing in '' @ CalculatedPlanet.sign planet,
     metrics =
       [Metric ''DEG'' (units (toFixed 1 (CalculatedPlanet.degree planet))) None,
        Metric ''HSE'' (units (toString (house planet))) None,
        Metric ''MOT'' (units (motionLabel (retrograde planet))) (Some (retrograde planet)),
        Metric ''ELM'' (CalculatedPlanet.signSymbol planet) None],
     reading = interpretation planet,
     constitution =
       (case (showElements, natalData, normalizedElements) of
          (True, Some d, Some e) \<Rightarrow>
            [ElementStat ''Fire'' (fire e), ElementStat ''Earth'' (earth e),
             ElementStat ''Air'' (air e), ElementStat ''Water'' (water e)]
        | _ \<Rightarrow> []),
     soulSignature =
       (case (showElements, natalData, normalizedElements) of
          (True, Some d, Some e) \<Rightarrow> Some ([CHR 0x22] @ summary d @ [CHR 0x22])
        | _ \<Rightarrow> None)\<rparr>"

definition ordinal :: "nat \<Rightarrow> string" where
  "ordinal i = ''0'' @ digitsOf (i + 1)"

definition numbered :: "string list \<Rightarrow> (string \<times> string) list" where
  "numbered xs = map (\<lambda>(i, s). (ordinal i, s)) (enumerate 0 xs)"

record ReportContent =
  reportNo :: string
  personNames :: "string \<times> string"
  overviewText :: string
  bondStrengths :: "(string \<times> string) list"
  frictionPoints :: "(string \<times> string) list"
  geometries :: "(string \<times> string \<times> string \<times> string) list"

definition renderReport :: "number \<Rightarrow> SynastryData \<Rightarrow> ReportContent" where
  "renderReport random synastry =
    \<lparr>reportNo = ''NO. '' @ reportNumber random,
     personNames = (textOf (ChartData.name (personA synastry)),
                    textOf (ChartData.name (personB synastry))),
     overviewText = overview (analysis synastry),
     bondStrengths = numbered (strengths (analysis synastry)),
     frictionPoints = numbered (challenges (analysis synastry)),
     geometries = map (\<lambda>aspect. (planetA aspect, aspectType aspect, planetB aspect, description aspect))
                    (keyAspects (analysis synastry))\<rparr>"

datatype Content = Detail DetailContent | Report ReportContent | Nothing

fun render :: "number \<Rightarrow> View \<Rightarrow> Content" where
  "render random (PlanetDetailView planet ownerName showElements natalData normalizedElements) =
     Detail (renderDetail planet ownerName showElements natalData normalizedElements)"
| "render random (SynastryReport synastry) = Report (renderReport random synastry)"
| "render random NoView = Nothing"

lemmas AnalysisPanel_defs = AnalysisPanel_def synastryView_def natalView_def

lemmas [celestia_defs] = getNormalizedElements_def AnalysisPanel_defs detailHeading_def
  motionLabel_def padStart_def reportNumber_def toFixed_def toString_def units_def textOf_def
  Metric_def ElementStat_def renderDetail_def ordinal_def numbered_def renderReport_def

section \<open>The elemental balance\<close>

lemma getNormalizedElements_large:
  assumes "20 < balanceTotal b"
  shows "getNormalizedElements b = b"
  using assms by (simp add: getNormalizedElements_def balanceTotal_def Let_def)

lemma getNormalizedElements_zero:
  assumes "balanceTotal b = 0"
  shows "getNormalizedElements b = \<lparr>fire = 0, earth = 0, air = 0, water = 0\<rparr>"
  using assms by (simp add: getNormalizedElements_def balanceTotal_def Let_def)

section \<open>The view\<close>

lemma AnalysisPanel_Inr_iff:
  "(\<exists>v. AnalysisPanel data m sel = Inr v) \<longleftrightarrow> (m \<longleftrightarrow> \<not> isl data)"
  by (cases data; cases sel)
     (auto simp: AnalysisPanel_defs Let_def split: option.splits)

lemma AnalysisPanel_natal:
  "AnalysisPanel (Inl natal) False None =
    (case find (\<lambda>p. CalculatedPlanet.name p = ''Sun'') (planets natal) of
       None \<Rightarrow> Inr NoView
     | Some p \<Rightarrow> Inr (PlanetDetailView p None True (Some natal)
                     (Some (getNormalizedElements (elements natal)))))"
  by (simp add: AnalysisPanel_defs)

section \<open>The report number\<close>

lemma length_digitsOf_lt_10: "n < 10 \<Longrightarrow> length (digitsOf n) = 1"
  by (simp add: digitsOf.simps)

lemma length_digitsOf_le:
  assumes "n < 10 ^ k" and "0 < k"
  shows "length (digitsOf n) \<le> k"
  using assms
proof (induction k arbitrary: n)
  case 0
  then show ?case by simp
next
  case (Suc k)
  show ?case
  proof (cases "n < 10")
    case True
    then show ?thesis by (simp add: digitsOf.simps)
  next
    case False
    with Suc.prems have k: "0 < k" by (cases k) simp_all
    from Suc.prems have "n div 10 < 10 ^ k"
      by (simp add: less_mult_imp_div_less mult.commute)
    then have "length (digitsOf (n div 10)) \<le> k" using k by (rule Suc.IH)
    with False show ?thesis by (subst digitsOf.simps) simp
  qed
qed

lemma length_padStart: "length (padStart k c s) = max k (length s)"
  by (simp add: padStart_def)

lemma Math_round_bounds: "x - 1 / 2 < real_of_int (Math_round x)" "real_of_int (Math_round x) \<le> x + 1 / 2"
  by (simp_all add: Math_round_def) linarith+

section \<open>Numbers as text\<close>

lemma digitsOf_nonempty [simp]: "digitsOf n \<noteq> []"
  by (subst digitsOf.simps) simp

lemma digitsOf_0 [simp]: "digitsOf 0 = ''0''"
  by code_simp

lemma digitsOf_ge_10:
  assumes "10 \<le> n"
  shows "digitsOf n = digitsOf (n div 10) @ digitsOf (n mod 10)"
  using assms by (subst digitsOf.simps) (simp add: digitsOf.simps [of "n mod 10"])

lemma padStart_id:
  assumes "k \<le> length s"
  shows "padStart k c s = s"
  using assms by (simp add: padStart_def)

lemma toFixed_0:
  assumes "0 \<le> x"
  shows "toFixed 0 x = digitsOf (nat (Math_round x))"
proof -
  have "Suc 0 \<le> length (digitsOf n)" for n by (cases "digitsOf n") simp_all
  with assms show ?thesis by (simp add: toFixed_def Let_def padStart_id)
qed

lemma toFixed_1:
  assumes "0 \<le> x"
  shows "toFixed 1 x = digitsOf (nat (Math_round (x * 10)) div 10) @ ''.''
      @ digitsOf (nat (Math_round (x * 10)) mod 10)"
proof (cases "nat (Math_round (x * 10)) < 10")
  case True
  then have "digitsOf (nat (Math_round (x * 10))) = [char_of (48 + nat (Math_round (x * 10)))]"
    "digitsOf (nat (Math_round (x * 10)) div 10) = ''0''"
    by (simp_all add: digitsOf.simps [of "nat (Math_round (x * 10))"])
  with True assms show ?thesis by (simp add: toFixed_def Let_def padStart_def)
next
  case False
  let ?n = "nat (Math_round (x * 10))"
  from False have n: "digitsOf ?n = digitsOf (?n div 10) @ digitsOf (?n mod 10)"
    by (intro digitsOf_ge_10) simp
  have "length (digitsOf (?n mod 10)) = 1" by (rule length_digitsOf_lt_10) simp
  moreover have "Suc 0 \<le> length (digitsOf (?n div 10))"
    by (cases "digitsOf (?n div 10)") simp_all
  ultimately show ?thesis using assms by (simp add: toFixed_def Let_def padStart_def n)
qed

lemma length_ordinal: "length (ordinal i) = 2 \<longleftrightarrow> i < 9"
proof (cases "i < 9")
  case True
  then show ?thesis by (simp add: ordinal_def length_digitsOf_lt_10)
next
  case False
  then have "10 \<le> i + 1" by simp
  then have "digitsOf (i + 1) = digitsOf ((i + 1) div 10) @ digitsOf ((i + 1) mod 10)"
    by (rule digitsOf_ge_10)
  moreover have "length (digitsOf ((i + 1) mod 10)) = 1" by (rule length_digitsOf_lt_10) simp
  moreover have "0 < length (digitsOf ((i + 1) div 10))" by simp
  ultimately show ?thesis using False by (simp add: ordinal_def)
qed

lemma numbered_fields [simp]:
  shows "map snd (numbered xs) = xs"
    and "map fst (numbered xs) = map ordinal [0..<length xs]"
    and "length (numbered xs) = length xs"
proof -
  show len: "length (numbered xs) = length xs" by (simp add: numbered_def)
  show "map snd (numbered xs) = xs"
    by (rule nth_equalityI) (simp_all add: len, simp add: numbered_def nth_enumerate_eq)
  show "map fst (numbered xs) = map ordinal [0..<length xs]"
    by (rule nth_equalityI) (simp_all add: len, simp add: numbered_def nth_enumerate_eq)
qed

section \<open>Properties of the panel\<close>

text \<open>C39. For a balance of non-negative counts with a total from 1 to 20 the displayed
  percentages are the rounded shares; their sum is between 99 and 102 and need not be 100.\<close>

theorem getNormalizedElements_bounds:
  assumes "0 \<le> fire b" "0 \<le> earth b" "0 \<le> air b" "0 \<le> water b"
    and "0 < balanceTotal b" and "balanceTotal b \<le> 20"
  shows "99 \<le> balanceTotal (getNormalizedElements b) \<and> balanceTotal (getNormalizedElements b) \<le> 102"
proof -
  define t where "t = real_of_int (balanceTotal b)"
  define x where "x v = real_of_int v / t * 100" for v
  from assms have t: "0 < t" by (simp add: t_def)
  have "x (fire b) + x (earth b) + x (air b) + x (water b)
      = (real_of_int (fire b) + real_of_int (earth b) + real_of_int (air b) + real_of_int (water b)) / t * 100"
    by (simp add: x_def add_divide_distrib distrib_right)
  also have "\<dots> = 100" using t by (simp add: t_def balanceTotal_def)
  finally have sum: "x (fire b) + x (earth b) + x (air b) + x (water b) = 100" .
  from assms have eq: "getNormalizedElements b = \<lparr>fire = Math_round (x (fire b)),
      earth = Math_round (x (earth b)), air = Math_round (x (air b)), water = Math_round (x (water b))\<rparr>"
    by (simp add: getNormalizedElements_def Let_def x_def t_def balanceTotal_def)
  have "98 < real_of_int (balanceTotal (getNormalizedElements b))"
    using Math_round_bounds(1) [of "x (fire b)"] Math_round_bounds(1) [of "x (earth b)"]
      Math_round_bounds(1) [of "x (air b)"] Math_round_bounds(1) [of "x (water b)"] sum
    by (simp add: eq balanceTotal_def)
  moreover have "real_of_int (balanceTotal (getNormalizedElements b)) \<le> 102"
    using Math_round_bounds(2) [of "x (fire b)"] Math_round_bounds(2) [of "x (earth b)"]
      Math_round_bounds(2) [of "x (air b)"] Math_round_bounds(2) [of "x (water b)"] sum
    by (simp add: eq balanceTotal_def)
  ultimately show ?thesis by linarith
qed

theorem getNormalizedElements_bounds_witness:
  "balanceTotal (getNormalizedElements \<lparr>fire = 1, earth = 1, air = 3, water = 3\<rparr>) \<le> 102
   \<and> getNormalizedElements \<lparr>fire = 1, earth = 1, air = 1, water = 0\<rparr>
       = \<lparr>fire = 33, earth = 33, air = 33, water = 0\<rparr>"
proof
  from getNormalizedElements_bounds [of "\<lparr>fire = 1, earth = 1, air = 3, water = 3\<rparr>"]
  show "balanceTotal (getNormalizedElements \<lparr>fire = 1, earth = 1, air = 3, water = 3\<rparr>) \<le> 102"
    by (simp add: balanceTotal_def)
  show "getNormalizedElements \<lparr>fire = 1, earth = 1, air = 1, water = 0\<rparr>
       = \<lparr>fire = 33, earth = 33, air = 33, water = 0\<rparr>"
    by code_simp
qed

text \<open>C40. The panel returns a view exactly when its mode matches the shape of its data: in
  synastry mode on a single chart, and in natal mode on synastry data, the unchecked cast
  makes it throw.\<close>

theorem AnalysisPanel_defined_iff:
  "(\<exists>v. AnalysisPanel data m sel = Inr v) \<longleftrightarrow> (m \<longleftrightarrow> \<not> isl data)"
  by (rule AnalysisPanel_Inr_iff)

text \<open>In synastry mode a selected planet is shown with the name of the person it belongs to,
  and without the elemental balance.\<close>

theorem AnalysisPanel_synastry_owner:
  "AnalysisPanel (Inr syn) True (Some (p, who))
     = Inr (PlanetDetailView p (ChartData.name (if who = OwnerA then personA syn else personB syn))
          False None None)
   \<and> \<not> showsElements (PlanetDetailView p (ChartData.name (if who = OwnerA then personA syn else personB syn))
          False None None)"
  by (simp add: AnalysisPanel_defs)

text \<open>For a random number in \<open>[0, 1)\<close> the report number has exactly four characters.\<close>

theorem reportNumber_length:
  assumes "0 \<le> r" and "r < 1"
  shows "length (reportNumber r) = 4"
proof -
  from assms have "0 \<le> Math_round (r * 1000)" "Math_round (r * 1000) \<le> 1000"
    by (simp_all add: Math_round_def)
  then have "nat (Math_round (r * 1000)) < 10 ^ 4" by simp
  then have "length (digitsOf (nat (Math_round (r * 1000)))) \<le> 4"
    by (rule length_digitsOf_le) simp
  with assms show ?thesis by (simp add: reportNumber_def length_padStart toFixed_0)
qed

theorem reportNumber_length_witness:
  "length (reportNumber (1 / 2)) = 4 \<and> reportNumber (1 / 2) = ''0500''"
proof
  show "length (reportNumber (1 / 2)) = 4" by (rule reportNumber_length) simp_all
  show "reportNumber (1 / 2) = ''0500''" by code_simp
qed

section \<open>Properties of the content\<close>

text \<open>For a number that is not negative, \<open>toFixed(1)\<close> is the decimal numeral of the nearest
  tenth, halves rounded up: the digits of the whole part, a point and one digit. A longitude
  just below 360 degrees is therefore displayed as \<open>360.0\<close>.\<close>

theorem toFixed_tenths:
  assumes "0 \<le> x"
  shows "toFixed 1 x = digitsOf (nat (Math_round (x * 10)) div 10) @ ''.''
      @ digitsOf (nat (Math_round (x * 10)) mod 10)"
  using assms by (rule toFixed_1)

theorem toFixed_tenths_witness:
  "toFixed 1 (35996 / 100) = ''360.0''"
proof -
  have "Math_round (35996 / 100 * 10) = 3600" by (simp add: Math_round_def)
  moreover have "digitsOf 360 = ''360''" by code_simp
  ultimately show ?thesis using toFixed_tenths [of "35996 / 100"] by simp
qed

text \<open>The report lists every strength, every challenge and every key aspect of the analysis, in
  their order; the strengths and challenges are numbered from \<open>01\<close>, and the number has two
  characters for the first nine entries only: the tenth is numbered \<open>010\<close>.\<close>

theorem renderReport_lists:
  shows "map snd (bondStrengths (renderReport r syn)) = strengths (analysis syn)"
    and "map fst (bondStrengths (renderReport r syn))
      = map ordinal [0..<length (strengths (analysis syn))]"
    and "map snd (frictionPoints (renderReport r syn)) = challenges (analysis syn)"
    and "map fst (frictionPoints (renderReport r syn))
      = map ordinal [0..<length (challenges (analysis syn))]"
    and "map (\<lambda>g. fst (snd g)) (geometries (renderReport r syn))
      = map aspectType (keyAspects (analysis syn))"
    and "length (ordinal i) = 2 \<longleftrightarrow> i < 9"
    and "ordinal 0 = ''01'' \<and> ordinal 9 = ''010''"
proof -
  show "ordinal 0 = ''01'' \<and> ordinal 9 = ''010''" by code_simp
qed (simp_all add: renderReport_def comp_def length_ordinal)

text \<open>The planet view shows the four metrics \<open>DEG\<close>, \<open>HSE\<close>, \<open>MOT\<close> and \<open>ELM\<close>; only the
  motion is highlighted, and only for a retrograde planet. The elemental balance and the
  summary are part of the content exactly when \<open>showsElements\<close> holds of the view.\<close>

theorem renderDetail_content:
  shows "map metricLabel (metrics (renderDetail p ownerName se nd ne)) = [''DEG'', ''HSE'', ''MOT'', ''ELM'']"
    and "map highlight (metrics (renderDetail p ownerName se nd ne)) = [False, False, retrograde p, False]"
    and "constitution (renderDetail p ownerName se nd ne) \<noteq> []
      \<longleftrightarrow> showsElements (PlanetDetailView p ownerName se nd ne)"
    and "soulSignature (renderDetail p ownerName se nd ne) \<noteq> None
      \<longleftrightarrow> showsElements (PlanetDetailView p ownerName se nd ne)"
  by (simp_all add: renderDetail_def Metric_def split: option.splits bool.splits)

end
