(* ===== verification/App.thy ===== *)
theory App
  imports Gemini_Service Analysis_Panel
begin

text \<open>
  The application shell: the form of \<open>components/BirthForm.tsx\<close> (\<open>src/unnamed/part_000\<close>)
  and the state and handlers of \<open>App.tsx\<close> (\<open>src/unnamed/part_002\<close>), as a state machine.

  \<^item> The seven state hooks of \<open>App\<close> are the fields of the record \<open>AppState\<close>, the three of
    \<open>BirthForm\<close> those of \<open>FormState\<close>. The steps \<open>'input'\<close> and \<open>'result'\<close> are \<open>StepInput\<close>
    and \<open>StepResult\<close>, the modes \<open>'natal'\<close> and \<open>'synastry'\<close> are \<open>ModeNatal\<close> and
    \<open>ModeSynastry\<close>.
  \<^item> \<open>handleCalculate\<close> is asynchronous. \<open>handleCalculate_start\<close> is the part that runs when
    the form is submitted, \<open>handleCalculate_settle\<close> the part that runs when the analysis has
    returned or thrown: the \<open>try\<close> block after the \<open>await\<close>, the \<open>catch\<close> and the \<open>finally\<close>.
    State updates of one part are applied together, in the order of the calls.
  \<^item> A \<open>Config\<close> is the state of the application, the state of the form and the request
    that is under way. \<open>dispatch\<close> applies one event to it and is \<open>None\<close> when the page
    does not offer the event: the form exists in the input step only, its button is disabled
    while loading, the browser submits it only with every shown field filled in, and the
    back button and the planets exist in the result step only. The form is unmounted in the
    result step, so it starts empty again afterwards.
  \<^item> \<open>reachable\<close> is the set of configurations that the events lead to from the start.
\<close>

section \<open>BirthForm\<close>

datatype Mode = ModeNatal | ModeSynastry

record FormState =
  mode :: Mode
  personA :: BirthDetails
  personB :: BirthDetails

datatype Field = FieldName | FieldDate | FieldTime | FieldLocation

definition emptyDetails :: BirthDetails where
  "emptyDetails = \<lparr>date = '''', time = '''', location = '''', BirthDetails.name = ''''\<rparr>"

definition initialForm :: FormState where
  "initialForm = \<lparr>mode = ModeNatal, personA = emptyDetails, personB = emptyDetails\<rparr>"

definition setField :: "Field \<Rightarrow> string \<Rightarrow> BirthDetails \<Rightarrow> BirthDetails" where
  "setField f v d =
    (case f of
       FieldName \<Rightarrow> d\<lparr>BirthDetails.name := v\<rparr>
     | FieldDate \<Rightarrow> d\<lparr>date := v\<rparr>
     | FieldTime \<Rightarrow> d\<lparr>time := v\<rparr>
     | FieldLocation \<Rightarrow> d\<lparr>location := v\<rparr>)"

definition filledIn :: "BirthDetails \<Rightarrow> bool" where
  "filledIn d \<longleftrightarrow> BirthDetails.name d \<noteq> '''' \<and> date d \<noteq> '''' \<and> time d \<noteq> '''' \<and> location d \<noteq> ''''"

definition formValid :: "FormState \<Rightarrow> bool" where
  "formValid f \<longleftrightarrow> filledIn (FormState.personA f) \<and> (mode f = ModeSynastry \<longrightarrow> filledIn (FormState.personB f))"

definition handleSubmit :: "FormState \<Rightarrow> BirthDetails \<times> BirthDetails option" where
  "handleSubmit f =
    (if mode f = ModeNatal then (FormState.personA f, None)
     else (FormState.personA f, Some (FormState.personB f)))"

section \<open>App\<close>

datatype Step = StepInput | StepResult

record AppState =
  step :: Step
  isLoading :: bool
  loadingStep :: string
  chartData :: "(ChartData + SynastryData) option"
  isSynastry :: bool
  selectedPlanet :: "Selection option"
  error :: "string option"

definition initialState :: AppState where
  "initialState = \<lparr>step = StepInput, isLoading = False, loadingStep = '''', chartData = None,
     isSynastry = False, selectedPlanet = None, error = None\<rparr>"

definition handleCalculate_start :: "BirthDetails option \<Rightarrow> AppState \<Rightarrow> AppState" where
  "handleCalculate_start detailsB s =
    (let s1 = s\<lparr>isLoading := True\<rparr>;
         s2 = s1\<lparr>loadingStep := ''Accessing Ephemeris Data...''\<rparr>;
         s3 = s2\<lparr>error := None\<rparr>
     in case detailsB of
          Some b \<Rightarrow> s3\<lparr>loadingStep := ''Calculating Synastry Aspects...''\<rparr>
        | None \<Rightarrow> s3\<lparr>loadingStep := ''Constructing Natal Chart...''\<rparr>)"

definition handleCalculate_settle ::
  "Runtime \<Rightarrow> ('b, 't, 'v) Astronomy \<Rightarrow> BirthDetails \<Rightarrow> BirthDetails option \<Rightarrow> AppState \<Rightarrow> AppState" where
  "handleCalculate_settle R A detailsA detailsB s =
    (let tried =
           (case detailsB of
              Some b \<Rightarrow>
                bind_result (analyzeSynastry R A detailsA b) (\<lambda>data.
                  Inr (s\<lparr>chartData := Some (Inr data), isSynastry := True\<rparr>))
            | None \<Rightarrow>
                bind_result (analyzeBirthChart R A detailsA) (\<lambda>data.
                  Inr (s\<lparr>chartData := Some (Inl data), isSynastry := False\<rparr>)));
         caught =
           (case tried of
              Inr s' \<Rightarrow> s'\<lparr>step := StepResult\<rparr>
            | Inl err \<Rightarrow> s\<lparr>error := Some ''Alignment Error. Please verify your coordinates.''\<rparr>)
     in caught\<lparr>isLoading := False, loadingStep := ''''\<rparr>)"

definition handleReset :: "AppState \<Rightarrow> AppState" where
  "handleReset s = s\<lparr>step := StepInput, chartData := None, selectedPlanet := None, isSynastry := False\<rparr>"

definition getDataForWheel :: "AppState \<Rightarrow> (ChartData option \<times> ChartData option) result" where
  "getDataForWheel s =
    (case chartData s of
       None \<Rightarrow> Inr (None, None)
     | Some d \<Rightarrow>
         if isSynastry s then
           (case d of
              Inr sData \<Rightarrow> Inr (Some (SynastryData.personA sData), Some (SynastryData.personB sData))
            | Inl c \<Rightarrow> Inr (None, None))
         else
           (case d of
              Inl c \<Rightarrow> Inr (Some c, None)
            | Inr sData \<Rightarrow> Inl (TypeError ''data.planets is undefined'')))"

definition onPlanetSelect :: "PlanetPosition \<Rightarrow> Owner \<Rightarrow> AppState \<Rightarrow> AppState" where
  "onPlanetSelect p who s = s\<lparr>selectedPlanet := Some (p, who)\<rparr>"

section \<open>The state machine\<close>

datatype Event =
  SetMode Mode
| EditA Field string
| EditB Field string
| Submit
| Settle
| Back
| SelectPlanet PlanetPosition Owner

record Config =
  app :: AppState
  form :: FormState
  pending :: "(BirthDetails \<times> BirthDetails option) option"

definition initialConfig :: Config where
  "initialConfig = \<lparr>app = initialState, form = initialForm, pending = None\<rparr>"

definition plotted :: "AppState \<Rightarrow> PlanetPosition \<Rightarrow> Owner \<Rightarrow> bool" where
  "plotted s p who =
    (case getDataForWheel s of
       Inr (Some primary, secondary) \<Rightarrow>
         (who = OwnerA \<and> p \<in> set (planets primary))
         \<or> (case secondary of
               Some second \<Rightarrow> who = OwnerB \<and> p \<in> set (planets second)
             | None \<Rightarrow> False)
     | _ \<Rightarrow> False)"

definition dispatch :: "Runtime \<Rightarrow> ('b, 't, 'v) Astronomy \<Rightarrow> Event \<Rightarrow> Config \<Rightarrow> Config option" where
  "dispatch R A e c =
    (case e of
       SetMode m \<Rightarrow>
         if step (app c) = StepInput then Some (c\<lparr>form := (form c)\<lparr>mode := m\<rparr>\<rparr>) else None
     | EditA f v \<Rightarrow>
         if step (app c) = StepInput
         then Some (c\<lparr>form := (form c)\<lparr>personA := setField f v (FormState.personA (form c))\<rparr>\<rparr>)
         else None
     | EditB f v \<Rightarrow>
         if step (app c) = StepInput \<and> mode (form c) = ModeSynastry
         then Some (c\<lparr>form := (form c)\<lparr>personB := setField f v (FormState.personB (form c))\<rparr>\<rparr>)
         else None
     | Submit \<Rightarrow>
         if step (app c) = StepInput \<and> \<not> isLoading (app c) \<and> formValid (form c)
         then Some (c\<lparr>app := handleCalculate_start (snd (handleSubmit (form c))) (app c),
                       pending := Some (handleSubmit (form c))\<rparr>)
         else None
     | Settle \<Rightarrow>
         (case pending c of
            None \<Rightarrow> None
          | Some (detailsA, detailsB) \<Rightarrow>
              let s' = handleCalculate_settle R A detailsA detailsB (app c)
              in Some \<lparr>app = s', form = (if step s' = StepResult then initialForm else form c),
                       pending = None\<rparr>)
     | Back \<Rightarrow>
         if step (app c) = StepResult then Some (c\<lparr>app := handleReset (app c)\<rparr>) else None
     | SelectPlanet p who \<Rightarrow>
         if step (app c) = StepResult \<and> plotted (app c) p who
         then Some (c\<lparr>app := onPlanetSelect p who (app c)\<rparr>)
         else None)"

inductive reachable :: "Runtime \<Rightarrow> ('b, 't, 'v) Astronomy \<Rightarrow> Config \<Rightarrow> bool"
  for R :: Runtime and A :: "('b, 't, 'v) Astronomy" where
  init: "reachable R A initialConfig"
| step: "reachable R A c \<Longrightarrow> dispatch R A e c = Some c' \<Longrightarrow> reachable R A c'"

fun run :: "Runtime \<Rightarrow> ('b, 't, 'v) Astronomy \<Rightarrow> Event list \<Rightarrow> Config \<Rightarrow> Config option" where
  "run R A [] c = Some c"
| "run R A (e # es) c = (case dispatch R A e c of None \<Rightarrow> None | Some c' \<Rightarrow> run R A es c')"

section \<open>Notions used to state the properties\<close>

text \<open>
  \<open>appInv\<close> is the invariant of the state machine. \<open>settled\<close> and \<open>failed\<close> are the two
  states in which \<open>handleCalculate_settle\<close> can leave the application.
\<close>

definition appInv :: "Config \<Rightarrow> bool" where
  "appInv c \<longleftrightarrow>
    (let s = app c in
      (step s = StepResult \<longrightarrow> chartData s \<noteq> None \<and> form c = initialForm)
      \<and> (step s = StepInput \<longrightarrow> chartData s = None \<and> selectedPlanet s = None \<and> \<not> isSynastry s)
      \<and> (case chartData s of
            None \<Rightarrow> True
          | Some d \<Rightarrow> (isSynastry s \<longleftrightarrow> \<not> isl d) \<and> dataOK d)
      \<and> (isLoading s \<longleftrightarrow> pending c \<noteq> None)
      \<and> (isLoading s \<longrightarrow> step s = StepInput \<and> error s = None)
      \<and> (\<not> isLoading s \<longrightarrow> loadingStep s = '''')
      \<and> (step s = StepResult \<longrightarrow> error s = None)
      \<and> (case selectedPlanet s of
            None \<Rightarrow> True
          | Some sel \<Rightarrow> plotted s (fst sel) (snd sel)))"

definition settled :: "AppState \<Rightarrow> ChartData + SynastryData \<Rightarrow> AppState" where
  "settled s d = s\<lparr>chartData := Some d, isSynastry := \<not> isl d, step := StepResult,
     isLoading := False, loadingStep := ''''\<rparr>"

definition failed :: "AppState \<Rightarrow> AppState" where
  "failed s = s\<lparr>error := Some ''Alignment Error. Please verify your coordinates.'',
     isLoading := False, loadingStep := ''''\<rparr>"

text \<open>\<open>exampleEvents\<close> fills in the form for one person, submits it and lets the request settle.\<close>

definition exampleEvents :: "Event list" where
  "exampleEvents =
    [EditA FieldName ''Ada'', EditA FieldDate ''2000-01-01'', EditA FieldTime ''12:00'',
     EditA FieldLocation ''Null Island'', Submit, Settle]"

lemmas [celestia_defs] = emptyDetails_def initialForm_def setField_def filledIn_def formValid_def
  handleSubmit_def initialState_def handleCalculate_start_def handleCalculate_settle_def
  handleReset_def getDataForWheel_def onPlanetSelect_def initialConfig_def plotted_def dispatch_def

section \<open>The handlers\<close>

lemma handleCalculate_start_fields [simp]:
  shows "isLoading (handleCalculate_start b s)"
    and "error (handleCalculate_start b s) = None"
    and "step (handleCalculate_start b s) = step s"
    and "chartData (handleCalculate_start b s) = chartData s"
    and "isSynastry (handleCalculate_start b s) = isSynastry s"
    and "selectedPlanet (handleCalculate_start b s) = selectedPlanet s"
    and "loadingStep (handleCalculate_start b s)
      = (if b = None then ''Constructing Natal Chart...'' else ''Calculating Synastry Aspects...'')"
  by (simp_all add: handleCalculate_start_def Let_def split: option.splits)

lemma handleReset_fields [simp]:
  shows "step (handleReset s) = StepInput" and "chartData (handleReset s) = None"
    and "selectedPlanet (handleReset s) = None" and "\<not> isSynastry (handleReset s)"
    and "isLoading (handleReset s) = isLoading s" and "error (handleReset s) = error s"
    and "loadingStep (handleReset s) = loadingStep s"
  by (simp_all add: handleReset_def)

lemma onPlanetSelect_fields [simp]:
  shows "selectedPlanet (onPlanetSelect p who s) = Some (p, who)"
    and "step (onPlanetSelect p who s) = step s"
    and "chartData (onPlanetSelect p who s) = chartData s"
    and "isSynastry (onPlanetSelect p who s) = isSynastry s"
    and "isLoading (onPlanetSelect p who s) = isLoading s"
    and "error (onPlanetSelect p who s) = error s"
    and "loadingStep (onPlanetSelect p who s) = loadingStep s"
  by (simp_all add: onPlanetSelect_def)

lemma handleCalculate_settle_natal:
  "handleCalculate_settle R A a None s =
    (case analyzeBirthChart R A a of Inr cd \<Rightarrow> settled s (Inl cd) | Inl e \<Rightarrow> failed s)"
  by (cases "analyzeBirthChart R A a")
     (simp_all add: handleCalculate_settle_def settled_def failed_def)

lemma handleCalculate_settle_synastry:
  "handleCalculate_settle R A a (Some b) s =
    (case analyzeSynastry R A a b of Inr sd \<Rightarrow> settled s (Inr sd) | Inl e \<Rightarrow> failed s)"
  by (cases "analyzeSynastry R A a b")
     (simp_all add: handleCalculate_settle_def settled_def failed_def)

lemma handleCalculate_settle_cases:
  obtains (success) d where "handleCalculate_settle R A a b s = settled s d" and "dataOK d"
    and "isl d \<longleftrightarrow> b = None"
  | (failure) "handleCalculate_settle R A a b s = failed s"
proof (cases b)
  case None
  show ?thesis
  proof (cases "analyzeBirthChart R A a")
    case (Inl e)
    with None show ?thesis by (intro failure) (simp add: handleCalculate_settle_natal)
  next
    case (Inr cd)
    with None analyzeBirthChart_chartOK(1) [OF Inr] show ?thesis
      by (intro success [of "Inl cd"]) (simp_all add: handleCalculate_settle_natal dataOK_def)
  qed
next
  case (Some b')
  show ?thesis
  proof (cases "analyzeSynastry R A a b'")
    case (Inl e)
    with Some show ?thesis by (intro failure) (simp add: handleCalculate_settle_synastry)
  next
    case (Inr sd)
    with Some analyzeSynastry_dataOK [OF Inr] show ?thesis
      by (intro success [of "Inr sd"]) (simp_all add: handleCalculate_settle_synastry)
  qed
qed

lemma plotted_cong:
  assumes "chartData s' = chartData s" and "isSynastry s' = isSynastry s"
  shows "plotted s' p who = plotted s p who"
  unfolding plotted_def getDataForWheel_def assms by (rule refl)

section \<open>The invariant\<close>

lemma appInv_initial: "appInv initialConfig"
  by (simp add: appInv_def initialConfig_def initialState_def)

lemma appInv_settled:
  assumes "appInv c" and "pending c \<noteq> None" and "dataOK d"
  shows "appInv \<lparr>app = settled (app c) d, form = initialForm, pending = None\<rparr>"
  using assms by (auto simp: appInv_def settled_def Let_def split: option.splits)

lemma appInv_failed:
  assumes "appInv c" and "pending c \<noteq> None"
  shows "appInv \<lparr>app = failed (app c), form = form c, pending = None\<rparr>"
  using assms by (auto simp: appInv_def failed_def Let_def split: option.splits)

lemma appInv_dispatch:
  assumes "appInv c" and "dispatch R A e c = Some c'"
  shows "appInv c'"
proof (cases e)
  case (SetMode m)
  with assms show ?thesis
    by (auto simp: dispatch_def appInv_def Let_def split: if_splits option.splits)
next
  case (EditA f v)
  with assms show ?thesis
    by (auto simp: dispatch_def appInv_def Let_def split: if_splits option.splits)
next
  case (EditB f v)
  with assms show ?thesis
    by (auto simp: dispatch_def appInv_def Let_def split: if_splits option.splits)
next
  case Submit
  with assms have c': "c' = c\<lparr>app := handleCalculate_start (snd (handleSubmit (form c))) (app c),
      pending := Some (handleSubmit (form c))\<rparr>"
    and g: "step (app c) = StepInput" "\<not> isLoading (app c)"
    by (auto simp: dispatch_def split: if_splits)
  from assms(1) g show ?thesis
    by (simp add: c' appInv_def Let_def plotted_cong split: option.splits)
next
  case Settle
  with assms obtain a b where p: "pending c = Some (a, b)"
    and c': "c' = \<lparr>app = handleCalculate_settle R A a b (app c),
        form = (if step (handleCalculate_settle R A a b (app c)) = StepResult then initialForm else form c),
        pending = None\<rparr>"
    by (auto simp: dispatch_def Let_def split: option.splits)
  from assms(1) p have i: "step (app c) = StepInput" by (simp add: appInv_def Let_def)
  show ?thesis
  proof (cases rule: handleCalculate_settle_cases [of R A a b "app c"])
    case (success d)
    with assms(1) p show ?thesis by (simp add: c' appInv_settled) (simp add: settled_def)
  next
    case failure
    with assms(1) p i show ?thesis by (simp add: c' appInv_failed) (simp add: failed_def appInv_failed)
  qed
next
  case Back
  with assms show ?thesis
    by (auto simp: dispatch_def appInv_def Let_def split: if_splits option.splits)
next
  case (SelectPlanet p who)
  with assms have c': "c' = c\<lparr>app := onPlanetSelect p who (app c)\<rparr>"
    and g: "step (app c) = StepResult" "plotted (app c) p who"
    by (auto simp: dispatch_def split: if_splits)
  have "plotted (onPlanetSelect p who (app c)) q w = plotted (app c) q w" for q w
    by (rule plotted_cong) simp_all
  with assms(1) g show ?thesis
    by (auto simp: c' appInv_def Let_def split: option.splits)
qed

lemma reachable_appInv:
  assumes "reachable R A c"
  shows "appInv c"
  using assms by (induction rule: reachable.induct) (auto intro: appInv_initial appInv_dispatch)

section \<open>Runs\<close>

lemma run_reachable:
  assumes "reachable R A c" and "run R A es c = Some c'"
  shows "reachable R A c'"
  using assms
proof (induction es arbitrary: c)
  case Nil
  then show ?case by simp
next
  case (Cons e es)
  then obtain c1 where "dispatch R A e c = Some c1" and "run R A es c1 = Some c'"
    by (auto split: option.splits)
  with Cons show ?case by (blast intro: reachable.step)
qed

lemma run_append:
  "run R A (es @ es') c = (case run R A es c of None \<Rightarrow> None | Some c' \<Rightarrow> run R A es' c')"
  by (induction es arbitrary: c) (auto split: option.splits)

lemma exampleEvents_submitted:
  "run R A (butlast exampleEvents) initialConfig =
     Some \<lparr>app = handleCalculate_start None initialState,
           form = \<lparr>mode = ModeNatal, personA = exampleDetails, personB = emptyDetails\<rparr>,
           pending = Some (exampleDetails, None)\<rparr>"
  by (simp add: exampleEvents_def dispatch_def initialConfig_def initialState_def initialForm_def
        emptyDetails_def setField_def formValid_def filledIn_def handleSubmit_def
        exampleDetails_def)

lemma exampleEvents_run:
  "\<exists>cd. analyzeBirthChart exampleRuntime exampleSky exampleDetails = Inr cd
     \<and> run exampleRuntime exampleSky exampleEvents initialConfig =
       Some \<lparr>app = settled (handleCalculate_start None initialState) (Inl cd),
             form = initialForm, pending = None\<rparr>"
proof -
  obtain cd where cd: "analyzeBirthChart exampleRuntime exampleSky exampleDetails = Inr cd"
    using analyzeBirthChart_example by blast
  have "exampleEvents = butlast exampleEvents @ [Settle]" by (simp add: exampleEvents_def)
  then have "run exampleRuntime exampleSky exampleEvents initialConfig
      = run exampleRuntime exampleSky (butlast exampleEvents @ [Settle]) initialConfig" by simp
  also have "\<dots> = Some \<lparr>app = settled (handleCalculate_start None initialState) (Inl cd),
             form = initialForm, pending = None\<rparr>"
    unfolding run_append exampleEvents_submitted
    by (simp add: dispatch_def handleCalculate_settle_natal cd settled_def)
  finally show ?thesis using cd by blast
qed

lemma exampleEvents_reachable:
  "\<exists>cd. reachable exampleRuntime exampleSky
     \<lparr>app = settled (handleCalculate_start None initialState) (Inl cd),
      form = initialForm, pending = None\<rparr>"
  using exampleEvents_run run_reachable [OF reachable.init] by blast

section \<open>Properties of the state machine\<close>

text \<open>C8. Every configuration that the events lead to satisfies the invariant: the result step
  has chart data and no error; the input step has no chart data and no selection; the
  synastry flag says which kind of data is held, and the data is well formed; the loading
  flag is set exactly while a request is under way; a selected planet is one of the planets
  drawn.\<close>

theorem reachable_invariant:
  assumes "reachable R A c"
  shows "appInv c"
  using assms by (rule reachable_appInv)

theorem reachable_invariant_witness:
  "\<exists>c. run exampleRuntime exampleSky exampleEvents initialConfig = Some c \<and> appInv c
     \<and> step (app c) = StepResult"
proof -
  from exampleEvents_run obtain c
    where c: "run exampleRuntime exampleSky exampleEvents initialConfig = Some c"
      and s: "step (app c) = StepResult"
    by (auto simp: settled_def)
  from reachable.init c have "reachable exampleRuntime exampleSky c" by (rule run_reachable)
  then have "appInv c" by (rule reachable_invariant)
  with c s show ?thesis by blast
qed

text \<open>C33. A request that is under way always settles: the event is enabled, it clears the
  loading flag and the loading text, and it leaves the application either in the result
  step with chart data or in the input step with the error message.\<close>

theorem settle_finishes:
  assumes "reachable R A c" and "pending c \<noteq> None"
  shows "\<exists>c'. dispatch R A Settle c = Some c'
    \<and> \<not> isLoading (app c') \<and> loadingStep (app c') = '''' \<and> pending c' = None
    \<and> (step (app c') = StepResult \<and> chartData (app c') \<noteq> None \<and> error (app c') = None
       \<or> step (app c') = StepInput \<and> chartData (app c') = None
          \<and> error (app c') = Some ''Alignment Error. Please verify your coordinates.'')"
proof -
  from assms(2) obtain a b where p: "pending c = Some (a, b)" by auto
  from assms(1) have i: "appInv c" by (rule reachable_appInv)
  with p have s: "step (app c) = StepInput" "chartData (app c) = None" "error (app c) = None"
    by (simp_all add: appInv_def Let_def)
  show ?thesis
  proof (cases rule: handleCalculate_settle_cases [of R A a b "app c"])
    case (success d)
    with p s show ?thesis by (simp add: dispatch_def settled_def)
  next
    case failure
    with p s show ?thesis by (simp add: dispatch_def failed_def)
  qed
qed

theorem settle_finishes_witness:
  "\<exists>c'. dispatch exampleRuntime exampleSky Settle
       \<lparr>app = handleCalculate_start None initialState,
        form = \<lparr>mode = ModeNatal, personA = exampleDetails, personB = emptyDetails\<rparr>,
        pending = Some (exampleDetails, None)\<rparr> = Some c'
     \<and> \<not> isLoading (app c')"
proof -
  let ?c = "\<lparr>app = handleCalculate_start None initialState,
        form = \<lparr>mode = ModeNatal, personA = exampleDetails, personB = emptyDetails\<rparr>,
        pending = Some (exampleDetails, None)\<rparr>"
  have "reachable exampleRuntime exampleSky ?c"
    using reachable.init exampleEvents_submitted by (rule run_reachable)
  from settle_finishes [OF this] show ?thesis by auto
qed

text \<open>A submitted form starts a request for the first person alone in natal mode, whatever
  the fields of the second person hold, and for both persons in synastry mode.\<close>

theorem dispatch_Submit:
  assumes "dispatch R A Submit c = Some c'"
  shows "pending c' = Some (FormState.personA (form c),
      if mode (form c) = ModeNatal then None else Some (FormState.personB (form c)))
    \<and> isLoading (app c') \<and> error (app c') = None \<and> formValid (form c)"
  using assms by (auto simp: dispatch_def handleSubmit_def split: if_splits)

text \<open>In the result step the wheel is given a primary chart, and a secondary chart exactly in
  synastry mode.\<close>

theorem reachable_wheel_data:
  assumes "reachable R A c" and "step (app c) = StepResult"
  shows "\<exists>primary secondary. getDataForWheel (app c) = Inr (Some primary, secondary)
    \<and> chartOK primary \<and> (secondary \<noteq> None \<longleftrightarrow> isSynastry (app c))"
proof -
  from assms(1) have "appInv c" by (rule reachable_appInv)
  with assms(2) obtain d where d: "chartData (app c) = Some d"
    and s: "isSynastry (app c) \<longleftrightarrow> \<not> isl d" and ok: "dataOK d"
    by (auto simp: appInv_def Let_def)
  then show ?thesis
    by (cases d) (simp_all add: getDataForWheel_def dataOK_def)
qed

end
