(* ===== verification/Wheel_View.thy ===== *)
theory Wheel_View
  imports Zodiac_Wheel
begin

text \<open>
  The component \<open>ZodiacWheel\<close> of \<open>components/ZodiacWheel.tsx\<close> (\<open>src/unnamed/part_001\<close>,
  lines 73 to 389) as a whole: its three state hooks with the handlers that write them, the
  sectors of the zodiac ring, the marks of the planets, the style of the aspect lines, the
  centre of the wheel, and the function from properties and state to what is drawn.

  \<^item> The hooks \<open>hoveredPlanet\<close>, \<open>isLoaded\<close> and \<open>manualOffset\<close> are the record \<open>WheelState\<close>;
    each handler is a function on it. The value of the range input is a number between its
    \<open>min\<close> and \<open>max\<close>, which is the guard of the event \<open>Slide\<close>.
  \<^item> The string of an SVG path is the list of its commands, a \<open>PathCommand list\<close>; a
    colour is its string; an opacity or a radius is a number.
  \<^item> What the component draws is the record \<open>WheelView\<close>. Class names, transitions and
    the two fixed markers are not part of it.
\<close>

section \<open>The state hooks and their handlers\<close>

record WheelState =
  hoveredPlanet :: "Selection option"
  isLoaded :: bool
  manualOffset :: number

definition initialWheel :: WheelState where
  "initialWheel = \<lparr>hoveredPlanet = None, isLoaded = False, manualOffset = 0\<rparr>"

definition loadTimer :: "WheelState \<Rightarrow> WheelState" where
  "loadTimer w = w\<lparr>isLoaded := True\<rparr>"

definition dataEffect :: "WheelState \<Rightarrow> WheelState" where
  "dataEffect w = w\<lparr>manualOffset := 0\<rparr>"

definition onMouseEnter :: "PlottedPlanet \<Rightarrow> WheelState \<Rightarrow> WheelState" where
  "onMouseEnter p w = w\<lparr>hoveredPlanet := Some (PlanetPosition.truncate p, owner p)\<rparr>"

definition onMouseLeave :: "WheelState \<Rightarrow> WheelState" where
  "onMouseLeave w = w\<lparr>hoveredPlanet := None\<rparr>"

definition onSliderChange :: "number \<Rightarrow> WheelState \<Rightarrow> WheelState" where
  "onSliderChange v w = w\<lparr>manualOffset := v\<rparr>"

definition onResetClick :: "WheelState \<Rightarrow> WheelState" where
  "onResetClick w = w\<lparr>manualOffset := 0\<rparr>"

definition resetVisible :: "WheelState \<Rightarrow> bool" where
  "resetVisible w = (manualOffset w \<noteq> 0)"

section \<open>The zodiac ring\<close>

type_synonym point = "number \<times> number"

definition size' :: number where "size' = center * 2"

datatype PathCommand =
  MoveTo point
| Arc number number number bool bool point
| LineTo point
| ClosePath

record SignSector = ZodiacSign +
  path :: "PathCommand list"
  divider :: "PathCommand list"
  labelX :: number
  labelY :: number

definition signSector :: "number \<Rightarrow> ZodiacSign \<Rightarrow> SignSector" where
  "signSector offset sign' =
    (let startAngle = startDegree sign';
         endAngle = startDegree sign' + 30;
         rOuter = radius;
         rInner = radius * 0.90;
         p1 = getCoordinates offset startAngle rOuter;
         p2 = getCoordinates offset endAngle rOuter;
         p3 = getCoordinates offset endAngle rInner;
         p4 = getCoordinates offset startAngle rInner;
         divStart = getCoordinates offset startAngle (radius * 0.88);
         divEnd = getCoordinates offset startAngle (radius * 1.02);
         labelPos = getCoordinates offset (startAngle + 15) (radius * 0.95)
     in ZodiacSign.extend sign'
          (SignSector.fields
             [MoveTo p1, Arc rOuter rOuter 0 False False p2, LineTo p3,
              Arc rInner rInner 0 False True p4, ClosePath]
             [MoveTo divStart, LineTo divEnd]
             (fst labelPos) (snd labelPos)))"

definition signSectors :: "number \<Rightarrow> SignSector list" where
  "signSectors offset = map (signSector offset) ZODIAC_SIGNS"

definition labelRotation :: "number \<Rightarrow> SignSector \<Rightarrow> number" where
  "labelRotation offset s = startDegree s + 15 + offset + 90"

definition backgroundCircles :: "number list" where
  "backgroundCircles = [radius, radius * 0.90, radius * 0.88, radius * 0.40]"

section \<open>The marks of the planets and the style of the lines\<close>

record PlanetMark =
  markAt :: point
  hitRadius :: number
  dotRadius :: number
  dotFill :: string
  dotStroke :: string
  markOpacity :: number
  labelAt :: point
  labelFill :: string
  labelOpacity :: number
  labelText :: string

definition renderPlanet :: "Selection option \<Rightarrow> bool \<Rightarrow> WheelState \<Rightarrow> PlottedPlanet \<Rightarrow> PlanetMark" where
  "renderPlanet selected synastry w p =
    (let isSelected = isActivePlanet selected p;
         isHovered = isActivePlanet (hoveredPlanet w) p;
         isActive = (isSelected \<or> isHovered);
         isDimmed = (activeSelection (hoveredPlanet w) selected \<noteq> None \<and> \<not> isActive);
         shown = showLabel selected (hoveredPlanet w) synastry p
     in \<lparr>markAt = coords p,
         hitRadius = 14,
         dotRadius = (if isActive then 5 else 3.5),
         dotFill = (if owner p = OwnerA then (if isActive then ''#D4C5A5'' else ''#EAEAEA'')
                    else ''#0A0A0A''),
         dotStroke = (if owner p = OwnerA then ''#0A0A0A''
                      else (if isActive then ''#D4C5A5'' else ''#EAEAEA'')),
         markOpacity = (if isLoaded w then (if isDimmed then 0.2 else 1) else 0),
         labelAt = (fst (coords p), snd (coords p) - 12),
         labelFill = (if isActive then ''#D4C5A5'' else ''#555''),
         labelOpacity = (if shown then 1 else 0),
         labelText = CalculatedPlanet.name p\<rparr>)"

record LineStyle =
  lineFrom :: point
  lineTo :: point
  lineStroke :: string
  strokeWidth :: number
  strokeDasharray :: string
  lineOpacity :: number

definition lineStyle :: "Selection option \<Rightarrow> AspectLine \<Rightarrow> LineStyle" where
  "lineStyle active l =
    (let isActive = lineActive l
     in \<lparr>lineFrom = coords (lineStart l),
         lineTo = coords (lineEnd l),
         lineStroke = (if isActive then ''#D4C5A5'' else ''#333''),
         strokeWidth = (if isActive then 1 else 0.5),
         strokeDasharray = (if lineType l = ''opposition'' \<or> lineType l = ''square'' then ''0''
                            else ''2 2''),
         lineOpacity = (if isActive then 1 else (if active \<noteq> None then 0 else 0.3))\<rparr>)"

definition centerSymbol :: "Selection option \<Rightarrow> code_units" where
  "centerSymbol active = (case active of Some a \<Rightarrow> CalculatedPlanet.symbol (fst a) | None \<Rightarrow> [])"

definition centerDot :: "Selection option \<Rightarrow> bool" where
  "centerDot active = (active = None)"

section \<open>The component\<close>

record WheelView =
  viewBox :: "number \<times> number \<times> number \<times> number"
  circles :: "number list"
  sectors :: "SignSector list"
  lines :: "LineStyle list"
  marks :: "PlanetMark list"
  centerText :: code_units
  centerPoint :: bool
  sliderValue :: number
  resetShown :: bool

definition ZodiacWheel ::
  "ChartData \<Rightarrow> ChartData option \<Rightarrow> Selection option \<Rightarrow> WheelState \<Rightarrow> WheelView" where
  "ZodiacWheel data secondaryData selected w =
    (let offset = rotationOffset (Rising.degree (rising data)) (manualOffset w);
         plottedA = plottedPlanetsA offset (planets data);
         plottedB = plottedPlanetsB offset (map_option planets secondaryData);
         active = activeSelection (hoveredPlanet w) selected;
         synastry = (secondaryData \<noteq> None)
     in \<lparr>viewBox = (0, 0, size', size'),
         circles = backgroundCircles @ tracks plottedA plottedB,
         sectors = signSectors offset,
         lines = map (lineStyle active) (aspectLines synastry active plottedA plottedB),
         marks = map (renderPlanet selected synastry w) plottedA
                 @ map (renderPlanet selected synastry w) plottedB,
         centerText = centerSymbol active,
         centerPoint = centerDot active,
         sliderValue = manualOffset w,
         resetShown = resetVisible w\<rparr>)"

section \<open>The events of the wheel\<close>

datatype WheelEvent =
  TimerFired
| DataChanged
| MouseEnter PlottedPlanet
| MouseLeave
| Slide number
| ResetClick

definition plottedOn :: "ChartData \<Rightarrow> ChartData option \<Rightarrow> WheelState \<Rightarrow> PlottedPlanet list" where
  "plottedOn data secondaryData w =
    (let offset = rotationOffset (Rising.degree (rising data)) (manualOffset w)
     in plottedPlanetsA offset (planets data)
        @ plottedPlanetsB offset (map_option planets secondaryData))"

fun wheelDispatch ::
  "ChartData \<Rightarrow> ChartData option \<Rightarrow> WheelEvent \<Rightarrow> WheelState \<Rightarrow> WheelState option" where
  "wheelDispatch data secondaryData TimerFired w = Some (loadTimer w)"
| "wheelDispatch data secondaryData DataChanged w = Some (dataEffect w)"
| "wheelDispatch data secondaryData (MouseEnter p) w =
     (if p \<in> set (plottedOn data secondaryData w) then Some (onMouseEnter p w) else None)"
| "wheelDispatch data secondaryData MouseLeave w = Some (onMouseLeave w)"
| "wheelDispatch data secondaryData (Slide v) w =
     (if 0 \<le> v \<and> v \<le> 360 then Some (onSliderChange v w) else None)"
| "wheelDispatch data secondaryData ResetClick w = Some (onResetClick w)"

inductive wheelReachable :: "ChartData \<Rightarrow> ChartData option \<Rightarrow> WheelState \<Rightarrow> bool"
  for data :: ChartData and secondaryData :: "ChartData option" where
  initial: "wheelReachable data secondaryData initialWheel"
| step: "wheelReachable data secondaryData w \<Longrightarrow> wheelDispatch data secondaryData e w = Some w'
    \<Longrightarrow> wheelReachable data secondaryData w'"


section \<open>Notions used to state the properties\<close>

text \<open>The first and the last point of the outer arc of a sector, the planets of the chart of
  an owner, and the invariant of the wheel's state: the slider stays in its range and the
  hovered planet is a planet of the chart of its owner.\<close>

definition outerStart :: "SignSector \<Rightarrow> point option" where
  "outerStart s = (case path s of MoveTo p # cs \<Rightarrow> Some p | _ \<Rightarrow> None)"

definition outerEnd :: "SignSector \<Rightarrow> point option" where
  "outerEnd s = (case path s of c # Arc rx ry rot large sweep p # cs \<Rightarrow> Some p | _ \<Rightarrow> None)"




lemmas wheel_handler_defs = initialWheel_def loadTimer_def dataEffect_def onMouseEnter_def
  onMouseLeave_def onSliderChange_def onResetClick_def resetVisible_def

lemmas [celestia_defs] = wheel_handler_defs signSector_def signSectors_def labelRotation_def
  backgroundCircles_def renderPlanet_def lineStyle_def centerSymbol_def centerDot_def
  ZodiacWheel_def plottedOn_def size'_def

section \<open>Rotation\<close>

lemma degrees_full_turn: "(x + 360) * pi / 180 = x * pi / 180 + 2 * pi" for x :: real
  by (simp add: field_simps)

lemma cos_degrees_full_turn [simp]: "cos ((x + 360) * pi / 180) = cos (x * pi / 180)"
  unfolding degrees_full_turn by (rule cos_periodic)

lemma sin_degrees_full_turn [simp]: "sin ((x + 360) * pi / 180) = sin (x * pi / 180)"
  unfolding degrees_full_turn by (rule sin_periodic)

lemma getCoordinates_full_turn:
  shows "getCoordinates (off' + 360) d r = getCoordinates off' d r"
    and "getCoordinates off' (d + 360) r = getCoordinates off' d r"
proof -
  have eq: "d + (off' + 360) = (d + off') + 360" "d + 360 + off' = (d + off') + 360" by simp_all
  show "getCoordinates (off' + 360) d r = getCoordinates off' d r"
    and "getCoordinates off' (d + 360) r = getCoordinates off' d r"
    unfolding getCoordinates_def Let_def eq cos_degrees_full_turn sin_degrees_full_turn
    by (rule refl)+
qed

lemma getCoordinates_on_circle:
  "(fst (getCoordinates off' d r) - center)\<^sup>2 + (snd (getCoordinates off' d r) - center)\<^sup>2 = r\<^sup>2"
proof -
  have "(r * cos x)\<^sup>2 + (r * sin x)\<^sup>2 = r\<^sup>2" for x :: real
    using sin_cos_squared_add2 [of x] by (simp add: power_mult_distrib distrib_left [symmetric])
  then show ?thesis by (simp add: getCoordinates_def Let_def)
qed

section \<open>The sectors\<close>

lemma signSector_fields [simp]:
  shows "path (signSector off' z)
      = [MoveTo (getCoordinates off' (startDegree z) radius),
         Arc radius radius 0 False False (getCoordinates off' (startDegree z + 30) radius),
         LineTo (getCoordinates off' (startDegree z + 30) (radius * 0.90)),
         Arc (radius * 0.90) (radius * 0.90) 0 False True
           (getCoordinates off' (startDegree z) (radius * 0.90)),
         ClosePath]"
    and "divider (signSector off' z)
      = [MoveTo (getCoordinates off' (startDegree z) (radius * 0.88)),
         LineTo (getCoordinates off' (startDegree z) (radius * 1.02))]"
    and "(labelX (signSector off' z), labelY (signSector off' z))
      = getCoordinates off' (startDegree z + 15) (radius * 0.95)"
    and "startDegree (signSector off' z) = startDegree z"
    and "ZodiacSign.name (signSector off' z) = ZodiacSign.name z"
  by (simp_all add: signSector_def Let_def ZodiacSign.defs SignSector.defs)

lemma length_signSectors [simp]: "length (signSectors off') = 12"
  by (simp add: signSectors_def ZODIAC_SIGNS_def)

lemma signSectors_nth:
  assumes "i < 12"
  shows "signSectors off' ! i = signSector off' (ZODIAC_SIGNS ! i)"
  using assms unfolding signSectors_def by (intro nth_map) simp

lemma outer_signSector [simp]:
  shows "outerStart (signSector off' z) = Some (getCoordinates off' (startDegree z) radius)"
    and "outerEnd (signSector off' z) = Some (getCoordinates off' (startDegree z + 30) radius)"
  by (simp_all add: outerStart_def outerEnd_def)

section \<open>The handlers\<close>

lemma truncate_plotPlanet [simp]:
  "PlanetPosition.truncate (plotPlanet off' who p) = PlanetPosition.truncate p"
  by (simp add: plotPlanet_def Let_def TrackedPlanet.defs PlottedPlanet.defs PlanetPosition.defs
      CalculatedPlanet.defs)







section \<open>The lines\<close>

lemma aspectLine_active:
  assumes "aspectLine synastry active ip1 jp2 = Some l" and "active \<noteq> None"
  shows "lineActive l"
  using assms by (auto simp: aspectLine_def Let_def split: if_splits)

lemma aspectLines_active:
  assumes "l \<in> set (aspectLines synastry active plottedA plottedB)" and "active \<noteq> None"
  shows "lineActive l"
proof -
  from assms(1) obtain ip1 jp2 where "aspectLine synastry active ip1 jp2 = Some l"
    by (auto simp: aspectLines_def Let_def List.map_filter_def)
  then show ?thesis using assms(2) by (rule aspectLine_active)
qed

section \<open>Plotted planets under rotation\<close>

lemma map_track_plotted [simp]:
  shows "map track (plottedPlanetsA off' ps) = map track (resolveCollisionsDefault ps)"
    and "map track (plottedPlanetsB off' (Some ps)) = map track (resolveCollisionsDefault ps)"
    and "plottedPlanetsB off' None = []"
  by (simp_all add: plottedPlanetsA_def plottedPlanetsB_def)

lemma maxTrack_plotted:
  shows "maxTrack (plottedPlanetsA off' ps) = maxTrack (plottedPlanetsA 0 ps)"
    and "maxTrack (plottedPlanetsB off' qs) = maxTrack (plottedPlanetsB 0 qs)"
  by (cases qs; simp add: maxTrack_def)+

lemma tracks_rotation: 
  "tracks (plottedPlanetsA off' ps) (plottedPlanetsB off' qs)
    = tracks (plottedPlanetsA 0 ps) (plottedPlanetsB 0 qs)"
  unfolding tracks_def maxTrack_plotted [of off'] by (rule refl)

lemma labelText_renderPlanet [simp]:
  "labelText (renderPlanet selected synastry w p) = CalculatedPlanet.name p"
  by (simp add: renderPlanet_def Let_def)

lemma name_truncate [simp]:
  "CalculatedPlanet.name (PlanetPosition.truncate p) = CalculatedPlanet.name p"
  by (simp add: PlanetPosition.defs CalculatedPlanet.defs)

lemma map_name_resolveCollisionsDefault:
  "map CalculatedPlanet.name (resolveCollisionsDefault ps)
    = map CalculatedPlanet.name (sort_key CalculatedPlanet.degree ps)"
proof -
  have "map CalculatedPlanet.name (resolveCollisionsDefault ps)
      = map CalculatedPlanet.name (map PlanetPosition.truncate (resolveCollisionsDefault ps))"
    by simp
  also have "\<dots> = map CalculatedPlanet.name (sort_key CalculatedPlanet.degree ps)"
    by (simp only: resolveCollisionsDefault_def map_truncate_resolveCollisions)
  finally show ?thesis .
qed

section \<open>Properties of the wheel\<close>



text \<open>A line that is drawn is never invisible: while a planet is active only the lines of
  that planet are drawn, at full opacity, so the opacity 0 that the style computes for the
  other lines is never used; with no active planet every line has opacity 0.3.\<close>

theorem lineStyle_visible:
  assumes "l \<in> set (aspectLines synastry active plottedA plottedB)"
  shows "lineOpacity (lineStyle active l) = (if active = None then 0.3 else 1)"
proof (cases active)
  case None
  with assms have "\<not> lineActive l"
    by (auto simp: aspectLines_def Let_def List.map_filter_def aspectLine_def isActivePlanet_def
        split: if_splits)
  with None show ?thesis by (simp add: lineStyle_def)
next
  case (Some a)
  with assms have "lineActive l" by (intro aspectLines_active [OF assms]) simp
  with Some show ?thesis by (simp add: lineStyle_def)
qed

text \<open>The twelve sectors tile the ring: the outer arc of the \<open>i\<close>-th sector starts at
  \<open>30 i\<close> degrees on the rim and ends where the arc of the next sector starts, the last
  one where the first starts.\<close>

theorem signSectors_adjacent:
  assumes "i < 12"
  shows "outerStart (signSectors off' ! i) = Some (getCoordinates off' (30 * real i) radius)
    \<and> outerEnd (signSectors off' ! i) = outerStart (signSectors off' ! (Suc i mod 12))"
proof (cases "i = 11")
  case True
  have "getCoordinates off' (0 + 360) radius = getCoordinates off' 0 radius"
    by (rule getCoordinates_full_turn)
  with True show ?thesis by (simp add: signSectors_nth startDegree_nth)
next
  case False
  with assms have "Suc i < 12" by simp
  with assms show ?thesis by (simp add: signSectors_nth startDegree_nth algebra_simps)
qed

theorem signSectors_adjacent_witness:
  "outerEnd (signSectors 0 ! 11) = outerStart (signSectors 0 ! 0)"
  using signSectors_adjacent [of 11 0] by simp

text \<open>Manual rotation moves the marks and leaves the layout alone: for every state the
  track circles are those of the unrotated wheel, and the labels of the marks are the names
  of the planets of the first chart in ascending order of degree, followed by those of the
  second.\<close>

theorem ZodiacWheel_rotation:
  shows "circles (ZodiacWheel data secondaryData selected w)
      = circles (ZodiacWheel data secondaryData selected (w\<lparr>manualOffset := 0\<rparr>))"
    and "map labelText (marks (ZodiacWheel data secondaryData selected w))
      = map CalculatedPlanet.name (sort_key CalculatedPlanet.degree (planets data))
        @ (case secondaryData of
             None \<Rightarrow> []
           | Some d \<Rightarrow> map CalculatedPlanet.name (sort_key CalculatedPlanet.degree (planets d)))"
proof -
  show "circles (ZodiacWheel data secondaryData selected w)
      = circles (ZodiacWheel data secondaryData selected (w\<lparr>manualOffset := 0\<rparr>))"
    by (simp add: ZodiacWheel_def Let_def
        tracks_rotation [of "rotationOffset (Rising.degree (rising data)) (manualOffset w)"]
        tracks_rotation [of "rotationOffset (Rising.degree (rising data)) 0"])
  show "map labelText (marks (ZodiacWheel data secondaryData selected w))
      = map CalculatedPlanet.name (sort_key CalculatedPlanet.degree (planets data))
        @ (case secondaryData of
             None \<Rightarrow> []
           | Some d \<Rightarrow> map CalculatedPlanet.name (sort_key CalculatedPlanet.degree (planets d)))"
    by (cases secondaryData)
      (simp_all add: ZodiacWheel_def Let_def comp_def plottedPlanetsA_def plottedPlanetsB_def
        map_name_resolveCollisionsDefault)
qed

text \<open>A planet that is selected or hovered is drawn at full size with its label, and once
  the wheel has loaded at full opacity; a planet is dimmed exactly when some planet is
  active and it is neither the selected nor the hovered one.\<close>

theorem renderPlanet_active:
  shows "isActivePlanet (activeSelection (hoveredPlanet w) selected) p
      \<Longrightarrow> dotRadius (renderPlanet selected synastry w p) = 5
        \<and> labelOpacity (renderPlanet selected synastry w p) = 1
        \<and> markOpacity (renderPlanet selected synastry w p) = (if isLoaded w then 1 else 0)"
    and "markOpacity (renderPlanet selected synastry w p) = 0.2
      \<longleftrightarrow> isLoaded w \<and> (hoveredPlanet w \<noteq> None \<or> selected \<noteq> None)
          \<and> \<not> isActivePlanet selected p \<and> \<not> isActivePlanet (hoveredPlanet w) p"
  by (auto simp: renderPlanet_def Let_def activeSelection_def showLabel_def
      split: option.splits)

end
