(* ===== verification/App_View.thy ===== *)
theory App_View
  imports App Wheel_View
begin

text \<open>
  What the application shows: the markup of \<open>components/BirthForm.tsx\<close>
  (\<open>src/unnamed/part_000\<close>) and of \<open>App.tsx\<close> (\<open>src/unnamed/part_002\<close>, lines 60 to 152) as
  functions from the state to the content of the page.

  \<^item> \<open>MinimalInput\<close> and \<open>BirthForm\<close> return the labels, types, placeholders and values of the
    inputs and the texts that depend on the state; the optional properties \<open>type\<close> and
    \<open>placeholder\<close> are options, \<open>type\<close> with its default \<open>text\<close>.
  \<^item> \<open>App\<close> returns a \<open>Screen\<close>: the input screen with the form, the loading text and the
    error, or the result screen with the text of the top bar, the wheel, the bottom
    information and the panel.
  \<^item> The child components are part of the result: the wheel is \<open>ZodiacWheel\<close> applied to the
    data of \<open>getDataForWheel\<close>, the panel is \<open>AnalysisPanel\<close> applied to the chart data and
    rendered. An exception in a child is an exception of the page.
  \<^item> \<open>getDataForWheel\<close> never throws in the code, it hands a wrongly cast object on; the first
    access to it in the result screen throws. The model raises that error in
    \<open>getDataForWheel\<close> and evaluates it in the result branch, where the code throws.
  \<^item> The state of the wheel and the random number of the report are parameters of \<open>App\<close>.
\<close>

section \<open>The form\<close>

record InputView =
  inputLabel :: string
  inputType :: string
  placeholder :: "string option"
  inputValue :: string

definition MinimalInput :: "string \<Rightarrow> string \<Rightarrow> string option \<Rightarrow> string option \<Rightarrow> InputView" where
  "MinimalInput label' value' type' placeholder' =
    \<lparr>inputLabel = label',
     inputType = (case type' of None \<Rightarrow> ''text'' | Some t \<Rightarrow> t),
     placeholder = placeholder',
     inputValue = value'\<rparr>"

definition subjectInputs :: "BirthDetails \<Rightarrow> InputView list" where
  "subjectInputs person =
    [MinimalInput ''Name'' (BirthDetails.name person) None (Some ''Enter name''),
     MinimalInput ''Date'' (date person) (Some ''date'') None,
     MinimalInput ''Time'' (time person) (Some ''time'') None,
     MinimalInput ''Location'' (location person) None (Some ''City, Country'')]"

record FormView =
  tagline :: string
  headings :: "string list"
  subjectI :: "InputView list"
  subjectII :: "InputView list"
  submitLabel :: string
  submitDisabled :: bool

definition BirthForm :: "FormState \<Rightarrow> bool \<Rightarrow> FormView" where
  "BirthForm f loading =
    \<lparr>tagline = (if mode f = ModeNatal then ''An instrument for self-discovery.''
                else ''The architecture of your connection.''),
     headings = (if mode f = ModeSynastry then [''- Subject I -'', ''- Subject II -''] else []),
     subjectI = subjectInputs (FormState.personA f),
     subjectII = (if mode f = ModeSynastry then subjectInputs (FormState.personB f) else []),
     submitLabel = (if loading then ''Calculating...'' else ''Analyze''),
     submitDisabled = loading\<rparr>"

section \<open>The page\<close>

datatype BottomInfo =
  Subjects "string option" "string option"
| BigThreeInfo "string option" "string option" "string option"

definition bottomInfo :: "AppState \<Rightarrow> ChartData option \<Rightarrow> BottomInfo result" where
  "bottomInfo s primary =
    (if isSynastry s then
       (case chartData s of
          Some (Inr sData) \<Rightarrow>
            Inr (Subjects (ChartData.name (SynastryData.personA sData))
                          (ChartData.name (SynastryData.personB sData)))
        | _ \<Rightarrow> Inl (TypeError ''personA is undefined''))
     else Inr (BigThreeInfo (map_option (\<lambda>p. sun (bigThree p)) primary)
                            (map_option (\<lambda>p. moon (bigThree p)) primary)
                            (map_option (\<lambda>p. BigThree.rising (bigThree p)) primary)))"

definition panelContent :: "number \<Rightarrow> AppState \<Rightarrow> Content option result" where
  "panelContent random s =
    (case chartData s of
       None \<Rightarrow> Inr None
     | Some d \<Rightarrow>
         bind_result (AnalysisPanel d (isSynastry s) (selectedPlanet s))
           (\<lambda>v. Inr (Some (render random v))))"

record ResultView =
  latText :: "string option"
  wheel :: "WheelView option"
  bottom :: BottomInfo
  panel :: "Content option"

datatype Screen =
  InputScreen FormView "string option" "string option"
| ResultScreen ResultView

definition App :: "number \<Rightarrow> WheelState \<Rightarrow> Config \<Rightarrow> Screen result" where
  "App random w c =
    (let s = app c
     in if step s = StepInput then
          Inr (InputScreen (BirthForm (form c) (isLoading s))
                 (if isLoading s then Some (loadingStep s) else None)
                 (case error s of None \<Rightarrow> None | Some e \<Rightarrow> if e = [] then None else Some e))
        else
          bind_result (getDataForWheel s) (\<lambda>(primary, secondary).
          bind_result (bottomInfo s primary) (\<lambda>b.
          bind_result (panelContent random s) (\<lambda>p.
            Inr (ResultScreen
              \<lparr>latText = map_option (\<lambda>d. toFixed 2 (Rising.degree (rising d))) primary,
               wheel = map_option (\<lambda>d. ZodiacWheel d secondary (selectedPlanet s) w) primary,
               bottom = b,
               panel = p\<rparr>)))))"

lemmas [celestia_defs] = MinimalInput_def subjectInputs_def BirthForm_def bottomInfo_def
  panelContent_def App_def

section \<open>The form and the check of the required fields\<close>

lemma subjectInputs_filled:
  "(\<forall>i \<in> set (subjectInputs d). inputValue i \<noteq> []) \<longleftrightarrow> filledIn d"
  by (auto simp: subjectInputs_def MinimalInput_def filledIn_def)

lemma BirthForm_fields [simp]:
  shows "subjectI (BirthForm f l) = subjectInputs (FormState.personA f)"
    and "subjectII (BirthForm f l)
      = (if mode f = ModeSynastry then subjectInputs (FormState.personB f) else [])"
    and "submitDisabled (BirthForm f l) = l"
  by (simp_all add: BirthForm_def)

section \<open>The page under the invariant\<close>

lemma appInv_panel:
  assumes "appInv c" and "chartData (app c) = Some d"
  shows "\<exists>v. AnalysisPanel d (isSynastry (app c)) (selectedPlanet (app c)) = Inr v \<and> v \<noteq> NoView"
proof -
  from assms have s: "isSynastry (app c) \<longleftrightarrow> \<not> isl d" and ok: "dataOK d"
    by (simp_all add: appInv_def Let_def)
  show ?thesis
  proof (cases d)
    case (Inl natal)
    with ok obtain p where "find (\<lambda>p. CalculatedPlanet.name p = ''Sun'') (planets natal) = Some p"
      using chartOK_Sun [of natal] by (auto simp: dataOK_def)
    with Inl s show ?thesis
      by (cases "selectedPlanet (app c)") (simp_all add: AnalysisPanel_defs)
  next
    case (Inr syn)
    with s show ?thesis
      by (cases "selectedPlanet (app c)") (simp_all add: AnalysisPanel_defs)
  qed
qed

lemma render_Nothing_iff [simp]: "render r v = Nothing \<longleftrightarrow> v = NoView"
  by (cases v) simp_all

lemma appInv_panelContent:
  assumes "appInv c" and "step (app c) = StepResult"
  shows "\<exists>p. panelContent r (app c) = Inr (Some p) \<and> p \<noteq> Nothing"
proof -
  from assms obtain d where d: "chartData (app c) = Some d"
    by (auto simp: appInv_def Let_def)
  from appInv_panel [OF assms(1) d] d show ?thesis
    by (auto simp: panelContent_def)
qed

lemma appInv_bottomInfo:
  assumes "appInv c" and "step (app c) = StepResult"
  shows "\<exists>b. bottomInfo (app c) primary = Inr b"
proof -
  from assms obtain d where "chartData (app c) = Some d" "isSynastry (app c) \<longleftrightarrow> \<not> isl d"
    by (auto simp: appInv_def Let_def)
  then show ?thesis by (cases d) (simp_all add: bottomInfo_def)
qed

lemma appInv_getDataForWheel:
  assumes "appInv c" and "step (app c) = StepResult"
  shows "\<exists>primary secondary. getDataForWheel (app c) = Inr (Some primary, secondary)
    \<and> chartOK primary \<and> (secondary \<noteq> None \<longleftrightarrow> isSynastry (app c))"
proof -
  from assms obtain d where d: "chartData (app c) = Some d"
    and s: "isSynastry (app c) \<longleftrightarrow> \<not> isl d" and ok: "dataOK d"
    by (auto simp: appInv_def Let_def)
  then show ?thesis
    by (cases d) (simp_all add: getDataForWheel_def dataOK_def)
qed

lemma appInv_App:
  assumes "appInv c"
  shows "\<exists>scr. App r w c = Inr scr
    \<and> (case scr of
         InputScreen f l e \<Rightarrow> step (app c) = StepInput
       | ResultScreen v \<Rightarrow> step (app c) = StepResult \<and> wheel v \<noteq> None \<and> latText v \<noteq> None
           \<and> panel v \<noteq> None \<and> panel v \<noteq> Some Nothing)"
proof (cases "step (app c)")
  case StepInput
  then show ?thesis by (simp add: App_def Let_def)
next
  case StepResult
  from appInv_getDataForWheel [OF assms StepResult] obtain primary secondary
    where "getDataForWheel (app c) = Inr (Some primary, secondary)" by blast
  moreover from appInv_bottomInfo [OF assms StepResult] obtain b
    where "bottomInfo (app c) (Some primary) = Inr b" by blast
  moreover from appInv_panelContent [OF assms StepResult] obtain p
    where "panelContent r (app c) = Inr (Some p)" "p \<noteq> Nothing" by blast
  ultimately show ?thesis using StepResult by (simp add: App_def Let_def)
qed

section \<open>Properties of the form\<close>

text \<open>The browser submits the form exactly when every input that the form shows has a value:
  the inputs of the first person, and in synastry mode also those of the second.\<close>

theorem formValid_inputs:
  "formValid f \<longleftrightarrow>
    (\<forall>i \<in> set (subjectI (BirthForm f l) @ subjectII (BirthForm f l)). inputValue i \<noteq> [])"
proof (cases "mode f")
  case ModeNatal
  then show ?thesis by (simp add: formValid_def subjectInputs_filled)
next
  case ModeSynastry
  then show ?thesis by (simp add: formValid_def ball_Un subjectInputs_filled)
qed

theorem formValid_inputs_witness:
  "formValid \<lparr>mode = ModeNatal, personA = exampleDetails, personB = emptyDetails\<rparr>"
proof -
  have "\<forall>i \<in> set (subjectInputs exampleDetails). inputValue i \<noteq> []"
    by (simp add: subjectInputs_def MinimalInput_def exampleDetails_def)
  then show ?thesis
    using formValid_inputs [of "\<lparr>mode = ModeNatal, personA = exampleDetails, personB = emptyDetails\<rparr>" False]
    by simp
qed

end
