(* ===== verification/Spec2Isabelle.thy ===== *)
theory Spec2Isabelle
  imports App_View
begin

text \<open>
  \<^bold>\<open>Celestia: a verification development.\<close>

  Celestia draws astrological charts from birth data. A form takes the name, date, time and
  place of birth of one or two people; a generative model resolves place and time to
  coordinates and a UTC instant; the astronomy service computes the positions of ten bodies,
  the ascendant, the houses, the elemental balance and, for two people, the aspects between
  their charts; the generative model writes interpretations, which are merged into the
  computed chart; a wheel draws the planets on radial tracks and a panel shows the texts.

  \<^bold>\<open>Theories and the code they model.\<close>

  \<^item> \<open>Celestia_Prelude\<close>: the arithmetic of JavaScript numbers and arrays that the program
    uses (\<open>%\<close>, \<open>Math.round\<close>, \<open>Math.atan2\<close>, indexing, \<open>findIndex\<close>), the \<open>error\<close> type, the
    result type \<open>error + 'a\<close> with \<open>bind_result\<close> and \<open>mapM_result\<close>, and their lemmas.
  \<^item> \<open>Celestia_Types\<close>: the interfaces of \<open>types.ts\<close> as records and the tables of
    \<open>constants.ts\<close> (both in \<open>src/unnamed/part_001\<close>, lines 390 to 508).
  \<^item> \<open>Astronomy_Service\<close>: \<open>services/astronomyService.ts\<close> (\<open>src/unnamed/part_003\<close>):
    \<open>getZodiacInfo\<close>, \<open>calculateAscendant\<close>, \<open>calculateChart\<close> with the computation of one
    planet, its house, its retrograde flag and the elemental percentages, and
    \<open>calculateAspects\<close>. The library astronomy-engine is the interface record \<open>Astronomy\<close>;
    every theorem holds for every implementation of it.
  \<^item> \<open>Zodiac_Wheel\<close>: \<open>components/ZodiacWheel.tsx\<close> (\<open>src/unnamed/part_001\<close>, lines 1 to
    389): \<open>resolveCollisions\<close> with its sort, isolation test, lookback, track loop and
    wrap-around patch, the coordinates and radii of the plotted planets, the track circles,
    the aspect lines and the label rule.
  \<^item> \<open>Wheel_View\<close>: the component \<open>ZodiacWheel\<close> of the same file as a whole (lines 73 to
    389): its state hooks \<open>hoveredPlanet\<close>, \<open>isLoaded\<close> and \<open>manualOffset\<close> with their
    handlers, \<open>signSectors\<close>, \<open>renderPlanet\<close>, the style of the aspect lines, the centre,
    the function \<open>ZodiacWheel\<close> from properties and state to what is drawn, and the state
    machine \<open>wheelDispatch\<close> of the events of the wheel.
  \<^item> \<open>Gemini_Service\<close>: \<open>src/services/geminiService.ts\<close>: the three Zod schemas,
    \<open>resolveBirthDetails\<close>, \<open>enrichChart\<close>, \<open>analyzeBirthChart\<close> and \<open>analyzeSynastry\<close>. The
    generative model, \<open>JSON.parse\<close> and \<open>new Date\<close> are the interface record \<open>Runtime\<close>.
  \<^item> \<open>Analysis_Panel\<close>: \<open>src/components/AnalysisPanel.tsx\<close>: the choice of the view,
    \<open>getNormalizedElements\<close>, the report number, and the content of the views: the
    components \<open>PlanetDetailView\<close> (\<open>renderDetail\<close>), \<open>Metric\<close> and \<open>ElementStat\<close> and the
    markup of the synastry report (\<open>renderReport\<close>).
  \<^item> \<open>App\<close>: \<open>components/BirthForm.tsx\<close> (\<open>src/unnamed/part_000\<close>) and \<open>App.tsx\<close>
    (\<open>src/unnamed/part_002\<close>): the form state and \<open>handleSubmit\<close>, the application state
    and \<open>handleCalculate\<close>, \<open>handleReset\<close>, \<open>getDataForWheel\<close>, and the state machine
    \<open>dispatch\<close> of the events that the page offers, with its reachable configurations.
  \<^item> \<open>App_View\<close>: the markup of the same two files: \<open>MinimalInput\<close> and \<open>BirthForm\<close> as the
    inputs and texts of the form, and \<open>App\<close> as the screen that the application shows,
    composed of the form or of the wheel, the bottom information and the rendered panel.
  \<^item> This theory: the properties that span components.

  \<^bold>\<open>How the model corresponds to the code.\<close>

  A JavaScript number that measures something (degrees, hours, pixels) is a \<^typ>\<open>real\<close>;
  one that counts or indexes (houses, percentages, array indices) is an \<^typ>\<open>int\<close>, and a
  track, which the code counts up from 0, a \<^typ>\<open>nat\<close>. Rounding errors of floating point
  and the values \<open>NaN\<close> and \<open>Infinity\<close> are not modelled. An exception is a value
  \<open>Inl e\<close> of the result type, and \<open>await\<close> is \<open>bind_result\<close>. An interface is a record with
  the interface's field names, an object spread is record extension. A name that the code
  uses and that is a constant of the library or of an earlier record has a prime or its
  record's name in front (\<open>date'\<close>, \<open>sorted'\<close>, \<open>ChartData.name\<close>). Every definition is
  executable; the examples are evaluated by the simplifier.

  \<^bold>\<open>What is proved.\<close>

  \<^item> Astronomy service: the normalisation of degrees is in range and idempotent from -360
    degrees on, and neither below; the sign mapping decomposes a longitude into sign and
    degree within the sign; the whole-sign houses are a bijection between signs and houses;
    the ascendant is in range for every latitude, the poles included, where no error is
    raised; a chart that is returned has the ten bodies in order, houses from 1 to 12,
    house 1 exactly in the rising sign, and percentages that sum to 100; the chart fails
    exactly when a call of the astronomy library fails; aspects are symmetric, sorted by
    orb, at most eight and the tightest ones.
  \<^item> Wheel: the layout returns the planets sorted by degree with tracks from 0 to 4; planets
    at most four places apart do not collide; with five planets or fewer nothing collides;
    with six the wrap-around patch can move a collision instead of removing it; the track
    loop terminates and finds the least free track; the tracks are a function of the
    degrees alone; an isolated planet has no other planet within 15 degrees.
  \<^item> Pipeline: the schemas accept the documents they describe and reject others with a
    \<open>ZodError\<close>; merging keeps every computed field; the pipelines fail exactly when one of
    their steps fails; key aspects carry the computed orb or 0, always between 0 and 6.
  \<^item> Wheel as a component: the invariant of its state (the manual rotation stays between
    0 and 360 degrees, the hovered planet is a planet of the chart of its owner); the
    twelve sectors tile the ring; rotation moves the marks and leaves tracks and labels
    alone; a line that is drawn is never invisible.
  \<^item> Panel content: \<open>toFixed\<close> with one digit is the numeral of the nearest tenth; the
    report lists every strength, challenge and key aspect in order; the planet view shows
    the four metrics and the elemental balance exactly when \<open>showsElements\<close> holds.
  \<^item> Application: the invariant \<open>appInv\<close> of the state machine; a request that is under way
    settles and clears the loading state; in every reachable configuration the panel and the
    wheel get data of the shape they cast it to, so that no cast fails and the page renders;
    the form is submitted exactly when every input that it shows has a value.

  \<^bold>\<open>Bounds.\<close> No fuel is used: \<open>firstAvailable\<close>, the only loop that is not a traversal of
  a list, is a total function with a termination proof, and \<open>digitsOf\<close> likewise. The lookback
  window of four and the limit of eight aspects are the constants of the code.

  \<^bold>\<open>Not modelled.\<close> Class names, fixed texts and icons of the markup, transitions and
  the timing of the load animation (the timer is an event); the formatting of numbers
  inside SVG path strings (a path is the list of its commands); the unused state hook
  \<open>isExpanded\<close> of the planet view; the text of the prompts (a request is represented by
  the values interpolated into it); the network and the generative model itself, the
  astronomy library, \<open>JSON.parse\<close> and date parsing (parameters of the model); the unused
  \<open>Observer\<close> object that \<open>calculateChart\<close> constructs; console output.
\<close>

section \<open>Notions used to state the properties\<close>

text \<open>\<open>wheelName\<close> is the name that the wheel gives to an aspect type of the service.\<close>

definition wheelName :: "string \<Rightarrow> string" where
  "wheelName t =
    (if t = ''Conjunction'' then ''conjunction''
     else if t = ''Sextile'' then ''sextile''
     else if t = ''Square'' then ''square''
     else if t = ''Trine'' then ''trine''
     else if t = ''Opposition'' then ''opposition''
     else '''')"

section \<open>The wheel and the astronomy service\<close>


text \<open>C34. Every aspect line that the wheel draws is an aspect of the same type for the aspect
  detector of the service.\<close>

theorem wheelAspectType_agrees:
  assumes "wheelAspectType x synastry \<noteq> ''''"
  shows "wheelAspectType x synastry = wheelName (classifyAspect x)"
  using assms
  by (auto simp: wheelAspectType_def wheelName_def classifyAspect_bands split: if_splits)

theorem wheelAspectType_agrees_witness:
  "wheelAspectType 175 False = wheelName (classifyAspect 175) \<and> wheelAspectType 175 False = ''opposition''"
proof
  show "wheelAspectType 175 False = wheelName (classifyAspect 175)"
    by (rule wheelAspectType_agrees) (simp add: wheelAspectType_def)
  show "wheelAspectType 175 False = ''opposition''" by (simp add: wheelAspectType_def)
qed


section \<open>The pipeline and the astronomy service\<close>

text \<open>C28. The chart data that \<open>analyzeBirthChart\<close> returns lists the ten bodies in the order of
  \<open>BODIES\<close>, each in a house from 1 to 12 and with a non-empty interpretation; its elemental
  percentages sum to 100 and it carries the name that was entered.\<close>

theorem analyzeBirthChart_wellformed:
  assumes "analyzeBirthChart R A details = Inr cd"
  shows "map CalculatedPlanet.name (planets cd) = BODIES
    \<and> (\<forall>p\<in>set (planets cd). 1 \<le> house p \<and> house p \<le> 12 \<and> interpretation p \<noteq> '''')
    \<and> balanceTotal (elements cd) = 100
    \<and> ChartData.name cd = Some (BirthDetails.name details)"
  using analyzeBirthChart_chartOK [OF assms] by (simp add: chartOK_def)

theorem analyzeBirthChart_wellformed_witness:
  "\<exists>cd. analyzeBirthChart exampleRuntime exampleSky exampleDetails = Inr cd
     \<and> map CalculatedPlanet.name (planets cd) = BODIES \<and> ChartData.name cd = Some ''Ada''"
proof -
  obtain cd where cd: "analyzeBirthChart exampleRuntime exampleSky exampleDetails = Inr cd"
    using analyzeBirthChart_example by blast
  from analyzeBirthChart_wellformed [OF cd] cd show ?thesis
    by (auto simp: exampleDetails_def)
qed

section \<open>The pipeline, the panel and the wheel\<close>

text \<open>C38. For a chart of the pipeline the panel displays the elemental percentages as they were
  computed: the normalisation for display leaves them unchanged.\<close>

theorem chart_elements_displayed:
  assumes "analyzeBirthChart R A details = Inr cd"
  shows "getNormalizedElements (elements cd) = elements cd"
proof -
  from analyzeBirthChart_chartOK(1) [OF assms] have "balanceTotal (elements cd) = 100"
    by (simp add: chartOK_def)
  then show ?thesis by (simp add: getNormalizedElements_large)
qed

theorem chart_elements_displayed_witness:
  "\<exists>cd. analyzeBirthChart exampleRuntime exampleSky exampleDetails = Inr cd
     \<and> getNormalizedElements (elements cd) = elements cd"
proof -
  obtain cd where cd: "analyzeBirthChart exampleRuntime exampleSky exampleDetails = Inr cd"
    using analyzeBirthChart_example by blast
  from chart_elements_displayed [OF cd] cd show ?thesis by blast
qed

text \<open>C37. The wheel plots each of the ten bodies of a chart of the pipeline exactly once, on a
  track from 0 to 4.\<close>

theorem wheel_plots_ten_bodies:
  assumes "analyzeBirthChart R A details = Inr cd"
  shows "mset (map CalculatedPlanet.name (plottedPlanetsA off' (planets cd))) = mset BODIES
    \<and> length (plottedPlanetsA off' (planets cd)) = 10
    \<and> (\<forall>p\<in>set (plottedPlanetsA off' (planets cd)). track p \<le> 4)"
proof -
  let ?r = "resolveCollisions (planets cd) 6"
  from analyzeBirthChart_chartOK(1) [OF assms]
  have names: "map CalculatedPlanet.name (planets cd) = BODIES" by (simp add: chartOK_def)
  have "map CalculatedPlanet.name ?r = map CalculatedPlanet.name (map PlanetPosition.truncate ?r)"
    by (simp add: comp_def PlanetPosition.defs CalculatedPlanet.defs)
  also have "\<dots> = map CalculatedPlanet.name (sort_key CalculatedPlanet.degree (planets cd))"
    by (simp only: map_truncate_resolveCollisions)
  finally have "mset (map CalculatedPlanet.name ?r) = mset (map CalculatedPlanet.name (planets cd))"
    by simp
  moreover have "length ?r = 10" using arg_cong [OF names, of length] by simp
  moreover have "\<forall>p\<in>set ?r. track p \<le> 4" by (simp add: resolveCollisions_track_le_4)
  ultimately show ?thesis
    by (simp add: plottedPlanetsA_def resolveCollisionsDefault_def names comp_def)
qed

theorem wheel_plots_ten_bodies_witness:
  "\<exists>cd. analyzeBirthChart exampleRuntime exampleSky exampleDetails = Inr cd
     \<and> length (plottedPlanetsA 0 (planets cd)) = 10"
proof -
  obtain cd where cd: "analyzeBirthChart exampleRuntime exampleSky exampleDetails = Inr cd"
    using analyzeBirthChart_example by blast
  from wheel_plots_ten_bodies [OF cd, of 0] cd show ?thesis by blast
qed

section \<open>The application and the panel\<close>

text \<open>C11. In every configuration that the events lead to, the panel renders the chart data that
  the application holds: the unchecked cast is right, so nothing throws, and the view is
  never empty, because a chart of the pipeline has a Sun.\<close>

theorem reachable_panel_defined:
  assumes "reachable R A c" and "chartData (app c) = Some d"
  shows "\<exists>v. AnalysisPanel d (isSynastry (app c)) (selectedPlanet (app c)) = Inr v \<and> v \<noteq> NoView"
  using reachable_appInv [OF assms(1)] assms(2) by (rule appInv_panel)

theorem reachable_panel_defined_witness:
  "\<exists>c d v. run exampleRuntime exampleSky exampleEvents initialConfig = Some c
     \<and> chartData (app c) = Some d
     \<and> AnalysisPanel d (isSynastry (app c)) (selectedPlanet (app c)) = Inr v \<and> v \<noteq> NoView"
proof -
  from exampleEvents_run obtain c d
    where c: "run exampleRuntime exampleSky exampleEvents initialConfig = Some c"
      and d: "chartData (app c) = Some d"
    by (auto simp: settled_def)
  from reachable.init c have "reachable exampleRuntime exampleSky c" by (rule run_reachable)
  from reachable_panel_defined [OF this d] c d show ?thesis by blast
qed

section \<open>The application and the page\<close>

text \<open>C12. In every configuration that the events lead to, and for every state of the wheel, the
  page renders without an exception: in the input step it is the form; in the result step
  it shows the wheel of the primary chart, the text of the top bar and a panel that is not
  empty.\<close>

theorem reachable_App_renders:
  assumes "reachable R A c"
  shows "\<exists>scr. App r w c = Inr scr
    \<and> (case scr of
         InputScreen f l e \<Rightarrow> step (app c) = StepInput
       | ResultScreen v \<Rightarrow> step (app c) = StepResult \<and> wheel v \<noteq> None \<and> latText v \<noteq> None
           \<and> panel v \<noteq> None \<and> panel v \<noteq> Some Nothing)"
  using reachable_appInv [OF assms] by (rule appInv_App)

theorem reachable_App_renders_witness:
  "\<exists>c v. run exampleRuntime exampleSky exampleEvents initialConfig = Some c
     \<and> App (1 / 2) initialWheel c = Inr (ResultScreen v) \<and> wheel v \<noteq> None \<and> panel v \<noteq> None"
proof -
  from exampleEvents_run obtain c
    where c: "run exampleRuntime exampleSky exampleEvents initialConfig = Some c"
      and s: "step (app c) = StepResult"
    by (auto simp: settled_def)
  from reachable.init c have "reachable exampleRuntime exampleSky c" by (rule run_reachable)
  from reachable_App_renders [OF this, of "1 / 2" initialWheel] obtain scr
    where scr: "App (1 / 2) initialWheel c = Inr scr"
      and *: "case scr of
          InputScreen f l e \<Rightarrow> step (app c) = StepInput
        | ResultScreen v \<Rightarrow> step (app c) = StepResult \<and> wheel v \<noteq> None \<and> latText v \<noteq> None
            \<and> panel v \<noteq> None \<and> panel v \<noteq> Some Nothing"
    by blast
  from * s obtain v where "scr = ResultScreen v" "wheel v \<noteq> None" "panel v \<noteq> None"
    by (cases scr) auto
  with c scr show ?thesis by blast
qed

end
